theory Spec2Isabelle
  imports Main
begin

section \<open>The S2I build orchestrator of pkg/build/builder/sti.go\<close>

text \<open>
  A shallow embedding of \<^verbatim>\<open>S2IBuilder.Build\<close> and of its helpers. A Go string is
  a byte sequence and is modelled as a \<open>string\<close>; a nil-able pointer is an \<open>option\<close>;
  a Go \<open>map[string]string\<close> is a map \<open>string \<rightharpoonup> string\<close>. The collaborators of the
  orchestrator (container engine, assembly strategy, validator, file system, external
  processes, HTTP client, clock) are not part of the file: they are the fields of an
  environment record, and every answer they give may depend on the calls made so far.
\<close>

subsection \<open>The functions of Go's \<^verbatim>\<open>strings\<close> package that the file calls\<close>

definition HasPrefix :: "string \<Rightarrow> string \<Rightarrow> bool" where
  "HasPrefix s p = (take (length p) s = p)"

text \<open>\<^verbatim>\<open>strings.Contains(s, substr)\<close>: \<open>substr\<close> occurs at some offset of \<open>s\<close>.\<close>

fun Contains :: "string \<Rightarrow> string \<Rightarrow> bool" where
  "Contains [] sub = (sub = [])"
| "Contains (c # cs) sub = (HasPrefix (c # cs) sub \<or> Contains cs sub)"

text \<open>
  \<^verbatim>\<open>strings.ReplaceAll(s, old, new)\<close> for a non-empty \<open>old\<close> (both call sites pass a
  constant): the occurrences of \<open>old\<close> are found from left to right, without overlap,
  and each is replaced by \<open>new\<close>. The case of an empty \<open>old\<close> (Go inserts \<open>new\<close>
  around every rune) is not called by the file; the model returns \<open>s\<close> there.
\<close>

function ReplaceAll :: "string \<Rightarrow> string \<Rightarrow> string \<Rightarrow> string" where
  "ReplaceAll [] old new = []"
| "ReplaceAll (c # cs) old new =
     (if old \<noteq> [] \<and> HasPrefix (c # cs) old
      then new @ ReplaceAll (drop (length old) (c # cs)) old new
      else c # ReplaceAll cs old new)"
  by pat_completeness auto
termination
  by (relation "measure (\<lambda>(s, old, new). length s)") auto

text \<open>
  \<^verbatim>\<open>strings.SplitN(s, sep, 2)[0]\<close> for a one-byte separator that occurs in \<open>s\<close>: the
  bytes before its first occurrence.
\<close>

definition beforeFirst :: "char \<Rightarrow> string \<Rightarrow> string" where
  "beforeFirst sep s = takeWhile (\<lambda>c. c \<noteq> sep) s"

text \<open>
  \<^verbatim>\<open>strings.TrimSpace\<close> removes the leading and trailing runes for which
  \<^verbatim>\<open>unicode.IsSpace\<close> holds. On the UTF-8 bytes these are: the ASCII bytes 0x09 to
  0x0D and 0x20; U+0085 and U+00A0 (C2 85, C2 A0); U+1680 (E1 9A 80); U+2000 to
  U+200A, U+2028, U+2029, U+202F (E2 80 xx); U+205F (E2 81 9F); U+3000 (E3 80 80).
  \<open>spaceWidth\<close> is the byte length of a white-space rune at the head of the string
  (0 when there is none); \<open>spaceWidthRev\<close> reads the same rune backwards from the end.
\<close>

definition asciiSpace :: "char \<Rightarrow> bool" where
  "asciiSpace c = (c = CHR 0x09 \<or> c = CHR 0x0A \<or> c = CHR 0x0B \<or> c = CHR 0x0C
                   \<or> c = CHR 0x0D \<or> c = CHR 0x20)"

definition e280Space :: "char \<Rightarrow> bool" where
  "e280Space c = (((0x80 :: nat) \<le> of_char c \<and> of_char c \<le> (0x8A :: nat))
                  \<or> c = CHR 0xA8 \<or> c = CHR 0xA9 \<or> c = CHR 0xAF)"

fun spaceWidth :: "string \<Rightarrow> nat" where
  "spaceWidth (a # b # c # _) =
     (if asciiSpace a then 1
      else if a = CHR 0xC2 \<and> (b = CHR 0x85 \<or> b = CHR 0xA0) then 2
      else if a = CHR 0xE1 \<and> b = CHR 0x9A \<and> c = CHR 0x80 then 3
      else if a = CHR 0xE2 \<and> b = CHR 0x80 \<and> e280Space c then 3
      else if a = CHR 0xE2 \<and> b = CHR 0x81 \<and> c = CHR 0x9F then 3
      else if a = CHR 0xE3 \<and> b = CHR 0x80 \<and> c = CHR 0x80 then 3
      else 0)"
| "spaceWidth [a, b] =
     (if asciiSpace a then 1
      else if a = CHR 0xC2 \<and> (b = CHR 0x85 \<or> b = CHR 0xA0) then 2
      else 0)"
| "spaceWidth [a] = (if asciiSpace a then 1 else 0)"
| "spaceWidth [] = 0"

fun spaceWidthRev :: "string \<Rightarrow> nat" where
  "spaceWidthRev (c # b # a # _) =
     (if asciiSpace c then 1
      else if b = CHR 0xC2 \<and> (c = CHR 0x85 \<or> c = CHR 0xA0) then 2
      else if a = CHR 0xE1 \<and> b = CHR 0x9A \<and> c = CHR 0x80 then 3
      else if a = CHR 0xE2 \<and> b = CHR 0x80 \<and> e280Space c then 3
      else if a = CHR 0xE2 \<and> b = CHR 0x81 \<and> c = CHR 0x9F then 3
      else if a = CHR 0xE3 \<and> b = CHR 0x80 \<and> c = CHR 0x80 then 3
      else 0)"
| "spaceWidthRev [c, b] =
     (if asciiSpace c then 1
      else if b = CHR 0xC2 \<and> (c = CHR 0x85 \<or> c = CHR 0xA0) then 2
      else 0)"
| "spaceWidthRev [c] = (if asciiSpace c then 1 else 0)"
| "spaceWidthRev [] = 0"

function trimLeft :: "string \<Rightarrow> string" where
  "trimLeft s = (if spaceWidth s = 0 \<or> s = [] then s else trimLeft (drop (spaceWidth s) s))"
  by pat_completeness auto
termination
  by (relation "measure length") auto

function trimRightRev :: "string \<Rightarrow> string" where
  "trimRightRev s =
     (if spaceWidthRev s = 0 \<or> s = [] then s else trimRightRev (drop (spaceWidthRev s) s))"
  by pat_completeness auto
termination
  by (relation "measure length") auto

definition TrimSpace :: "string \<Rightarrow> string" where
  "TrimSpace s = rev (trimRightRev (rev (trimLeft s)))"

subsection \<open>Errors and results\<close>

text \<open>
  A Go \<^verbatim>\<open>error\<close> is represented by its message. A call that returns
  \<^verbatim>\<open>(x, err)\<close> and whose \<open>x\<close> is read only when \<open>err\<close> is nil is a sum, \<open>Inl\<close>
  the error. A helper that may also dereference a nil pointer returns a \<open>res\<close>.
\<close>

datatype error = GoError string

datatype 'a res = Ok 'a | Fail error | Panic

subsection \<open>The build object (\<^verbatim>\<open>buildapiv1.Build\<close>): the fields the file reads or writes\<close>

record ObjectReference =
  or_Kind :: string
  or_Name :: string

record EnvVar =
  ev_Name :: string
  ev_Value :: string

record ImageLabel =
  il_Name :: string
  il_Value :: string

record GitBuildSource =
  git_URI :: string
  git_Ref :: string

record SecretBuildSource =
  sec_Name :: string
  sec_DestinationDir :: string

record ConfigMapBuildSource =
  cm_Name :: string
  cm_DestinationDir :: string

record BuildSource =
  src_Git :: "GitBuildSource option"
  src_ContextDir :: string
  src_Secrets :: "SecretBuildSource list"
  src_ConfigMaps :: "ConfigMapBuildSource list"

record SourceBuildStrategy =
  ss_From :: ObjectReference
  ss_Env :: "EnvVar list"
  ss_Scripts :: string
  ss_Incremental :: "bool option"
  ss_ForcePull :: bool

record BuildOutput =
  out_To :: "ObjectReference option"
  out_ImageLabels :: "ImageLabel list"

record BuildPostCommitSpec =
  pc_Command :: "string list"
  pc_Args :: "string list"
  pc_Script :: string

record BuildSpec =
  spec_SourceStrategy :: "SourceBuildStrategy option"
  spec_Source :: BuildSource
  spec_Output :: BuildOutput
  spec_PostCommit :: BuildPostCommitSpec

datatype BuildPhase =
  BuildPhaseNew | BuildPhasePending | BuildPhaseRunning | BuildPhaseComplete
  | BuildPhaseFailed | BuildPhaseError | BuildPhaseCancelled

text \<open>
  Modelled from the spec: "StageTiming: ordered sequence of (stage, step, start, end)
  records; append-only" (the declarations of \<^verbatim>\<open>buildapiv1.StageInfo\<close> and of the
  \<^verbatim>\<open>timing\<close> package are not in the file). A time is a number of nanoseconds.
\<close>

type_synonym time = int

record StepRecord =
  sr_Stage :: string
  sr_Step :: string
  sr_Start :: time
  sr_End :: time

record BuildStatus =
  st_Phase :: BuildPhase
  st_Reason :: string
  st_Message :: string
  st_OutputDockerImageReference :: string
  st_Output_To :: "string option"
  st_Stages :: "StepRecord list"

record Build =
  b_Name :: string
  b_Namespace :: string
  b_Spec :: BuildSpec
  b_Status :: BuildStatus

subsection \<open>The types of the collaborators\<close>

text \<open>\<^verbatim>\<open>git.SourceInfo\<close>; \<^verbatim>\<open>&git.SourceInfo{}\<close> has every field empty.\<close>

record SourceInfo =
  si_Ref :: string
  si_CommitID :: string
  si_Date :: string
  si_AuthorName :: string
  si_AuthorEmail :: string
  si_CommitterName :: string
  si_CommitterEmail :: string
  si_Message :: string
  si_Location :: string
  si_ContextDir :: string

definition emptySourceInfo :: SourceInfo where
  "emptySourceInfo =
     \<lparr> si_Ref = [], si_CommitID = [], si_Date = [], si_AuthorName = [], si_AuthorEmail = [],
       si_CommitterName = [], si_CommitterEmail = [], si_Message = [], si_Location = [],
       si_ContextDir = [] \<rparr>"

text \<open>A parsed URL and a parsed recipe are opaque to the file; each stands for its text.\<close>

datatype URL = URL string

datatype Node = Node string

record ProxyConfig =
  HTTPProxy :: "URL option"
  HTTPSProxy :: "URL option"

record VolumeSpec =
  vol_Source :: string
  vol_Destination :: string
  vol_Keep :: bool

record EnvironmentSpec =
  env_Name :: string
  env_Value :: string

datatype PullPolicy = PullDefault | PullAlways

record Config =
  PreserveWorkingDir :: bool
  WorkingDir :: string
  DockerConfig_Endpoint :: "string option"
  DockerCfgPath :: string
  LabelNamespace :: string
  ScriptsURL :: string
  BuilderImage :: string
  BuilderPullPolicy :: PullPolicy
  Incremental :: bool
  IncrementalFromTag :: string
  Environment :: "EnvironmentSpec list"
  Labels :: "string \<rightharpoonup> string"
  Source_Path :: "string option"
  ContextDir :: string
  cfg_SourceInfo :: "SourceInfo option"
  ForceCopy :: bool
  Injections :: "VolumeSpec list"
  AsDockerfile :: string
  ScriptDownloadProxyConfig :: "ProxyConfig option"
  BlockOnBuild :: bool
  KeepSymlinks :: bool
  AssembleUser :: string
  Destination :: string
  ImageScriptsURL :: string
  AllowedUIDs :: "(int \<times> int) list"

text \<open>\<^verbatim>\<open>docker.Image\<close>: of \<^verbatim>\<open>ContainerConfig\<close> the file reads \<open>User\<close> and \<open>Labels\<close>.\<close>

record Image =
  img_User :: string
  img_Labels :: "string \<rightharpoonup> string"

record FailureReason =
  fr_Reason :: string
  fr_Message :: string

record S2IStepInfo =
  s2i_step_Name :: string
  s2i_step_StartTime :: time
  s2i_step_DurationMilliseconds :: int

record S2IStageInfo =
  s2i_stage_Name :: string
  s2i_stage_Steps :: "S2IStepInfo list"

record BuildInfo =
  bi_Stages :: "S2IStageInfo list"
  bi_FailureReason :: FailureReason

record AuthConfiguration =
  auth_Username :: string
  auth_Password :: string
  auth_ServerAddress :: string

record CGroupLimits =
  cg_CPUPeriod :: int
  cg_CPUQuota :: int
  cg_CPUShares :: int
  cg_MemoryLimitBytes :: int
  cg_MemorySwap :: int
  cg_Parent :: string

record BuildImageOptions =
  bo_Name :: string
  bo_RmTmpContainer :: bool
  bo_ForceRmTmpContainer :: bool
  bo_Dockerfile :: string
  bo_NoCache :: bool
  bo_Pull :: bool
  bo_ContextDir :: string
  bo_CPUPeriod :: int
  bo_CPUQuota :: int
  bo_CPUShares :: int
  bo_Memory :: int
  bo_Memswap :: int
  bo_CgroupParent :: string
  bo_AuthConfigs :: "(string \<times> AuthConfiguration) list"

record PullImageOptions =
  po_Repository :: string
  po_Tag :: string

record PushImageOptions =
  pu_Name :: string
  pu_Tag :: string

record Response =
  resp_StatusCode :: nat

subsection \<open>The calls a run makes\<close>

text \<open>
  Every call that leaves the orchestrator is recorded, in order, with the arguments the
  file passes. A collaborator answers from the calls made before its own
  (\<open>event list\<close>) and its arguments, so an image may be absent at one inspection and
  present at the next.
\<close>

datatype event =
  EvNow
  | EvReadSourceInfo
  | EvRandomBuildTag string string
  | EvInspectImage string
  | EvPullImage PullImageOptions "string list"
  | EvValidateConfig Config
  | EvBuilder Config
  | EvAssemble Config
  | EvStat string
  | EvReadFile string
  | EvOverwriteFile string string
  | EvBuildImage BuildImageOptions
  | EvExec string "string list"
  | EvNewUUID
  | EvSleep nat
  | EvTagImage string string
  | EvPushImage PushImageOptions AuthConfiguration
  | EvHttpPost string string
  | EvCloseBody
  | EvStatusUpdate BuildStatus

subsection \<open>The environment of a run\<close>

text \<open>
  Constants of other packages (the API's stage, step and reason names, the label names
  of the assembly library, the paths and variable names of the builder's own packages):
  their values are not in the file, so they are parameters.
\<close>

record Constants =
  InputContentPath :: string
  defaultDockerfilePath :: string
  PullAuthType :: string
  PushAuthType :: string
  DefaultDockerLabelNamespace :: string
  AllowedUIDsVar :: string
  secretBuildSourceBaseMountPath :: string
  configMapBuildSourceBaseMountPath :: string
  AssembleUserLabel :: string
  DestinationLabel :: string
  ScriptsURLLabel :: string
  StatusReasonGenericBuildFailed :: string
  StatusMessageGenericBuildFailed :: string
  StatusReasonPushImageToRegistryFailed :: string
  StatusMessagePushImageToRegistryFailed :: string
  StagePullImages :: string
  StepPullBaseImage :: string
  StepPullInputImage :: string
  StageBuild :: string
  StepDockerBuild :: string
  StagePushImage :: string
  StepPushImage :: string

text \<open>
  Functions of other packages whose answer depends on their arguments only (the process
  environment and the credential files are fixed during a run).
  \<open>GetStages\<close> and \<open>AppendStageAndStepInfo\<close> are those of the \<^verbatim>\<open>timing\<close> package;
  \<open>addMilliseconds t d\<close> is \<^verbatim>\<open>t.Add(time.Duration(d) * time.Millisecond)\<close>.
\<close>

record Library = Constants +
  filepath_Clean :: "string \<Rightarrow> string"
  filepath_Join :: "string \<Rightarrow> string \<Rightarrow> string"
  Getenv :: "string \<Rightarrow> string"
  ParseProxyURL :: "string \<Rightarrow> error + URL"
  ParseRepositoryTag :: "string \<Rightarrow> string \<times> string"
  toS2ISourceInfo :: "SourceInfo \<Rightarrow> SourceInfo"
  GenerateLabelsFromSourceInfo ::
    "(string \<rightharpoonup> string) \<Rightarrow> SourceInfo \<Rightarrow> string \<Rightarrow> (string \<rightharpoonup> string)"
  buildInfo :: "Build \<Rightarrow> SourceInfo option \<Rightarrow> (string \<times> string) list"
  EnvironmentList_Set :: "EnvironmentSpec list \<Rightarrow> string \<Rightarrow> EnvironmentSpec list"
  GetDockerAuthSearchPaths :: "string \<Rightarrow> string list"
  GetDockerAuth :: "string \<Rightarrow> string \<Rightarrow> AuthConfiguration \<times> bool"
  mergeNodeCredentialsDockerAuth :: "string \<Rightarrow> (string \<times> AuthConfiguration) list option"
  RangeList_Set :: "string \<Rightarrow> error + (int \<times> int) list"
  ParseDockerfile :: "string \<Rightarrow> error + Node"
  buildPostCommit :: "BuildPostCommitSpec \<Rightarrow> string"
  appendPostCommit :: "Node \<Rightarrow> string \<Rightarrow> error + Node"
  dockerfile_Write :: "Node \<Rightarrow> string"
  reportPushFailure :: "error \<Rightarrow> bool \<Rightarrow> AuthConfiguration \<Rightarrow> error"
  base64_EncodeToString :: "string \<Rightarrow> string"
  addMilliseconds :: "time \<Rightarrow> int \<Rightarrow> time"
  GetStages :: "StepRecord list \<Rightarrow> StepRecord list"
  AppendStageAndStepInfo :: "StepRecord list \<Rightarrow> StepRecord list \<Rightarrow> StepRecord list"

text \<open>
  The receiver's fields \<open>dockerSocket\<close> and \<open>cgLimits\<close>, and the collaborators
  whose answer may change during the run. \<open>retryPull\<close> is
  \<^verbatim>\<open>retryImageAction("Pull", ...)\<close> around \<^verbatim>\<open>dockerClient.PullImage\<close>: the error left
  when its attempts are used up, or none. \<open>retryPush\<close> gives the digest and the error
  that the last attempt of \<^verbatim>\<open>dockerClient.PushImage\<close> under
  \<^verbatim>\<open>retryImageAction("Push", ...)\<close> left in \<open>sha\<close> and \<open>err\<close>. \<open>Builder\<close> is
  \<^verbatim>\<open>s.builder.Builder\<close> (its build-info and error); \<open>Builder_Build\<close> is the
  \<^verbatim>\<open>Build\<close> method of the builder it returned: the build-info of the result, when the
  result is not nil, and the error.
\<close>

record env = Library +
  dockerSocket :: string
  cgLimits :: "CGroupLimits option"
  Now :: "event list \<Rightarrow> time"
  readSourceInfo :: "event list \<Rightarrow> error + SourceInfo option"
  randomBuildTag :: "event list \<Rightarrow> string \<Rightarrow> string \<Rightarrow> string"
  InspectImage :: "event list \<Rightarrow> string \<Rightarrow> error + Image option"
  retryPull :: "event list \<Rightarrow> PullImageOptions \<Rightarrow> string list \<Rightarrow> error option"
  ValidateConfig :: "event list \<Rightarrow> Config \<Rightarrow> string list"
  Builder :: "event list \<Rightarrow> Config \<Rightarrow> BuildInfo \<times> error option"
  Builder_Build :: "event list \<Rightarrow> Config \<Rightarrow> BuildInfo option \<times> error option"
  Stat_IsNotExist :: "event list \<Rightarrow> string \<Rightarrow> bool"
  ReadFile :: "event list \<Rightarrow> string \<Rightarrow> error + string"
  BuildImage :: "event list \<Rightarrow> BuildImageOptions \<Rightarrow> error option"
  Exec_Output :: "event list \<Rightarrow> string \<Rightarrow> string list \<Rightarrow> error + string"
  NewUUID :: "event list \<Rightarrow> string"
  tagImage :: "event list \<Rightarrow> string \<Rightarrow> string \<Rightarrow> error option"
  retryPush :: "event list \<Rightarrow> PushImageOptions \<Rightarrow> AuthConfiguration \<Rightarrow> string \<times> error option"
  http_Do :: "event list \<Rightarrow> string \<Rightarrow> string \<Rightarrow> Response option \<times> error option"

subsection \<open>The state of a run\<close>

text \<open>
  \<open>r_build\<close> is the object behind \<^verbatim>\<open>s.build\<close>; \<open>r_ctx\<close> is the timing context, the
  steps recorded so far; \<open>r_trace\<close> the calls made so far; \<open>r_closeBody\<close> says that a
  deferred \<^verbatim>\<open>resp.Body.Close()\<close> is registered; the other fields are the local
  variables of \<^verbatim>\<open>Build\<close> that live across its stages, at their zero values until
  assigned.
\<close>

record run =
  r_build :: Build
  r_ctx :: "StepRecord list"
  r_trace :: "event list"
  r_closeBody :: bool
  r_push :: bool
  r_pushTag :: string
  r_buildTag :: string
  r_config :: Config
  r_opts :: BuildImageOptions
  r_cw_env :: string
  r_cw_workdir :: string
  r_cw_password :: string

definition zeroConfig :: Config where
  "zeroConfig =
     \<lparr> PreserveWorkingDir = False, WorkingDir = [], DockerConfig_Endpoint = None,
       DockerCfgPath = [], LabelNamespace = [], ScriptsURL = [], BuilderImage = [],
       BuilderPullPolicy = PullDefault, Incremental = False, IncrementalFromTag = [],
       Environment = [], Labels = Map.empty, Source_Path = None, ContextDir = [],
       cfg_SourceInfo = None, ForceCopy = False, Injections = [], AsDockerfile = [],
       ScriptDownloadProxyConfig = None, BlockOnBuild = False, KeepSymlinks = False,
       AssembleUser = [], Destination = [], ImageScriptsURL = [], AllowedUIDs = [] \<rparr>"

definition zeroOptions :: BuildImageOptions where
  "zeroOptions =
     \<lparr> bo_Name = [], bo_RmTmpContainer = False, bo_ForceRmTmpContainer = False,
       bo_Dockerfile = [], bo_NoCache = False, bo_Pull = False, bo_ContextDir = [],
       bo_CPUPeriod = 0, bo_CPUQuota = 0, bo_CPUShares = 0, bo_Memory = 0, bo_Memswap = 0,
       bo_CgroupParent = [], bo_AuthConfigs = [] \<rparr>"

definition startRun :: "Build \<Rightarrow> run" where
  "startRun b =
     \<lparr> r_build = b, r_ctx = [], r_trace = [], r_closeBody = False, r_push = False,
       r_pushTag = [], r_buildTag = [], r_config = zeroConfig, r_opts = zeroOptions,
       r_cw_env = [], r_cw_workdir = [], r_cw_password = [] \<rparr>"

text \<open>
  How a run leaves \<^verbatim>\<open>Build\<close>: \<^verbatim>\<open>return nil\<close>, \<^verbatim>\<open>return err\<close> at one
  of the return statements of the file (named by \<open>site\<close>, with its line), or a nil-pointer
  panic.
\<close>

datatype site =
  AtSourceStrategy      \<comment> \<open>line 148\<close>
  | AtReadSourceInfo    \<comment> \<open>line 163\<close>
  | AtProxyConfig       \<comment> \<open>line 176\<close>
  | AtPullBaseImage     \<comment> \<open>line 240\<close>
  | AtAssembleUser      \<comment> \<open>line 269\<close>
  | AtImageLabels       \<comment> \<open>line 278\<close>
  | AtAllowedUIDs       \<comment> \<open>line 298\<close>
  | AtValidateConfig    \<comment> \<open>line 308\<close>
  | AtBuilderFactory    \<comment> \<open>line 323\<close>
  | AtAssemble          \<comment> \<open>line 349\<close>
  | AtReadDockerfile    \<comment> \<open>line 386\<close>
  | AtParseDockerfile   \<comment> \<open>line 390\<close>
  | AtAppendPostCommit  \<comment> \<open>line 394\<close>
  | AtBuildImage        \<comment> \<open>line 408\<close>
  | AtExtractEnv        \<comment> \<open>line 420\<close>
  | AtExtractWorkdir    \<comment> \<open>line 429\<close>
  | AtCwBuild           \<comment> \<open>line 439\<close>
  | AtCwBuildImage      \<comment> \<open>line 461\<close>
  | AtTagImage          \<comment> \<open>line 467\<close>
  | AtPushImage         \<comment> \<open>line 490\<close>

datatype exit = ReturnNil | ReturnErr site error | Panics

text \<open>
  A stage of \<^verbatim>\<open>Build\<close> either falls through to the next stage (\<open>None\<close>) or leaves
  the function.
\<close>

type_synonym stage = "run \<Rightarrow> exit option \<times> run"

definition continue :: stage where
  "continue r = (None, r)"

definition leave :: "exit \<Rightarrow> stage" where
  "leave x r = (Some x, r)"

definition andThen :: "stage \<Rightarrow> stage \<Rightarrow> stage" where
  "andThen f g r = (case f r of (None, r') \<Rightarrow> g r' | (Some x, r') \<Rightarrow> (Some x, r'))"

definition emit :: "event \<Rightarrow> run \<Rightarrow> run" where
  "emit ev r = r\<lparr>r_trace := r_trace r @ [ev]\<rparr>"

definition sourceStrategy :: "run \<Rightarrow> SourceBuildStrategy option" where
  "sourceStrategy r = spec_SourceStrategy (b_Spec (r_build r))"

definition setStatus :: "(BuildStatus \<Rightarrow> BuildStatus) \<Rightarrow> run \<Rightarrow> run" where
  "setStatus f r = r\<lparr>r_build := (r_build r)\<lparr>b_Status := f (b_Status (r_build r))\<rparr>\<rparr>"

definition setConfig :: "(Config \<Rightarrow> Config) \<Rightarrow> run \<Rightarrow> run" where
  "setConfig f r = r\<lparr>r_config := f (r_config r)\<rparr>"

text \<open>\<^verbatim>\<open>s.build.Spec.Strategy.SourceStrategy.ForcePull = false\<close> (line 262).\<close>

definition clearForcePull :: "BuildSpec \<Rightarrow> BuildSpec" where
  "clearForcePull sp =
     sp\<lparr>spec_SourceStrategy :=
          map_option (\<lambda>ss. ss\<lparr>ss_ForcePull := False\<rparr>) (spec_SourceStrategy sp)\<rparr>"

text \<open>\<^verbatim>\<open>timing.RecordNewStep(ctx, stage, step, start, end)\<close>.\<close>

definition RecordNewStep :: "string \<Rightarrow> string \<Rightarrow> time \<Rightarrow> time \<Rightarrow> run \<Rightarrow> run" where
  "RecordNewStep stg stp t0 t1 r =
     r\<lparr>r_ctx := r_ctx r @ [\<lparr>sr_Stage = stg, sr_Step = stp, sr_Start = t0, sr_End = t1\<rparr>]\<rparr>"

text \<open>
  Modelled from the spec: \<^verbatim>\<open>HandleBuildStatusUpdate(s.build, s.client, nil)\<close> is not in
  the file; the status sink "accepts (phase, reason, message, optional output digest,
  stage/step timing list)", so a call hands the sink the build's status as it is then.
\<close>

definition HandleBuildStatusUpdate :: "run \<Rightarrow> run" where
  "HandleBuildStatusUpdate r = emit (EvStatusUpdate (b_Status (r_build r))) r"

subsection \<open>The helpers of the file\<close>

text \<open>
  Modelled from the spec: \<^verbatim>\<open>secretSource\<close>, \<^verbatim>\<open>configMapSource\<close> and the interface
  \<^verbatim>\<open>localObjectBuildSource\<close> are not in the file; "secrets are marked
  non-retained/removed after use, config-map volumes are retained".
\<close>

record localObjectBuildSource =
  lo_Name :: string
  lo_DestinationPath :: string
  lo_IsSecret :: bool

definition secretSource :: "SecretBuildSource \<Rightarrow> localObjectBuildSource" where
  "secretSource x =
     \<lparr>lo_Name = sec_Name x, lo_DestinationPath = sec_DestinationDir x, lo_IsSecret = True\<rparr>"

definition configMapSource :: "ConfigMapBuildSource \<Rightarrow> localObjectBuildSource" where
  "configMapSource x =
     \<lparr>lo_Name = cm_Name x, lo_DestinationPath = cm_DestinationDir x, lo_IsSecret = False\<rparr>"

definition makeVolumeSpec :: "env \<Rightarrow> localObjectBuildSource \<Rightarrow> string \<Rightarrow> VolumeSpec" where
  "makeVolumeSpec env src mountPath =
     \<lparr> vol_Source = filepath_Join env mountPath (lo_Name src),
       vol_Destination = lo_DestinationPath src,
       vol_Keep = (\<not> lo_IsSecret src) \<rparr>"

definition injectConfigMaps :: "env \<Rightarrow> ConfigMapBuildSource list \<Rightarrow> VolumeSpec list" where
  "injectConfigMaps env configMaps =
     map (\<lambda>c. makeVolumeSpec env (configMapSource c) (configMapBuildSourceBaseMountPath env))
       configMaps"

definition injectSecrets :: "env \<Rightarrow> SecretBuildSource list \<Rightarrow> VolumeSpec list" where
  "injectSecrets env secrets =
     map (\<lambda>x. makeVolumeSpec env (secretSource x) (secretBuildSourceBaseMountPath env)) secrets"

text \<open>\<^verbatim>\<open>buildEnvVars\<close>: one \<^verbatim>\<open>Set("key=value")\<close> for each item of the build-info.\<close>

definition buildEnvVars :: "env \<Rightarrow> Build \<Rightarrow> SourceInfo option \<Rightarrow> EnvironmentSpec list" where
  "buildEnvVars env build sourceInfo =
     foldl (\<lambda>envVars item. EnvironmentList_Set env envVars (fst item @ ''='' @ snd item))
       [] (buildInfo env build sourceInfo)"

text \<open>
  \<^verbatim>\<open>s2iBuildLabels\<close> (lines 582 to 605). The assignment to
  \<^verbatim>\<open>sourceInfo.ContextDir\<close> goes through the caller's pointer; no later line of
  \<^verbatim>\<open>Build\<close> reads the source-info again, so the model keeps the change local.
\<close>

definition overrideLabels :: "(string \<rightharpoonup> string) \<Rightarrow> ImageLabel list \<Rightarrow> (string \<rightharpoonup> string)" where
  "overrideLabels labels lbls = foldl (\<lambda>m lbl. m(il_Name lbl \<mapsto> il_Value lbl)) labels lbls"

definition commitRefKey :: "env \<Rightarrow> string" where
  "commitRefKey env = DefaultDockerLabelNamespace env @ ''build.commit.ref''"

definition s2iBuildLabels :: "env \<Rightarrow> Build \<Rightarrow> SourceInfo option \<Rightarrow> (string \<rightharpoonup> string)" where
  "s2iBuildLabels env build sourceInfo =
     (let si0 = (case sourceInfo of None \<Rightarrow> emptySourceInfo | Some si \<Rightarrow> si);
          contextDir = src_ContextDir (spec_Source (b_Spec build));
          si1 = (if length contextDir > 0 then si0\<lparr>si_ContextDir := contextDir\<rparr> else si0);
          labels0 = GenerateLabelsFromSourceInfo env Map.empty (toS2ISourceInfo env si1)
                      (DefaultDockerLabelNamespace env);
          labels1 = (case src_Git (spec_Source (b_Spec build)) of
                       None \<Rightarrow> labels0
                     | Some g \<Rightarrow>
                         if git_Ref g \<noteq> [] then labels0(commitRefKey env \<mapsto> git_Ref g)
                         else labels0)
      in overrideLabels labels1 (out_ImageLabels (spec_Output (b_Spec build))))"

text \<open>\<^verbatim>\<open>scriptProxyConfig\<close> (lines 611 to 641); the loop of lines 614 to 621 first.\<close>

fun scanProxyEnv :: "EnvVar list \<Rightarrow> string \<times> string \<Rightarrow> string \<times> string" where
  "scanProxyEnv [] acc = acc"
| "scanProxyEnv (e # es) (httpProxy, httpsProxy) =
     scanProxyEnv es
       (if ev_Name e = ''HTTP_PROXY'' \<or> ev_Name e = ''http_proxy'' then (ev_Value e, httpsProxy)
        else if ev_Name e = ''HTTPS_PROXY'' \<or> ev_Name e = ''https_proxy''
        then (httpProxy, ev_Value e)
        else (httpProxy, httpsProxy))"

definition proxyFromValues :: "env \<Rightarrow> string \<times> string \<Rightarrow> ProxyConfig option res" where
  "proxyFromValues env v =
     (let httpProxy = fst v; httpsProxy = snd v
      in if length httpProxy = 0 \<and> length httpsProxy = 0 then Ok None
         else
           let config = \<lparr>HTTPProxy = None, HTTPSProxy = None\<rparr>
           in case (if length httpProxy > 0
                    then (case ParseProxyURL env httpProxy of
                            Inl err \<Rightarrow> Inl err
                          | Inr proxyURL \<Rightarrow> Inr (config\<lparr>HTTPProxy := Some proxyURL\<rparr>))
                    else Inr config) of
                Inl err \<Rightarrow> Fail err
              | Inr config1 \<Rightarrow>
                  if length httpsProxy > 0
                  then (case ParseProxyURL env httpsProxy of
                          Inl err \<Rightarrow> Fail err
                        | Inr proxyURL \<Rightarrow> Ok (Some (config1\<lparr>HTTPSProxy := Some proxyURL\<rparr>)))
                  else Ok (Some config1))"

definition scriptProxyConfig :: "env \<Rightarrow> Build \<Rightarrow> ProxyConfig option res" where
  "scriptProxyConfig env build =
     (case spec_SourceStrategy (b_Spec build) of
        None \<Rightarrow> Panic
      | Some ss \<Rightarrow> proxyFromValues env (scanProxyEnv (ss_Env ss) ([], [])))"

text \<open>\<^verbatim>\<open>convertS2IFailureType\<close>: two type conversions.\<close>

definition convertS2IFailureType :: "string \<Rightarrow> string \<Rightarrow> string \<times> string" where
  "convertS2IFailureType reason message = (reason, message)"

text \<open>
  The three readers of \<^verbatim>\<open>docker.InspectImage\<close> (lines 659 to 685), as functions of
  the answer of the engine. \<^verbatim>\<open>image.ContainerConfig\<close> on a nil image panics.
\<close>

definition isImagePresent :: "error + Image option \<Rightarrow> bool" where
  "isImagePresent inspected = (case inspected of Inr (Some img) \<Rightarrow> True | _ \<Rightarrow> False)"

definition getImageLabels :: "error + Image option \<Rightarrow> (string \<rightharpoonup> string) res" where
  "getImageLabels inspected =
     (case inspected of
        Inl err \<Rightarrow> Fail err
      | Inr None \<Rightarrow> Panic
      | Inr (Some img) \<Rightarrow> Ok (img_Labels img))"

definition extractUser :: "string \<Rightarrow> string" where
  "extractUser userSpec =
     (if Contains userSpec '':'' then TrimSpace (beforeFirst (CHR '':'') userSpec)
      else TrimSpace userSpec)"

definition getAssembleUser :: "env \<Rightarrow> error + Image option \<Rightarrow> string res" where
  "getAssembleUser env inspected =
     (case inspected of
        Inl err \<Rightarrow> Fail err
      | Inr None \<Rightarrow> Panic
      | Inr (Some img) \<Rightarrow>
          Ok (extractUser
                (case img_Labels img (AssembleUserLabel env) of
                   Some labelAssembleUser \<Rightarrow> labelAssembleUser
                 | None \<Rightarrow> img_User img)))"

text \<open>
  \<^verbatim>\<open>s.pullImage\<close> (lines 527 to 542) and \<^verbatim>\<open>s.pushImage\<close> (lines 548 to 561): the
  options they pass to the engine.
\<close>

definition pullOptions :: "env \<Rightarrow> string \<Rightarrow> PullImageOptions" where
  "pullOptions env name =
     (let (repository, tag) = ParseRepositoryTag env name;
          options = \<lparr>po_Repository = repository, po_Tag = tag\<rparr>
      in if po_Tag options = [] \<and> Contains name ''@'' then options\<lparr>po_Repository := name\<rparr>
         else options)"

definition pushOptions :: "env \<Rightarrow> string \<Rightarrow> PushImageOptions" where
  "pushOptions env name =
     (let (repository, tag) = ParseRepositoryTag env name
      in \<lparr>pu_Name = repository, pu_Tag = tag\<rparr>)"

text \<open>
  The attestation-registration payload (lines 496 and 498). \<open>attestationName\<close> is the
  value written into its \<open>name\<close> field.
\<close>

definition kernelCmdLine :: "string \<Rightarrow> string \<Rightarrow> string \<Rightarrow> string" where
  "kernelCmdLine cw_password cw_workdir cw_env =
     ''KRUN_CFG=2:512 reboot=k panic=-1 panic_print=0 pci=off nomodules console=hvc0 rw no-kvmapf init=/bin/sh virtio_mmio.device=4K@0xd0000000:5 virtio_mmio.device=4K@0xd0001000:6 virtio_mmio.device=4K@0xd0002000:7 virtio_mmio.device=4K@0xd0003000:8 swiotlb=65536 KRUN_PASS=''
     @ cw_password @ '' KRUN_INIT=/usr/libexec/s2i/run KRUN_WORKDIR='' @ cw_workdir @ '' ''
     @ cw_env"

definition attestationName :: "string \<Rightarrow> string" where
  "attestationName pushTag = ReplaceAll pushTag '':latest'' []"

definition jsonStr :: "env \<Rightarrow> string \<Rightarrow> string \<Rightarrow> string \<Rightarrow> string" where
  "jsonStr env digest pushTag cmdLine =
     ''{\"sha\":\"'' @ digest @ ''\",\"name\":\"'' @ attestationName pushTag
     @ ''\",\"kernel_cmd_line\":\"'' @ base64_EncodeToString env cmdLine @ ''\"}''"

definition registrationURL :: string where
  "registrationURL =
     ''http://registration-attestation-server.attestation:8080/confidential/register-image''"

subsection \<open>The stages of \<^verbatim>\<open>S2IBuilder.Build\<close>\<close>

text \<open>Lines 147 to 149.\<close>

definition checkSourceStrategy :: stage where
  "checkSourceStrategy r =
     (case sourceStrategy r of
        None \<Rightarrow>
          leave (ReturnErr AtSourceStrategy
                   (GoError ''the source to image builder must be used with the source strategy'')) r
      | Some ss \<Rightarrow> continue r)"

text \<open>Lines 151 to 159: \<open>push\<close> and \<open>pushTag\<close>.\<close>

definition noOutputTarget :: "Build \<Rightarrow> bool" where
  "noOutputTarget b =
     (case out_To (spec_Output (b_Spec b)) of
        None \<Rightarrow> True
      | Some to \<Rightarrow> length (or_Name to) = 0)"

definition derivePushTag :: stage where
  "derivePushTag r =
     (let r1 = (if noOutputTarget (r_build r)
                then setStatus (\<lambda>st. st\<lparr>st_OutputDockerImageReference := b_Name (r_build r)\<rparr>) r
                else r\<lparr>r_push := True\<rparr>)
      in continue (r1\<lparr>r_pushTag := st_OutputDockerImageReference (b_Status (r_build r1))\<rparr>))"

text \<open>Lines 161 to 229: the source-info, the build tag, the proxy and the configuration.\<close>

definition cleanContextDir :: "env \<Rightarrow> string \<Rightarrow> string" where
  "cleanContextDir env dir =
     (if length dir \<noteq> 0
      then (let contextDir = filepath_Clean env dir
            in if contextDir = ''.'' \<or> contextDir = ''/'' then [] else contextDir)
      else [])"

definition newConfig ::
  "env \<Rightarrow> Build \<Rightarrow> SourceBuildStrategy \<Rightarrow> SourceInfo option \<Rightarrow> string \<Rightarrow> ProxyConfig option
     \<Rightarrow> Config" where
  "newConfig env b ss sourceInfo pushTag scriptDownloadProxyConfig =
     \<lparr> PreserveWorkingDir = True,
       WorkingDir = ''/tmp'',
       DockerConfig_Endpoint = Some (dockerSocket env),
       DockerCfgPath = Getenv env (PullAuthType env),
       LabelNamespace = DefaultDockerLabelNamespace env,
       ScriptsURL = ss_Scripts ss,
       BuilderImage = or_Name (ss_From ss),
       BuilderPullPolicy = PullAlways,
       Incremental = (case ss_Incremental ss of None \<Rightarrow> False | Some incremental \<Rightarrow> incremental),
       IncrementalFromTag = pushTag,
       Environment = buildEnvVars env b sourceInfo,
       Labels = s2iBuildLabels env b sourceInfo,
       Source_Path = Some (InputContentPath env),
       ContextDir = cleanContextDir env (src_ContextDir (spec_Source (b_Spec b))),
       cfg_SourceInfo = map_option (toS2ISourceInfo env) sourceInfo,
       ForceCopy = True,
       Injections = injectSecrets env (src_Secrets (spec_Source (b_Spec b)))
                    @ injectConfigMaps env (src_ConfigMaps (spec_Source (b_Spec b))),
       AsDockerfile = ''/tmp/dockercontext/Dockerfile'',
       ScriptDownloadProxyConfig = scriptDownloadProxyConfig,
       BlockOnBuild = True,
       KeepSymlinks = True,
       AssembleUser = [],
       Destination = [],
       ImageScriptsURL = [],
       AllowedUIDs = [] \<rparr>"

definition prepareConfig :: "env \<Rightarrow> stage" where
  "prepareConfig env r =
     (let r1 = emit EvReadSourceInfo r
      in case readSourceInfo env (r_trace r) of
           Inl (GoError msg) \<Rightarrow>
             leave (ReturnErr AtReadSourceInfo
                      (GoError (''error reading git source info: '' @ msg))) r1
         | Inr sourceInfo \<Rightarrow>
             let b = r_build r1;
                 buildTag = randomBuildTag env (r_trace r1) (b_Namespace b) (b_Name b);
                 r2 = emit (EvRandomBuildTag (b_Namespace b) (b_Name b)) r1
             in (case scriptProxyConfig env b of
                   Panic \<Rightarrow> leave Panics r2
                 | Fail err \<Rightarrow> leave (ReturnErr AtProxyConfig err) r2
                 | Ok scriptDownloadProxyConfig \<Rightarrow>
                     (case sourceStrategy r2 of
                        None \<Rightarrow> leave Panics r2
                      | Some ss \<Rightarrow>
                          continue
                            (r2\<lparr>r_buildTag := buildTag,
                                r_config := newConfig env b ss sourceInfo (r_pushTag r2)
                                              scriptDownloadProxyConfig\<rparr>))))"

text \<open>
  One call of \<^verbatim>\<open>s.pullImage\<close> between two readings of the clock, recorded as a step
  (lines 235 to 238 and 248 to 251); the result is the error of the pull.
\<close>

definition timedPull ::
  "env \<Rightarrow> string \<Rightarrow> string list \<Rightarrow> string \<Rightarrow> run \<Rightarrow> error option \<times> run" where
  "timedPull env name searchPaths stepName r =
     (let startTime = Now env (r_trace r);
          r1 = emit EvNow r;
          err = retryPull env (r_trace r1) (pullOptions env name) searchPaths;
          r2 = emit (EvPullImage (pullOptions env name) searchPaths) r1;
          endTime = Now env (r_trace r2);
          r3 = emit EvNow r2
      in (err, RecordNewStep (StagePullImages env) stepName startTime endTime r3))"

text \<open>
  The condition \<^verbatim>\<open>ForcePull || !isImagePresent(s.dockerClient, tag)\<close> of lines 234 and
  245: the image is inspected only when \<open>ForcePull\<close> is false.
\<close>

definition pullNeeded :: "env \<Rightarrow> SourceBuildStrategy \<Rightarrow> string \<Rightarrow> run \<Rightarrow> bool \<times> run" where
  "pullNeeded env ss tag r =
     (if ss_ForcePull ss then (True, r)
      else (\<not> isImagePresent (InspectImage env (r_trace r) tag), emit (EvInspectImage tag) r))"

text \<open>Lines 234 to 242: the builder image.\<close>

definition pullBaseImage :: "env \<Rightarrow> stage" where
  "pullBaseImage env r =
     (case sourceStrategy r of
        None \<Rightarrow> leave Panics r
      | Some ss \<Rightarrow>
          let (needed, r1) = pullNeeded env ss (BuilderImage (r_config r)) r
          in if needed
             then (let searchPaths = GetDockerAuthSearchPaths env (PullAuthType env);
                       (err, r2) = timedPull env (BuilderImage (r_config r1)) searchPaths
                                     (StepPullBaseImage env) r1
                   in case err of
                        Some e \<Rightarrow> leave (ReturnErr AtPullBaseImage e) r2
                      | None \<Rightarrow> continue r2)
             else continue r1)"

text \<open>Lines 244 to 265: the previous output image of an incremental build.\<close>

definition incrementalPull :: "env \<Rightarrow> stage" where
  "incrementalPull env r =
     (if Incremental (r_config r)
      then (case sourceStrategy r of
              None \<Rightarrow> leave Panics r
            | Some ss \<Rightarrow>
                let (needed, r1) = pullNeeded env ss (IncrementalFromTag (r_config r)) r
                in if needed
                   then (let searchPaths = GetDockerAuthSearchPaths env (PushAuthType env);
                             (err, r2) = timedPull env (IncrementalFromTag (r_config r1))
                                           searchPaths (StepPullInputImage env) r1
                         in case err of
                              Some e \<Rightarrow>
                                continue
                                  (setConfig (\<lambda>c. c\<lparr>Incremental := False,
                                                     IncrementalFromTag := []\<rparr>) r2)
                            | None \<Rightarrow>
                                continue
                                  (r2\<lparr>r_build :=
                                        (r_build r2)\<lparr>b_Spec :=
                                                       clearForcePull (b_Spec (r_build r2))\<rparr>\<rparr>))
                   else continue r1)
      else continue r)"

text \<open>Lines 267 to 291: the assemble user and the labels of the builder image.\<close>

definition labelOrEmpty :: "(string \<rightharpoonup> string) \<Rightarrow> string \<Rightarrow> string" where
  "labelOrEmpty labels key = (case labels key of None \<Rightarrow> [] | Some v \<Rightarrow> v)"

definition introspectImage :: "env \<Rightarrow> stage" where
  "introspectImage env r =
     (let r1 = emit (EvInspectImage (BuilderImage (r_config r))) r
      in case getAssembleUser env (InspectImage env (r_trace r) (BuilderImage (r_config r))) of
           Panic \<Rightarrow> leave Panics r1
         | Fail err \<Rightarrow> leave (ReturnErr AtAssembleUser err) r1
         | Ok assembleUser \<Rightarrow>
             let r2 = (if length assembleUser > 0
                       then setConfig (\<lambda>c. c\<lparr>AssembleUser := assembleUser\<rparr>) r1
                       else r1);
                 r3 = emit (EvInspectImage (BuilderImage (r_config r2))) r2
             in (case getImageLabels
                        (InspectImage env (r_trace r2) (BuilderImage (r_config r2))) of
                   Panic \<Rightarrow> leave Panics r3
                 | Fail err \<Rightarrow> leave (ReturnErr AtImageLabels err) r3
                 | Ok labels \<Rightarrow>
                     let destination = labelOrEmpty labels (DestinationLabel env);
                         r4 = (if length destination > 0
                               then setConfig (\<lambda>c. c\<lparr>Destination := destination\<rparr>) r3
                               else r3);
                         scriptsURL = labelOrEmpty labels (ScriptsURLLabel env)
                     in continue
                          (if length (ScriptsURL (r_config r4)) = 0 \<and> length scriptsURL > 0
                           then setConfig (\<lambda>c. c\<lparr>ImageScriptsURL := scriptsURL\<rparr>) r4
                           else r4)))"

text \<open>Lines 293 to 300.\<close>

definition setAllowedUIDs :: "env \<Rightarrow> stage" where
  "setAllowedUIDs env r =
     (let allowedUIDs = Getenv env (AllowedUIDsVar env)
      in if length allowedUIDs > 0
         then (case RangeList_Set env allowedUIDs of
                 Inl err \<Rightarrow> leave (ReturnErr AtAllowedUIDs err) r
               | Inr ranges \<Rightarrow> continue (setConfig (\<lambda>c. c\<lparr>AllowedUIDs := ranges\<rparr>) r))
         else continue r)"

text \<open>Lines 302 to 309: the messages of the validation errors, each followed by ", ".\<close>

definition validateConfig :: "env \<Rightarrow> stage" where
  "validateConfig env r =
     (let errs = ValidateConfig env (r_trace r) (r_config r);
          r1 = emit (EvValidateConfig (r_config r)) r
      in if length errs \<noteq> 0
         then leave (ReturnErr AtValidateConfig
                       (GoError (concat (map (\<lambda>ve. ve @ '', '') errs)))) r1
         else continue r1)"

text \<open>Lines 315 to 324: the assembly strategy is created.\<close>

definition failWith :: "string \<times> string \<Rightarrow> run \<Rightarrow> run" where
  "failWith rm r =
     setStatus (\<lambda>st. st\<lparr>st_Phase := BuildPhaseFailed, st_Reason := fst rm,
                          st_Message := snd rm\<rparr>) r"

definition createBuilder :: "env \<Rightarrow> stage" where
  "createBuilder env r =
     (let (buildInfo, err) = Builder env (r_trace r) (r_config r);
          r1 = emit (EvBuilder (r_config r)) r
      in case err of
           Some e \<Rightarrow>
             leave (ReturnErr AtBuilderFactory e)
               (HandleBuildStatusUpdate
                  (failWith (convertS2IFailureType (fr_Reason (bi_FailureReason buildInfo))
                               (fr_Message (bi_FailureReason buildInfo))) r1))
         | None \<Rightarrow> continue r1)"

text \<open>
  Lines 328 to 350: the assembly. Line 330 reads \<^verbatim>\<open>result.BuildInfo\<close> before line 338
  tests \<^verbatim>\<open>result != nil\<close>, so a nil result panics there.
\<close>

definition recordS2IStages :: "env \<Rightarrow> S2IStageInfo list \<Rightarrow> run \<Rightarrow> run" where
  "recordS2IStages env stages r =
     foldl (\<lambda>r' stg.
              foldl (\<lambda>r'' stp.
                       RecordNewStep (s2i_stage_Name stg) (s2i_step_Name stp)
                         (s2i_step_StartTime stp)
                         (addMilliseconds env (s2i_step_StartTime stp)
                            (s2i_step_DurationMilliseconds stp)) r'')
                r' (s2i_stage_Steps stg))
       r stages"

definition assemble :: "env \<Rightarrow> stage" where
  "assemble env r =
     (let (result, err) = Builder_Build env (r_trace r) (r_config r);
          r1 = emit (EvAssemble (r_config r)) r
      in case result of
           None \<Rightarrow> leave Panics r1
         | Some info \<Rightarrow>
             let r2 = recordS2IStages env (bi_Stages info) r1
             in (case err of
                   Some e \<Rightarrow>
                     leave (ReturnErr AtAssemble e)
                       (HandleBuildStatusUpdate
                          (failWith (convertS2IFailureType (fr_Reason (bi_FailureReason info))
                                       (fr_Message (bi_FailureReason info))) r2))
                 | None \<Rightarrow> continue r2))"

text \<open>Lines 352 to 380: the options of the engine build.\<close>

definition buildOptions :: "env \<Rightarrow> string \<Rightarrow> bool \<Rightarrow> string \<Rightarrow> BuildImageOptions" where
  "buildOptions env buildTag forcePull contextDir =
     \<lparr> bo_Name = buildTag, bo_RmTmpContainer = True, bo_ForceRmTmpContainer = True,
       bo_Dockerfile = defaultDockerfilePath env, bo_NoCache = False, bo_Pull = forcePull,
       bo_ContextDir = contextDir, bo_CPUPeriod = 0, bo_CPUQuota = 0, bo_CPUShares = 0,
       bo_Memory = 0, bo_Memswap = 0, bo_CgroupParent = [], bo_AuthConfigs = [] \<rparr>"

definition withLimits :: "CGroupLimits option \<Rightarrow> BuildImageOptions \<Rightarrow> BuildImageOptions" where
  "withLimits limits opts =
     (case limits of
        None \<Rightarrow> opts
      | Some cg \<Rightarrow>
          opts\<lparr> bo_CPUPeriod := cg_CPUPeriod cg, bo_CPUQuota := cg_CPUQuota cg,
                bo_CPUShares := cg_CPUShares cg, bo_Memory := cg_MemoryLimitBytes cg,
                bo_Memswap := cg_MemorySwap cg, bo_CgroupParent := cg_Parent cg \<rparr>)"

definition setupPullSecret :: "env \<Rightarrow> (string \<times> AuthConfiguration) list option" where
  "setupPullSecret env = mergeNodeCredentialsDockerAuth env (Getenv env (PullAuthType env))"

definition prepareOptions :: "env \<Rightarrow> stage" where
  "prepareOptions env r =
     (case sourceStrategy r of
        None \<Rightarrow> leave Panics r
      | Some ss \<Rightarrow>
          let opts = withLimits (cgLimits env)
                       (buildOptions env (r_buildTag r) (ss_ForcePull ss) ''/tmp/dockercontext'')
          in continue
               (r\<lparr>r_opts := (case setupPullSecret env of
                                None \<Rightarrow> opts
                              | Some pullAuthConfigs \<Rightarrow> opts\<lparr>bo_AuthConfigs := pullAuthConfigs\<rparr>)\<rparr>))"

text \<open>
  Lines 383 to 399: the post-commit hook is appended to the generated recipe. The result
  of \<^verbatim>\<open>overwriteFile\<close> is not read (line 398).
\<close>

definition processRecipe :: "env \<Rightarrow> stage" where
  "processRecipe env r =
     (let path = AsDockerfile (r_config r);
          r1 = emit (EvStat path) r
      in if \<not> Stat_IsNotExist env (r_trace r) path
         then (let r2 = emit (EvReadFile path) r1
               in case ReadFile env (r_trace r1) path of
                    Inl err \<Rightarrow> leave (ReturnErr AtReadDockerfile err) r2
                  | Inr inp \<Rightarrow>
                      (case ParseDockerfile env inp of
                         Inl err \<Rightarrow> leave (ReturnErr AtParseDockerfile err) r2
                       | Inr node \<Rightarrow>
                           (case appendPostCommit env node
                                   (buildPostCommit env (spec_PostCommit (b_Spec (r_build r2)))) of
                              Inl err \<Rightarrow> leave (ReturnErr AtAppendPostCommit err) r2
                            | Inr node' \<Rightarrow>
                                continue
                                  (emit (EvOverwriteFile path (dockerfile_Write env node')) r2))))
         else continue r1)"

text \<open>Lines 382 to 409: the recipe, then the engine build between two readings of the clock.\<close>

definition engineBuild :: "env \<Rightarrow> stage" where
  "engineBuild env r =
     (let startTime = Now env (r_trace r);
          r1 = emit EvNow r
      in case processRecipe env r1 of
           (Some x, r2) \<Rightarrow> (Some x, r2)
         | (None, r2) \<Rightarrow>
             (let err = BuildImage env (r_trace r2) (r_opts r2);
                  r3 = emit (EvBuildImage (r_opts r2)) r2;
                  endTime = Now env (r_trace r3);
                  r4 = RecordNewStep (StageBuild env) (StepDockerBuild env) startTime endTime
                         (emit EvNow r3)
              in case err of
                   Some e \<Rightarrow>
                     leave (ReturnErr AtBuildImage e)
                       (failWith (StatusReasonGenericBuildFailed env,
                                  StatusMessageGenericBuildFailed env) r4)
                 | None \<Rightarrow> continue r4))"

text \<open>Lines 411 to 463: the secure repackaging of a build whose tag contains "-cw".\<close>

definition quote :: string where
  "quote = [CHR 0x27]"

definition secureRepackage :: "env \<Rightarrow> stage" where
  "secureRepackage env r =
     (if Contains (r_buildTag r) ''-cw''
      then
        (let args1 = [''/usr/bin/extract_env.py'', r_buildTag r];
             r1 = emit (EvExec ''python3'' args1) r
         in case Exec_Output env (r_trace r) ''python3'' args1 of
              Inl err \<Rightarrow> leave (ReturnErr AtExtractEnv err) r1
            | Inr stdout1 \<Rightarrow>
                (let r2 = r1\<lparr>r_cw_env := stdout1\<rparr>;
                     args2 = [''inspect'',
                              ''--format='' @ quote @ ''{{.OCIv1.Config.WorkingDir}}'' @ quote,
                              r_buildTag r2];
                     r3 = emit (EvExec ''buildah'' args2) r2
                 in case Exec_Output env (r_trace r2) ''buildah'' args2 of
                      Inl err \<Rightarrow> leave (ReturnErr AtExtractWorkdir err) r3
                    | Inr stdout2 \<Rightarrow>
                        (let r4 = r3\<lparr>r_cw_workdir := ReplaceAll stdout2 quote []\<rparr>;
                             r5 = (emit EvNewUUID r4)\<lparr>r_cw_password := NewUUID env (r_trace r4)\<rparr>;
                             args3 = [r_buildTag r5, r_cw_password r5];
                             r6 = emit (EvExec ''/usr/bin/cw-build'' args3) r5
                         in case Exec_Output env (r_trace r5) ''/usr/bin/cw-build'' args3 of
                              Inl err \<Rightarrow> leave (ReturnErr AtCwBuild err) r6
                            | Inr stdout3 \<Rightarrow>
                                (case sourceStrategy r6 of
                                   None \<Rightarrow> leave Panics r6
                                 | Some ss \<Rightarrow>
                                     (let r7 = r6\<lparr>r_opts := buildOptions env (r_buildTag r6)
                                                                 (ss_ForcePull ss) ''/tmp/cwcontext''\<rparr>;
                                          r8 = emit (EvBuildImage (r_opts r7)) r7
                                      in case BuildImage env (r_trace r7) (r_opts r7) of
                                           Some e \<Rightarrow>
                                             leave (ReturnErr AtCwBuildImage e)
                                               (emit (EvSleep 300) r8)
                                         | None \<Rightarrow> continue r8)))))
      else continue r)"

text \<open>
  Lines 495 to 509: the registration with the attestation service.
  \<^verbatim>\<open>http.NewRequest\<close> gets a constant method and a constant URL that parses, so it
  returns a request. The error of \<^verbatim>\<open>client.Do\<close> is logged; then
  \<^verbatim>\<open>defer resp.Body.Close()\<close> reads \<^verbatim>\<open>resp.Body\<close>, which panics when \<open>resp\<close>
  is nil.
\<close>

definition registerImage :: "env \<Rightarrow> string \<Rightarrow> stage" where
  "registerImage env digest r =
     (if r_cw_password r \<noteq> []
      then (let body = jsonStr env digest (r_pushTag r)
                         (kernelCmdLine (r_cw_password r) (r_cw_workdir r) (r_cw_env r));
                (resp, err) = http_Do env (r_trace r) registrationURL body;
                r1 = emit (EvHttpPost registrationURL body) r
            in case resp of
                 None \<Rightarrow> leave Panics r1
               | Some response \<Rightarrow> continue (r1\<lparr>r_closeBody := True\<rparr>))
      else continue r)"

text \<open>Lines 511 to 514.\<close>

definition recordDigest :: "string \<Rightarrow> stage" where
  "recordDigest digest r =
     continue (HandleBuildStatusUpdate (setStatus (\<lambda>st. st\<lparr>st_Output_To := Some digest\<rparr>) r))"

text \<open>Lines 465 to 517: tag, push, registration, digest.\<close>

definition pushStage :: "env \<Rightarrow> stage" where
  "pushStage env r =
     (if r_push r
      then
        (let r1 = emit (EvTagImage (r_buildTag r) (r_pushTag r)) r
         in case tagImage env (r_trace r) (r_buildTag r) (r_pushTag r) of
              Some e \<Rightarrow> leave (ReturnErr AtTagImage e) r1
            | None \<Rightarrow>
                (let (pushAuthConfig, authPresent) =
                       GetDockerAuth env (r_pushTag r1) (PushAuthType env);
                     startTime = Now env (r_trace r1);
                     r2 = emit EvNow r1;
                     (digest, err) = retryPush env (r_trace r2) (pushOptions env (r_pushTag r2))
                                       pushAuthConfig;
                     r3 = emit (EvPushImage (pushOptions env (r_pushTag r2)) pushAuthConfig) r2;
                     endTime = Now env (r_trace r3);
                     r4 = RecordNewStep (StagePushImage env) (StepPushImage env) startTime endTime
                            (emit EvNow r3)
                 in case err of
                      Some e \<Rightarrow>
                        leave (ReturnErr AtPushImage
                                 (reportPushFailure env e authPresent pushAuthConfig))
                          (HandleBuildStatusUpdate
                             (failWith (StatusReasonPushImageToRegistryFailed env,
                                        StatusMessagePushImageToRegistryFailed env) r4))
                    | None \<Rightarrow>
                        if length digest > 0
                        then andThen (registerImage env digest) (recordDigest digest) r4
                        else continue r4))
      else continue r)"

subsection \<open>\<^verbatim>\<open>S2IBuilder.Build\<close>\<close>

definition stages :: "env \<Rightarrow> stage" where
  "stages env =
     andThen checkSourceStrategy
    (andThen derivePushTag
    (andThen (prepareConfig env)
    (andThen (pullBaseImage env)
    (andThen (incrementalPull env)
    (andThen (introspectImage env)
    (andThen (setAllowedUIDs env)
    (andThen (validateConfig env)
    (andThen (createBuilder env)
    (andThen (assemble env)
    (andThen (prepareOptions env)
    (andThen (engineBuild env)
    (andThen (secureRepackage env)
             (pushStage env)))))))))))))"

text \<open>
  The deferred calls run when the function is left, by a return or by a panic, last
  registered first: \<^verbatim>\<open>resp.Body.Close()\<close> when line 508 registered it, then the
  handler of lines 142 to 145.
\<close>

definition deferredClose :: "run \<Rightarrow> run" where
  "deferredClose r = (if r_closeBody r then emit EvCloseBody r else r)"

definition deferredStatus :: "env \<Rightarrow> run \<Rightarrow> run" where
  "deferredStatus env r =
     HandleBuildStatusUpdate
       (setStatus (\<lambda>st. st\<lparr>st_Stages := AppendStageAndStepInfo env (st_Stages st)
                                           (GetStages env (r_ctx r))\<rparr>) r)"

definition Build :: "env \<Rightarrow> Build \<Rightarrow> exit \<times> run" where
  "Build env b =
     (case stages env (startRun b) of
        (x, r) \<Rightarrow>
          ((case x of None \<Rightarrow> ReturnNil | Some e \<Rightarrow> e),
           deferredStatus env (deferredClose r)))"

subsection \<open>Observations on a run\<close>

text \<open>The calls that tag or push an image.\<close>

fun isTagOrPush :: "event \<Rightarrow> bool" where
  "isTagOrPush (EvTagImage buildTag pushTag) = True"
| "isTagOrPush (EvPushImage options auth) = True"
| "isTagOrPush ev = False"

text \<open>The calls to the status sink.\<close>

fun isStatusUpdate :: "event \<Rightarrow> bool" where
  "isStatusUpdate (EvStatusUpdate st) = True"
| "isStatusUpdate ev = False"

text \<open>The requests posted over HTTP: the address and the body of each, in order.\<close>

fun postOf :: "event \<Rightarrow> (string \<times> string) option" where
  "postOf (EvHttpPost url body) = Some (url, body)"
| "postOf ev = None"

definition posts :: "event list \<Rightarrow> (string \<times> string) list" where
  "posts tr = List.map_filter postOf tr"


text \<open>Phase, reason and message of a status.\<close>

definition outcome :: "BuildStatus \<Rightarrow> BuildPhase \<times> string \<times> string" where
  "outcome st = (st_Phase st, st_Reason st, st_Message st)"

subsection \<open>The statements of the specification that are compared with the code\<close>

text \<open>
  The specification's "push-tag with trailing :latest stripped": the suffix is removed
  when the tag ends with it, and nothing else changes.
\<close>

definition spec_stripTrailingLatest :: "string \<Rightarrow> string" where
  "spec_stripTrailingLatest pushTag =
     (if HasPrefix (rev pushTag) (rev '':latest'')
      then take (length pushTag - length '':latest'') pushTag
      else pushTag)"

text \<open>
  The specification's "case-insensitively": two variable names are the same key when
  they agree after ASCII letters are folded to lower case.
\<close>

definition toLowerASCII :: "char \<Rightarrow> char" where
  "toLowerASCII c =
     (if (65 :: nat) \<le> of_char c \<and> of_char c \<le> (90 :: nat)
      then char_of (of_char c + (32 :: nat)) else c)"

definition spec_sameKey :: "string \<Rightarrow> string \<Rightarrow> bool" where
  "spec_sameKey a b = (map toLowerASCII a = map toLowerASCII b)"

text \<open>The lowercase form of the two variable names the code knows in uppercase.\<close>

definition lowercaseForm :: "EnvVar \<Rightarrow> EnvVar" where
  "lowercaseForm e =
     (if ev_Name e = ''HTTP_PROXY'' then e\<lparr>ev_Name := ''http_proxy''\<rparr>
      else if ev_Name e = ''HTTPS_PROXY'' then e\<lparr>ev_Name := ''https_proxy''\<rparr>
      else e)"

definition isProxyName :: "string \<Rightarrow> bool" where
  "isProxyName n =
     (n = ''HTTP_PROXY'' \<or> n = ''http_proxy'' \<or> n = ''HTTPS_PROXY'' \<or> n = ''https_proxy'')"

definition withEnv :: "EnvVar list \<Rightarrow> Build \<Rightarrow> Build" where
  "withEnv vars b =
     b\<lparr>b_Spec := (b_Spec b)\<lparr>spec_SourceStrategy :=
          map_option (\<lambda>ss. ss\<lparr>ss_Env := vars\<rparr>) (spec_SourceStrategy (b_Spec b))\<rparr>\<rparr>"

subsection \<open>A concrete environment and concrete requests\<close>

definition exampleImage :: Image where
  "exampleImage =
     \<lparr> img_User = ''default:root'',
       img_Labels = [''io.openshift.s2i.assemble-user'' \<mapsto> '' 1001 :0'',
                     ''io.openshift.s2i.scripts-url'' \<mapsto> ''image:///usr/libexec/s2i''] \<rparr>"

definition exampleEnv :: env where
  "exampleEnv =
     \<lparr> InputContentPath = ''/tmp/build/inputs'',
       defaultDockerfilePath = ''Dockerfile'',
       PullAuthType = ''PULL_DOCKERCFG_PATH'',
       PushAuthType = ''PUSH_DOCKERCFG_PATH'',
       DefaultDockerLabelNamespace = ''io.openshift.'',
       AllowedUIDsVar = ''ALLOWED_UIDS'',
       secretBuildSourceBaseMountPath = ''/var/run/secrets/openshift.io/build'',
       configMapBuildSourceBaseMountPath = ''/var/run/configs/openshift.io/build'',
       AssembleUserLabel = ''io.openshift.s2i.assemble-user'',
       DestinationLabel = ''io.openshift.s2i.destination'',
       ScriptsURLLabel = ''io.openshift.s2i.scripts-url'',
       StatusReasonGenericBuildFailed = ''GenericBuildFailed'',
       StatusMessageGenericBuildFailed = ''Generic Build failure - check logs for details.'',
       StatusReasonPushImageToRegistryFailed = ''PushImageToRegistryFailed'',
       StatusMessagePushImageToRegistryFailed = ''Failed to push the image to the registry.'',
       StagePullImages = ''PullImages'',
       StepPullBaseImage = ''PullBaseImage'',
       StepPullInputImage = ''PullInputImage'',
       StageBuild = ''Build'',
       StepDockerBuild = ''DockerBuild'',
       StagePushImage = ''PushImage'',
       StepPushImage = ''PushImage'',
       filepath_Clean = (\<lambda>p. p),
       filepath_Join = (\<lambda>a b. a @ ''/'' @ b),
       Getenv = (\<lambda>v. []),
       ParseProxyURL = (\<lambda>v. if HasPrefix v ''http'' then Inr (URL v)
                            else Inl (GoError ''invalid proxy URL'')),
       ParseRepositoryTag = (\<lambda>name. (name, [])),
       toS2ISourceInfo = (\<lambda>si. si),
       GenerateLabelsFromSourceInfo =
         (\<lambda>labels si ns. labels(ns @ ''build.commit.ref'' \<mapsto> si_Ref si,
                                 ns @ ''build.commit.id'' \<mapsto> si_CommitID si)),
       buildInfo = (\<lambda>b si. [(''OPENSHIFT_BUILD_NAME'', b_Name b)]),
       EnvironmentList_Set = (\<lambda>l kv. l @ [\<lparr>env_Name = beforeFirst (CHR ''='') kv,
                                              env_Value = drop (Suc (length (beforeFirst (CHR ''='') kv))) kv\<rparr>]),
       GetDockerAuthSearchPaths = (\<lambda>t. [t]),
       GetDockerAuth = (\<lambda>image t. (\<lparr>auth_Username = [], auth_Password = [],
                                        auth_ServerAddress = []\<rparr>, False)),
       mergeNodeCredentialsDockerAuth = (\<lambda>path. None),
       RangeList_Set = (\<lambda>v. Inr []),
       ParseDockerfile = (\<lambda>text. Inr (Node text)),
       buildPostCommit = (\<lambda>pc. pc_Script pc),
       appendPostCommit = (\<lambda>node cmd. case node of Node text \<Rightarrow> Inr (Node (text @ cmd))),
       dockerfile_Write = (\<lambda>node. case node of Node text \<Rightarrow> text),
       reportPushFailure = (\<lambda>err authPresent auth. err),
       base64_EncodeToString = (\<lambda>v. v),
       addMilliseconds = (\<lambda>t d. t + d * 1000000),
       GetStages = (\<lambda>steps. steps),
       AppendStageAndStepInfo = (\<lambda>stages new. stages @ new),
       dockerSocket = ''unix:///var/run/docker.sock'',
       cgLimits = None,
       Now = (\<lambda>h. int (length h)),
       readSourceInfo = (\<lambda>h. Inr None),
       randomBuildTag = (\<lambda>h ns name. ''temp.builder.openshift.io/'' @ ns @ ''/'' @ name @ '':7f3a''),
       InspectImage = (\<lambda>h tag. Inr (if tag = ''builder'' then Some exampleImage else None)),
       retryPull = (\<lambda>h options paths. if po_Repository options = ''builder'' then None
                                       else Some (GoError ''manifest unknown'')),
       ValidateConfig = (\<lambda>h config. []),
       Builder = (\<lambda>h config. (\<lparr>bi_Stages = [],
                                  bi_FailureReason = \<lparr>fr_Reason = [], fr_Message = []\<rparr>\<rparr>, None)),
       Builder_Build = (\<lambda>h config. (Some \<lparr>bi_Stages = [],
                                        bi_FailureReason = \<lparr>fr_Reason = [], fr_Message = []\<rparr>\<rparr>,
                                      None)),
       Stat_IsNotExist = (\<lambda>h path. False),
       ReadFile = (\<lambda>h path. Inr ''FROM builder''),
       BuildImage = (\<lambda>h options. None),
       Exec_Output = (\<lambda>h cmd args. Inr ''/opt/app''),
       NewUUID = (\<lambda>h. ''0b0e7a7c-secret''),
       tagImage = (\<lambda>h buildTag pushTag. None),
       retryPush = (\<lambda>h options auth. (''sha256:abc'', None)),
       http_Do = (\<lambda>h url body. (Some \<lparr>resp_StatusCode = 200\<rparr>, None)) \<rparr>"

definition exampleStrategy :: SourceBuildStrategy where
  "exampleStrategy =
     \<lparr> ss_From = \<lparr>or_Kind = ''DockerImage'', or_Name = ''builder''\<rparr>, ss_Env = [],
       ss_Scripts = [], ss_Incremental = None, ss_ForcePull = False \<rparr>"

definition exampleStatus :: BuildStatus where
  "exampleStatus =
     \<lparr> st_Phase = BuildPhaseRunning, st_Reason = [], st_Message = [],
       st_OutputDockerImageReference = ''registry.local/demo/app:latest'',
       st_Output_To = None, st_Stages = [] \<rparr>"

definition exampleSpec :: BuildSpec where
  "exampleSpec =
     \<lparr> spec_SourceStrategy = Some exampleStrategy,
       spec_Source = \<lparr>src_Git = None, src_ContextDir = [], src_Secrets = [],
                      src_ConfigMaps = []\<rparr>,
       spec_Output = \<lparr>out_To = Some \<lparr>or_Kind = ''ImageStreamTag'', or_Name = ''app:latest''\<rparr>,
                      out_ImageLabels = []\<rparr>,
       spec_PostCommit = \<lparr>pc_Command = [], pc_Args = [], pc_Script = []\<rparr> \<rparr>"

text \<open>A request with an output reference.\<close>

definition exampleBuild :: Build where
  "exampleBuild =
     \<lparr> b_Name = ''app-1'', b_Namespace = ''demo'', b_Spec = exampleSpec,
       b_Status = exampleStatus \<rparr>"

text \<open>The same request without an output reference.\<close>

definition buildWithoutOutput :: Build where
  "buildWithoutOutput =
     exampleBuild\<lparr>b_Spec := exampleSpec\<lparr>spec_Output := \<lparr>out_To = None, out_ImageLabels = []\<rparr>\<rparr>\<rparr>"

text \<open>An incremental request with forced pulls.\<close>

definition incrementalBuild :: Build where
  "incrementalBuild =
     exampleBuild\<lparr>b_Spec := exampleSpec\<lparr>spec_SourceStrategy :=
       Some (exampleStrategy\<lparr>ss_Incremental := Some True, ss_ForcePull := True\<rparr>)\<rparr>\<rparr>"

text \<open>A request whose build name carries the marker of the secure repackaging.\<close>

definition confidentialBuild :: Build where
  "confidentialBuild = exampleBuild\<lparr>b_Name := ''app-cw-1''\<rparr>"

text \<open>A request with a requested git ref and two output image labels of one name.\<close>

definition labelledBuild :: Build where
  "labelledBuild =
     exampleBuild\<lparr>b_Spec := exampleSpec
       \<lparr>spec_Source := \<lparr>src_Git = Some \<lparr>git_URI = ''https://git.local/app.git'',
                                          git_Ref = ''refs/pull/7/head''\<rparr>,
                         src_ContextDir = [], src_Secrets = [], src_ConfigMaps = []\<rparr>,
        spec_Output := \<lparr>out_To = None,
                         out_ImageLabels = [\<lparr>il_Name = ''team'', il_Value = ''a''\<rparr>,
                                            \<lparr>il_Name = ''team'', il_Value = ''b''\<rparr>]\<rparr>\<rparr>\<rparr>"

definition checkedOut :: SourceInfo where
  "checkedOut = emptySourceInfo\<lparr>si_Ref := ''master'', si_CommitID := ''4f2c''\<rparr>"

text \<open>Proxy variables in the three spellings.\<close>

definition upperProxy :: "EnvVar list" where
  "upperProxy = [\<lparr>ev_Name = ''HTTP_PROXY'', ev_Value = ''http://proxy.local:3128''\<rparr>]"

definition lowerProxy :: "EnvVar list" where
  "lowerProxy = [\<lparr>ev_Name = ''http_proxy'', ev_Value = ''http://proxy.local:3128''\<rparr>]"

definition mixedProxy :: "EnvVar list" where
  "mixedProxy = [\<lparr>ev_Name = ''Http_Proxy'', ev_Value = ''http://proxy.local:3128''\<rparr>]"

definition badProxy :: "EnvVar list" where
  "badProxy = [\<lparr>ev_Name = ''https_proxy'', ev_Value = ''socks::bad''\<rparr>]"

text \<open>The state in which the registration is reached after a secure repackaging.\<close>

definition repackagedRun :: run where
  "repackagedRun =
     (startRun confidentialBuild)
       \<lparr>r_pushTag := ''registry.local/demo/app:latest'', r_cw_env := ''PATH=/bin'',
        r_cw_workdir := ''/opt/app'', r_cw_password := ''0b0e7a7c-secret''\<rparr>"

text \<open>A request without a source strategy, with a stage recorded before the builder ran.\<close>

definition buildWithoutStrategy :: Build where
  "buildWithoutStrategy =
     exampleBuild\<lparr>b_Spec := exampleSpec\<lparr>spec_SourceStrategy := None\<rparr>,
                   b_Status := exampleStatus\<lparr>st_Stages :=
                     [\<lparr>sr_Stage = ''FetchInputs'', sr_Step = ''FetchGitSource'',
                       sr_Start = 0, sr_End = 1\<rparr>]\<rparr>\<rparr>"

text \<open>The state of the incremental request when its previous output is to be pulled.\<close>

definition plannedRun :: run where
  "plannedRun =
     (startRun incrementalBuild)
       \<lparr>r_pushTag := ''registry.local/demo/app:latest'',
        r_config := zeroConfig\<lparr>BuilderImage := ''builder'', Incremental := True,
                      IncrementalFromTag := ''registry.local/demo/app:latest''\<rparr>\<rparr>"

text \<open>
  Environments in which one collaborator answers otherwise: every pull succeeds; the
  validator reports an error; the assembly fails with a reason; the push fails; the
  attestation service is unreachable; the attestation service answers 500.
\<close>

definition pullSucceedsEnv :: env where
  "pullSucceedsEnv = exampleEnv\<lparr>retryPull := (\<lambda>h options paths. None)\<rparr>"

definition invalidConfigEnv :: env where
  "invalidConfigEnv =
     exampleEnv\<lparr>ValidateConfig := (\<lambda>h config. [''builder image is invalid''])\<rparr>"


definition failedPushEnv :: env where
  "failedPushEnv =
     exampleEnv\<lparr>retryPush := (\<lambda>h options auth. ([], Some (GoError ''unauthorized'')))\<rparr>"

definition registrationDownEnv :: env where
  "registrationDownEnv =
     exampleEnv\<lparr>http_Do := (\<lambda>h url body. (None, Some (GoError ''connection refused'')))\<rparr>"

definition registrationRejectsEnv :: env where
  "registrationRejectsEnv =
     exampleEnv\<lparr>http_Do := (\<lambda>h url body. (Some \<lparr>resp_StatusCode = 500\<rparr>, None))\<rparr>"

text \<open>What is read off a finished run of a concrete request.\<close>

record observation =
  ob_exit :: exit
  ob_outcome :: "BuildPhase \<times> string \<times> string"
  ob_digest :: "string option"
  ob_ForcePull :: "bool option"
  ob_pushTag :: string
  ob_buildTag :: string
  ob_ctx :: "StepRecord list"
  ob_pushCalls :: nat

definition observe :: "exit \<times> run \<Rightarrow> observation" where
  "observe p =
     \<lparr> ob_exit = fst p,
       ob_outcome = outcome (b_Status (r_build (snd p))),
       ob_digest = st_Output_To (b_Status (r_build (snd p))),
       ob_ForcePull = map_option ss_ForcePull (spec_SourceStrategy (b_Spec (r_build (snd p)))),
       ob_pushTag = r_pushTag (snd p),
       ob_buildTag = r_buildTag (snd p),
       ob_ctx = r_ctx (snd p),
       ob_pushCalls = length (filter isTagOrPush (r_trace (snd p))) \<rparr>"

subsection \<open>Assertions on the stages\<close>

text \<open>
  \<open>stageTriple P f Q E\<close>: started in a state with \<open>P\<close>, the stage \<open>f\<close> falls through
  into a state with \<open>Q\<close> or leaves \<^verbatim>\<open>Build\<close> by \<open>x\<close> in a state with \<open>E x\<close>.
\<close>

definition stageTriple ::
  "(run \<Rightarrow> bool) \<Rightarrow> stage \<Rightarrow> (run \<Rightarrow> bool) \<Rightarrow> (exit \<Rightarrow> run \<Rightarrow> bool) \<Rightarrow> bool" where
  "stageTriple P f Q E =
     (\<forall>r. P r \<longrightarrow>
        (\<forall>r'. f r = (None, r') \<longrightarrow> Q r') \<and> (\<forall>x r'. f r = (Some x, r') \<longrightarrow> E x r'))"

text \<open>A stage that does not write to the build object.\<close>

definition keepsBuild :: "stage \<Rightarrow> bool" where
  "keepsBuild f = (\<forall>r x r'. f r = (x, r') \<longrightarrow> r_build r' = r_build r)"

text \<open>The run is at its start.\<close>

definition started :: "Build \<Rightarrow> run \<Rightarrow> bool" where
  "started b r = (r = startRun b)"

text \<open>The recorded stages of the build object are those of the request.\<close>

definition keepsStages :: "Build \<Rightarrow> Build \<Rightarrow> bool" where
  "keepsStages b bld = (st_Stages (b_Status bld) = st_Stages (b_Status b))"

text \<open>The request is as it was, but for a cleared \<open>ForcePull\<close>.\<close>

definition requestKept :: "Build \<Rightarrow> Build \<Rightarrow> bool" where
  "requestKept b bld =
     ((b_Spec bld = b_Spec b \<or> b_Spec bld = clearForcePull (b_Spec b))
      \<and> b_Name bld = b_Name b \<and> b_Namespace bld = b_Namespace b)"



text \<open>The push tag that lines 151 to 159 derive from a request.\<close>

definition pushTagOf :: "Build \<Rightarrow> string" where
  "pushTagOf b =
     (if noOutputTarget b then b_Name b else st_OutputDockerImageReference (b_Status b))"

text \<open>Before the push stage: the tag is derived and nothing was tagged or pushed.\<close>

definition pushPlanned :: "Build \<Rightarrow> run \<Rightarrow> bool" where
  "pushPlanned b r =
     (r_push r = (\<not> noOutputTarget b) \<and> r_pushTag r = pushTagOf b
      \<and> filter isTagOrPush (r_trace r) = [])"

text \<open>The two calls of a push: the tag, then the push.\<close>

definition pushCalls :: "env \<Rightarrow> run \<Rightarrow> event list" where
  "pushCalls env r =
     [EvTagImage (r_buildTag r) (r_pushTag r),
      EvPushImage (pushOptions env (r_pushTag r))
        (fst (GetDockerAuth env (r_pushTag r) (PushAuthType env)))]"

definition pushDone :: "env \<Rightarrow> Build \<Rightarrow> run \<Rightarrow> bool" where
  "pushDone env b r =
     (r_pushTag r = pushTagOf b
      \<and> filter isTagOrPush (r_trace r) = (if noOutputTarget b then [] else pushCalls env r))"

definition pushLeft :: "Build \<Rightarrow> exit \<Rightarrow> run \<Rightarrow> bool" where
  "pushLeft b x r =
     (x \<noteq> ReturnNil
      \<and> (noOutputTarget b \<longrightarrow> filter isTagOrPush (r_trace r) = [])
      \<and> (spec_SourceStrategy (b_Spec b) \<noteq> None \<longrightarrow> r_pushTag r = pushTagOf b))"

text \<open>
  The configurations handed to the validator, to the strategy factory and to the
  assembly; a configuration of a full build is not incremental and names no previous
  image.
\<close>

fun handedConfig :: "event \<Rightarrow> Config option" where
  "handedConfig (EvValidateConfig c) = Some c"
| "handedConfig (EvBuilder c) = Some c"
| "handedConfig (EvAssemble c) = Some c"
| "handedConfig ev = None"

definition fullBuild :: "Config \<Rightarrow> bool" where
  "fullBuild c = (\<not> Incremental c \<and> IncrementalFromTag c = [])"

definition fullBuildsOnly :: "event list \<Rightarrow> bool" where
  "fullBuildsOnly tr =
     list_all (\<lambda>ev. case handedConfig ev of None \<Rightarrow> True | Some c \<Rightarrow> fullBuild c) tr"

definition noHandover :: "event list \<Rightarrow> bool" where
  "noHandover tr = list_all (\<lambda>ev. handedConfig ev = None) tr"

text \<open>
  The retried pull of \<open>tag\<close> with the push credentials fails whenever it is made; the
  pull of \<open>tag\<close> is made whenever the incremental stage is reached.
\<close>

definition pullFails :: "env \<Rightarrow> string \<Rightarrow> bool" where
  "pullFails env tag =
     (\<forall>h. retryPull env h (pullOptions env tag) (GetDockerAuthSearchPaths env (PushAuthType env))
            \<noteq> None)"

definition pullAttempted :: "env \<Rightarrow> SourceBuildStrategy \<Rightarrow> string \<Rightarrow> bool" where
  "pullAttempted env ss tag =
     (ss_ForcePull ss \<or> (\<forall>h. \<not> isImagePresent (InspectImage env h tag)))"

definition tagDerived :: "Build \<Rightarrow> SourceBuildStrategy \<Rightarrow> run \<Rightarrow> bool" where
  "tagDerived b ss r =
     (r_pushTag r = pushTagOf b \<and> sourceStrategy r = Some ss \<and> r_trace r = [])"

definition incrementalPlanned :: "Build \<Rightarrow> SourceBuildStrategy \<Rightarrow> run \<Rightarrow> bool" where
  "incrementalPlanned b ss r =
     (sourceStrategy r = Some ss \<and> Incremental (r_config r)
      \<and> IncrementalFromTag (r_config r) = pushTagOf b \<and> noHandover (r_trace r))"

definition downgraded :: "run \<Rightarrow> bool" where
  "downgraded r = (fullBuild (r_config r) \<and> fullBuildsOnly (r_trace r))"

definition leftAsFullBuild :: "exit \<Rightarrow> run \<Rightarrow> bool" where
  "leftAsFullBuild x r = (x \<noteq> ReturnNil \<and> fullBuildsOnly (r_trace r))"

text \<open>
  The stages by name, in the order in which \<^verbatim>\<open>Build\<close> runs them. \<open>before env n\<close> runs
  the stages that precede the stage \<open>n\<close>; the run of a request enters the stage \<open>n\<close> in
  the state \<open>r\<close> when all of them fall through and leave \<open>r\<close>.
\<close>

datatype stageName =
  InCheckSourceStrategy | InDerivePushTag | InPrepareConfig | InPullBaseImage
  | InIncrementalPull | InIntrospectImage | InSetAllowedUIDs | InValidateConfig
  | InCreateBuilder | InAssemble | InPrepareOptions | InEngineBuild | InSecureRepackage
  | InPushStage

fun stageOf :: "env \<Rightarrow> stageName \<Rightarrow> stage" where
  "stageOf env InCheckSourceStrategy = checkSourceStrategy"
| "stageOf env InDerivePushTag = derivePushTag"
| "stageOf env InPrepareConfig = prepareConfig env"
| "stageOf env InPullBaseImage = pullBaseImage env"
| "stageOf env InIncrementalPull = incrementalPull env"
| "stageOf env InIntrospectImage = introspectImage env"
| "stageOf env InSetAllowedUIDs = setAllowedUIDs env"
| "stageOf env InValidateConfig = validateConfig env"
| "stageOf env InCreateBuilder = createBuilder env"
| "stageOf env InAssemble = assemble env"
| "stageOf env InPrepareOptions = prepareOptions env"
| "stageOf env InEngineBuild = engineBuild env"
| "stageOf env InSecureRepackage = secureRepackage env"
| "stageOf env InPushStage = pushStage env"

definition stageOrder :: "stageName list" where
  "stageOrder =
     [InCheckSourceStrategy, InDerivePushTag, InPrepareConfig, InPullBaseImage,
      InIncrementalPull, InIntrospectImage, InSetAllowedUIDs, InValidateConfig,
      InCreateBuilder, InAssemble, InPrepareOptions, InEngineBuild, InSecureRepackage,
      InPushStage]"

fun runStages :: "stage list \<Rightarrow> stage" where
  "runStages [] r = (None, r)"
| "runStages (f # fs) r =
     (case f r of (None, r') \<Rightarrow> runStages fs r' | (Some x, r') \<Rightarrow> (Some x, r'))"

definition before :: "env \<Rightarrow> stageName \<Rightarrow> stage" where
  "before env n = runStages (map (stageOf env) (takeWhile (\<lambda>m. m \<noteq> n) stageOrder))"


text \<open>
  The push call the run made, with the history it was made in and the digest it returned;
  the body that line 498 writes for a digest in the state \<open>r\<close>.
\<close>

definition pushReturned :: "env \<Rightarrow> run \<Rightarrow> event list \<Rightarrow> string \<Rightarrow> bool" where
  "pushReturned env r h d =
     ((\<exists>tl. r_trace r =
              h @ EvPushImage (pushOptions env (r_pushTag r))
                    (fst (GetDockerAuth env (r_pushTag r) (PushAuthType env))) # tl)
      \<and> retryPush env h (pushOptions env (r_pushTag r))
            (fst (GetDockerAuth env (r_pushTag r) (PushAuthType env))) = (d, None))"

definition registrationBody :: "env \<Rightarrow> string \<Rightarrow> run \<Rightarrow> string" where
  "registrationBody env d r =
     jsonStr env d (r_pushTag r)
       (kernelCmdLine (r_cw_password r) (r_cw_workdir r) (r_cw_env r))"

definition digestPosted :: "env \<Rightarrow> run \<Rightarrow> bool" where
  "digestPosted env r =
     (posts (r_trace r) = []
      \<or> (\<exists>h d. pushReturned env r h d
                 \<and> posts (r_trace r) = [(registrationURL, registrationBody env d r)]))"

section \<open>Properties\<close>

subsection \<open>Strings\<close>

lemma Contains_single: "Contains s [c] = (c \<in> set s)"
  by (induction s) (auto simp: HasPrefix_def)

lemma beforeFirst_append: "c \<notin> set u \<Longrightarrow> beforeFirst c (u @ c # g) = u"
  by (induction u) (auto simp: beforeFirst_def)

subsection \<open>The assemble user\<close>

text \<open>
  Claim C8. The assemble user of a builder image is the image's configured user, unless
  the image carries the assemble-user label, whose value then replaces it; of a value
  \<open>user:group\<close> only the user part is kept, and the kept value is trimmed of white
  space.
\<close>

theorem assemble_user_resolution:
  "(img_Labels img (AssembleUserLabel env) = None \<longrightarrow>
      getAssembleUser env (Inr (Some img)) = Ok (extractUser (img_User img)))
   \<and> (img_Labels img (AssembleUserLabel env) = Some v \<longrightarrow>
      getAssembleUser env (Inr (Some img)) = Ok (extractUser v))
   \<and> (CHR '':'' \<notin> set user \<longrightarrow>
      extractUser (user @ '':'' @ grp) = TrimSpace user \<and> extractUser user = TrimSpace user)"
  by (simp add: getAssembleUser_def extractUser_def Contains_single beforeFirst_append)

theorem assemble_user_resolution_witness:
  "img_Labels exampleImage (AssembleUserLabel exampleEnv) = Some '' 1001 :0''
   \<and> getAssembleUser exampleEnv (Inr (Some exampleImage)) = Ok ''1001''
   \<and> img_Labels (exampleImage\<lparr>img_Labels := Map.empty\<rparr>) (AssembleUserLabel exampleEnv) = None
   \<and> getAssembleUser exampleEnv (Inr (Some (exampleImage\<lparr>img_Labels := Map.empty\<rparr>)))
       = Ok ''default''
   \<and> CHR '':'' \<notin> set '' 1001 ''
   \<and> extractUser ('' 1001 '' @ '':'' @ ''0'') = ''1001''"
proof -
  have l: "img_Labels exampleImage (AssembleUserLabel exampleEnv) = Some '' 1001 :0''"
    by (simp add: exampleImage_def exampleEnv_def)
  have n: "img_Labels (exampleImage\<lparr>img_Labels := Map.empty\<rparr>) (AssembleUserLabel exampleEnv)
           = None"
    by simp
  have u: "img_User (exampleImage\<lparr>img_Labels := Map.empty\<rparr>) = ''default:root''"
    by (simp add: exampleImage_def)
  have c: "CHR '':'' \<notin> set '' 1001 ''"
    by simp
  have t: "TrimSpace '' 1001 '' = ''1001''"
    by code_simp
  have e1: "extractUser '' 1001 :0'' = ''1001''"
    by code_simp
  have e2: "extractUser ''default:root'' = ''default''"
    by code_simp
  show ?thesis
    using assemble_user_resolution [of exampleImage exampleEnv "'' 1001 :0''" "'' 1001 ''" "''0''"]
      assemble_user_resolution [of "exampleImage\<lparr>img_Labels := Map.empty\<rparr>" exampleEnv]
      l n u c t e1 e2
    by simp
qed

subsection \<open>The label set\<close>

lemma overrideLabels_append:
  "overrideLabels m (xs @ ys) = overrideLabels (overrideLabels m xs) ys"
  by (simp add: overrideLabels_def)

lemma overrideLabels_Cons:
  "overrideLabels m (l # ls) = overrideLabels (m(il_Name l \<mapsto> il_Value l)) ls"
  by (simp add: overrideLabels_def)

lemma overrideLabels_other:
  "k \<notin> il_Name ` set lbls \<Longrightarrow> overrideLabels m lbls k = m k"
  by (induction lbls arbitrary: m) (auto simp: overrideLabels_Cons overrideLabels_def)

lemma overrideLabels_last:
  "il_Name l \<notin> il_Name ` set post \<Longrightarrow>
   overrideLabels m (pre @ l # post) (il_Name l) = Some (il_Value l)"
  by (simp add: overrideLabels_append overrideLabels_Cons overrideLabels_other)

text \<open>
  Claim C9. In the label set of \<^verbatim>\<open>s2iBuildLabels\<close>, an output image label of the
  request has the value of the last entry of its name, whatever the source-info and the
  git ref give for that name; and when the request names a git ref and no output image
  label has the commit-ref key, the commit-ref label is the requested ref, whatever the
  source-info gives.
\<close>

theorem label_precedence:
  "(out_ImageLabels (spec_Output (b_Spec b)) = pre @ l # post
      \<and> il_Name l \<notin> il_Name ` set post
    \<longrightarrow> s2iBuildLabels env b sourceInfo (il_Name l) = Some (il_Value l))
   \<and> (src_Git (spec_Source (b_Spec b)) = Some g \<and> git_Ref g \<noteq> []
      \<and> commitRefKey env \<notin> il_Name ` set (out_ImageLabels (spec_Output (b_Spec b)))
    \<longrightarrow> s2iBuildLabels env b sourceInfo (commitRefKey env) = Some (git_Ref g))"
  by (simp add: s2iBuildLabels_def Let_def overrideLabels_last overrideLabels_other
           split: option.split)

theorem label_precedence_witness:
  "out_ImageLabels (spec_Output (b_Spec labelledBuild))
     = [\<lparr>il_Name = ''team'', il_Value = ''a''\<rparr>] @ \<lparr>il_Name = ''team'', il_Value = ''b''\<rparr> # []
   \<and> s2iBuildLabels exampleEnv labelledBuild (Some checkedOut) ''team'' = Some ''b''
   \<and> GenerateLabelsFromSourceInfo exampleEnv Map.empty checkedOut ''io.openshift.''
        ''io.openshift.build.commit.ref'' = Some ''master''
   \<and> s2iBuildLabels exampleEnv labelledBuild (Some checkedOut) ''io.openshift.build.commit.ref''
       = Some ''refs/pull/7/head''"
proof -
  have o: "out_ImageLabels (spec_Output (b_Spec labelledBuild))
     = [\<lparr>il_Name = ''team'', il_Value = ''a''\<rparr>] @ \<lparr>il_Name = ''team'', il_Value = ''b''\<rparr> # []"
    by (simp add: labelledBuild_def)
  have g: "src_Git (spec_Source (b_Spec labelledBuild))
            = Some \<lparr>git_URI = ''https://git.local/app.git'', git_Ref = ''refs/pull/7/head''\<rparr>"
    by (simp add: labelledBuild_def)
  have k: "commitRefKey exampleEnv = ''io.openshift.build.commit.ref''"
    by (simp add: commitRefKey_def exampleEnv_def)
  have s: "GenerateLabelsFromSourceInfo exampleEnv Map.empty checkedOut ''io.openshift.''
        ''io.openshift.build.commit.ref'' = Some ''master''"
    by (simp add: exampleEnv_def checkedOut_def)
  show ?thesis
    using label_precedence [of labelledBuild "[\<lparr>il_Name = ''team'', il_Value = ''a''\<rparr>]"
        "\<lparr>il_Name = ''team'', il_Value = ''b''\<rparr>" "[]"  exampleEnv "Some checkedOut"
        "\<lparr>git_URI = ''https://git.local/app.git'', git_Ref = ''refs/pull/7/head''\<rparr>"]
      o g k s
    by simp
qed

subsection \<open>The name in the attestation-registration payload\<close>

lemma ReplaceAll_absent: "\<not> Contains s old \<Longrightarrow> ReplaceAll s old new = s"
  by (induction s) auto

lemma HasPrefix_latest: "HasPrefix s '':latest'' = (take 7 s = '':latest'')"
  by (simp add: HasPrefix_def eval_nat_numeral)

lemma attestationName_Cons:
  "attestationName (c # cs) =
     (if HasPrefix (c # cs) '':latest'' then attestationName (drop 7 (c # cs))
      else c # attestationName cs)"
  by (simp add: attestationName_def eval_nat_numeral)

text \<open>
  The colon is the first byte of ":latest" and does not occur in it again, so an
  occurrence cannot begin inside a shorter text and run into the next occurrence.
\<close>

lemma latest_no_overlap:
  assumes "a \<noteq> []" and "length a < 7"
  shows "\<not> HasPrefix (a @ '':latest'' @ b) '':latest''"
proof
  let ?k = "length a"
  assume "HasPrefix (a @ '':latest'' @ b) '':latest''"
  then have eq: "take 7 (a @ '':latest'' @ b) = '':latest''"
    by (simp only: HasPrefix_latest)
  have "take 7 (a @ '':latest'' @ b) ! ?k = (a @ '':latest'' @ b) ! ?k"
    using assms(2) by (rule nth_take)
  moreover have "(a @ '':latest'' @ b) ! ?k = CHR '':''"
    by (simp add: nth_append)
  ultimately have "'':latest'' ! ?k = CHR '':''"
    using eq by simp
  moreover have "0 < ?k"
    using assms(1) by simp
  then have "?k = 1 \<or> ?k = 2 \<or> ?k = 3 \<or> ?k = 4 \<or> ?k = 5 \<or> ?k = 6"
    using assms(2) by arith
  ultimately show False
    by auto
qed

lemma latest_prefix_of_append:
  assumes "a \<noteq> []"
  shows "HasPrefix (a @ '':latest'' @ b) '':latest'' = HasPrefix a '':latest''"
proof (cases "length a < 7")
  case True
  then have "\<not> HasPrefix a '':latest''"
    by (auto simp: HasPrefix_latest)
  then show ?thesis
    using latest_no_overlap [OF assms True] by simp
next
  case False
  then show ?thesis
    by (simp add: HasPrefix_latest)
qed

lemma attestationName_removes_each:
  "attestationName (a @ '':latest'' @ b) = attestationName a @ attestationName b"
proof (induction a rule: length_induct)
  case (1 a)
  show ?case
  proof (cases a)
    case Nil
    then show ?thesis
      by (simp add: attestationName_Cons HasPrefix_latest) (simp add: attestationName_def)
  next
    case (Cons x a')
    show ?thesis
    proof (cases "HasPrefix a '':latest''")
      case True
      then have len: "7 \<le> length a"
        by (auto simp: HasPrefix_latest dest: arg_cong [where f = length])
      have p: "HasPrefix (a @ '':latest'' @ b) '':latest''"
        using True Cons latest_prefix_of_append [of a b] by simp
      have e1: "attestationName (a @ '':latest'' @ b)
              = attestationName (drop 7 a @ '':latest'' @ b)"
        using p len Cons attestationName_Cons [of x "a' @ '':latest'' @ b"] by simp
      have e2: "attestationName (drop 7 a @ '':latest'' @ b)
              = attestationName (drop 7 a) @ attestationName b"
        using 1 len Cons by simp
      have e3: "attestationName a = attestationName (drop 7 a)"
        using True Cons attestationName_Cons [of x a'] by simp
      show ?thesis
        by (simp only: e1 e2 e3)
    next
      case False
      then have p: "\<not> HasPrefix (a @ '':latest'' @ b) '':latest''"
        using Cons latest_prefix_of_append [of a b] by simp
      have e1: "attestationName (a @ '':latest'' @ b)
              = x # attestationName (a' @ '':latest'' @ b)"
        using p Cons attestationName_Cons [of x "a' @ '':latest'' @ b"] by simp
      have e2: "attestationName (a' @ '':latest'' @ b)
              = attestationName a' @ attestationName b"
        using 1 Cons by simp
      have e3: "attestationName a = x # attestationName a'"
        using False Cons attestationName_Cons [of x a'] by simp
      show ?thesis
        unfolding e1 e2 e3 by simp
    qed
  qed
qed

lemma attestationName_absent: "\<not> Contains s '':latest'' \<Longrightarrow> attestationName s = s"
  by (simp add: attestationName_def ReplaceAll_absent)

lemma attestationName_suffix:
  "\<not> Contains base '':latest'' \<Longrightarrow> attestationName (base @ '':latest'') = base"
  using attestationName_removes_each [of base "[]"]
  by (simp add: attestationName_absent)

text \<open>
  Claim C6, as stated, fails: a ":latest" that is not at the end of the push tag is
  removed too. For the push tag "app:latest-cw" the payload names "app-cw", where
  stripping a trailing ":latest" leaves the tag as it is.
\<close>

theorem attestation_name_counterexample:
  "attestationName ''app:latest-cw'' = ''app-cw''
   \<and> spec_stripTrailingLatest ''app:latest-cw'' = ''app:latest-cw''
   \<and> attestationName ''app:latest-cw'' \<noteq> spec_stripTrailingLatest ''app:latest-cw''"
proof -
  have a: "attestationName ''app:latest-cw'' = ''app-cw''"
    by code_simp
  have b: "spec_stripTrailingLatest ''app:latest-cw'' = ''app:latest-cw''"
    by code_simp
  show ?thesis
    by (simp add: a b)
qed

subsection \<open>The proxy configuration\<close>

lemma scanProxyEnv_lowercaseForm:
  "scanProxyEnv (map lowercaseForm vars) acc = scanProxyEnv vars acc"
  by (induction vars acc rule: scanProxyEnv.induct) (auto simp: lowercaseForm_def)

lemma scanProxyEnv_skip:
  "\<not> isProxyName (ev_Name e) \<Longrightarrow> scanProxyEnv (e # vars) acc = scanProxyEnv vars acc"
  by (cases acc) (simp add: isProxyName_def)

lemma scanProxyEnv_none:
  "\<forall>e \<in> set vars. \<not> isProxyName (ev_Name e) \<Longrightarrow> scanProxyEnv vars acc = acc"
  by (induction vars) (simp_all add: scanProxyEnv_skip)

lemma proxyFromValues_fails:
  assumes "(fst v \<noteq> [] \<and> isl (ParseProxyURL env (fst v)))
           \<or> (snd v \<noteq> [] \<and> isl (ParseProxyURL env (snd v)))"
  shows "\<exists>err. proxyFromValues env v = Fail err"
  using assms by (auto simp: proxyFromValues_def Let_def isl_def split: sum.splits)

lemma scriptProxyConfig_withEnv:
  "scriptProxyConfig env (withEnv vars b) =
     (case spec_SourceStrategy (b_Spec b) of
        None \<Rightarrow> Panic
      | Some ss \<Rightarrow> proxyFromValues env (scanProxyEnv vars ([], [])))"
  by (simp add: scriptProxyConfig_def withEnv_def split: option.split)

lemma stages_proxy_failure:
  assumes "scriptProxyConfig env b = Fail err"
  shows "\<exists>site e. fst (stages env (startRun b)) = Some (ReturnErr site e)"
proof -
  from assms obtain ss where ss: "spec_SourceStrategy (b_Spec b) = Some ss"
    by (auto simp: scriptProxyConfig_def split: option.splits)
  show ?thesis
    using assms ss
    apply (simp add: stages_def andThen_def checkSourceStrategy_def sourceStrategy_def
             startRun_def continue_def derivePushTag_def Let_def)
    apply (auto simp: prepareConfig_def Let_def leave_def emit_def setStatus_def
             scriptProxyConfig_def split: sum.splits error.splits)
    done
qed


text \<open>
  Claim C7, as stated, fails: the scan is not case-insensitive. "Http_Proxy" is the key
  "HTTP_PROXY" up to case, yet a request that sets it gets no proxy configuration, where
  the same value under "HTTP_PROXY" gives one.
\<close>

theorem proxy_key_case_counterexample:
  "spec_sameKey ''Http_Proxy'' ''HTTP_PROXY''
   \<and> scriptProxyConfig exampleEnv (withEnv upperProxy exampleBuild)
       = Ok (Some \<lparr>HTTPProxy = Some (URL ''http://proxy.local:3128''), HTTPSProxy = None\<rparr>)
   \<and> scriptProxyConfig exampleEnv (withEnv mixedProxy exampleBuild) = Ok None"
  by code_simp

text \<open>
  Claim C7, amended. The scan knows exactly four names: "HTTP_PROXY" and "http_proxy",
  "HTTPS_PROXY" and "https_proxy". Writing the uppercase names in lowercase does not
  change the result; a variable of any other name, also one that differs from these in
  case only, is skipped; when no variable has one of the four names the result is a nil
  proxy configuration and no error; and when the value found for either proxy is not
  empty and its parsing fails, \<^verbatim>\<open>scriptProxyConfig\<close> returns an error and
  \<^verbatim>\<open>Build\<close> returns an error.
\<close>

theorem proxy_config_keys:
  "scriptProxyConfig env (withEnv (map lowercaseForm vars) b)
     = scriptProxyConfig env (withEnv vars b)
   \<and> (\<not> isProxyName (ev_Name e) \<longrightarrow> scanProxyEnv (e # vars) acc = scanProxyEnv vars acc)
   \<and> ((\<forall>e \<in> set vars. \<not> isProxyName (ev_Name e)) \<and> spec_SourceStrategy (b_Spec b) \<noteq> None
        \<longrightarrow> scriptProxyConfig env (withEnv vars b) = Ok None)
   \<and> ((fst (scanProxyEnv vars ([], [])) \<noteq> []
          \<and> isl (ParseProxyURL env (fst (scanProxyEnv vars ([], [])))))
        \<or> (snd (scanProxyEnv vars ([], [])) \<noteq> []
          \<and> isl (ParseProxyURL env (snd (scanProxyEnv vars ([], [])))))
        \<longrightarrow> (spec_SourceStrategy (b_Spec b) \<noteq> None
               \<longrightarrow> (\<exists>err. scriptProxyConfig env (withEnv vars b) = Fail err))
            \<and> (\<exists>site err. fst (Build env (withEnv vars b)) = ReturnErr site err))"
proof -
  have lower: "scriptProxyConfig env (withEnv (map lowercaseForm vars) b)
                 = scriptProxyConfig env (withEnv vars b)"
    by (simp add: scriptProxyConfig_withEnv scanProxyEnv_lowercaseForm split: option.split)
  have skip: "\<not> isProxyName (ev_Name e) \<longrightarrow>
                scanProxyEnv (e # vars) acc = scanProxyEnv vars acc"
    by (simp add: scanProxyEnv_skip)
  have none: "(\<forall>e \<in> set vars. \<not> isProxyName (ev_Name e))
               \<and> spec_SourceStrategy (b_Spec b) \<noteq> None
               \<longrightarrow> scriptProxyConfig env (withEnv vars b) = Ok None"
    by (auto simp: scriptProxyConfig_withEnv scanProxyEnv_none proxyFromValues_def)
  have bad: "(fst (scanProxyEnv vars ([], [])) \<noteq> []
          \<and> isl (ParseProxyURL env (fst (scanProxyEnv vars ([], [])))))
        \<or> (snd (scanProxyEnv vars ([], [])) \<noteq> []
          \<and> isl (ParseProxyURL env (snd (scanProxyEnv vars ([], [])))))
        \<longrightarrow> (spec_SourceStrategy (b_Spec b) \<noteq> None
               \<longrightarrow> (\<exists>err. scriptProxyConfig env (withEnv vars b) = Fail err))
            \<and> (\<exists>site err. fst (Build env (withEnv vars b)) = ReturnErr site err)"
  proof
    assume a: "(fst (scanProxyEnv vars ([], [])) \<noteq> []
          \<and> isl (ParseProxyURL env (fst (scanProxyEnv vars ([], [])))))
        \<or> (snd (scanProxyEnv vars ([], [])) \<noteq> []
          \<and> isl (ParseProxyURL env (snd (scanProxyEnv vars ([], [])))))"
    from proxyFromValues_fails [OF a]
    obtain err where f: "proxyFromValues env (scanProxyEnv vars ([], [])) = Fail err"
      by blast
    have fails: "spec_SourceStrategy (b_Spec b) \<noteq> None
                   \<longrightarrow> (\<exists>err. scriptProxyConfig env (withEnv vars b) = Fail err)"
      using f by (auto simp: scriptProxyConfig_withEnv)
    have "\<exists>site err. fst (stages env (startRun (withEnv vars b))) = Some (ReturnErr site err)"
    proof (cases "spec_SourceStrategy (b_Spec b)")
      case None
      then show ?thesis
        by (simp add: stages_def andThen_def checkSourceStrategy_def sourceStrategy_def
              startRun_def leave_def withEnv_def)
    next
      case (Some ss)
      then have "scriptProxyConfig env (withEnv vars b) = Fail err"
        using f by (simp add: scriptProxyConfig_withEnv)
      then show ?thesis
        by (rule stages_proxy_failure)
    qed
    then have "\<exists>site err. fst (Build env (withEnv vars b)) = ReturnErr site err"
      by (auto simp: Build_def split: prod.splits)
    with fails show "(spec_SourceStrategy (b_Spec b) \<noteq> None
               \<longrightarrow> (\<exists>err. scriptProxyConfig env (withEnv vars b) = Fail err))
            \<and> (\<exists>site err. fst (Build env (withEnv vars b)) = ReturnErr site err)"
      by blast
  qed
  show ?thesis
    by (intro conjI) (rule lower, rule skip, rule none, rule bad)
qed

theorem proxy_config_keys_witness:
  "map lowercaseForm upperProxy = lowerProxy
   \<and> scriptProxyConfig exampleEnv (withEnv lowerProxy exampleBuild)
       = scriptProxyConfig exampleEnv (withEnv upperProxy exampleBuild)
   \<and> scriptProxyConfig exampleEnv (withEnv lowerProxy exampleBuild)
       = Ok (Some \<lparr>HTTPProxy = Some (URL ''http://proxy.local:3128''), HTTPSProxy = None\<rparr>)
   \<and> \<not> isProxyName ''Http_Proxy''
   \<and> scanProxyEnv (mixedProxy @ upperProxy) ([], []) = scanProxyEnv upperProxy ([], [])
   \<and> scriptProxyConfig exampleEnv (withEnv mixedProxy exampleBuild) = Ok None
   \<and> snd (scanProxyEnv badProxy ([], [])) = ''socks::bad''
   \<and> isl (ParseProxyURL exampleEnv ''socks::bad'')
   \<and> scriptProxyConfig exampleEnv (withEnv badProxy exampleBuild)
       = Fail (GoError ''invalid proxy URL'')
   \<and> fst (Build exampleEnv (withEnv badProxy exampleBuild))
       = ReturnErr AtProxyConfig (GoError ''invalid proxy URL'')"
proof -
  have l: "map lowercaseForm upperProxy = lowerProxy"
    by code_simp
  have v: "scriptProxyConfig exampleEnv (withEnv lowerProxy exampleBuild)
       = Ok (Some \<lparr>HTTPProxy = Some (URL ''http://proxy.local:3128''), HTTPSProxy = None\<rparr>)"
    by code_simp
  have m: "\<not> isProxyName ''Http_Proxy''"
    by code_simp
  have s: "spec_SourceStrategy (b_Spec exampleBuild) \<noteq> None"
    by (simp add: exampleBuild_def exampleSpec_def)
  have x: "snd (scanProxyEnv badProxy ([], [])) = ''socks::bad''"
    "isl (ParseProxyURL exampleEnv ''socks::bad'')"
    by code_simp+
  have f: "scriptProxyConfig exampleEnv (withEnv badProxy exampleBuild)
       = Fail (GoError ''invalid proxy URL'')"
    by code_simp
  have r: "fst (Build exampleEnv (withEnv badProxy exampleBuild))
       = ReturnErr AtProxyConfig (GoError ''invalid proxy URL'')"
    by code_simp
  show ?thesis
    using proxy_config_keys [of exampleEnv upperProxy exampleBuild
        "\<lparr>ev_Name = ''Http_Proxy'', ev_Value = ''http://proxy.local:3128''\<rparr>" "([], [])"]
      proxy_config_keys [of exampleEnv mixedProxy exampleBuild]
      proxy_config_keys [of exampleEnv badProxy exampleBuild]
      l v m s x f r
    by (simp add: mixedProxy_def)
qed

subsection \<open>Runs of the concrete requests\<close>

text \<open>Each concrete run is evaluated once; the examples below read their facts off it.\<close>

lemma observed:
  assumes "observe p = ob"
  shows "fst p = ob_exit ob"
    and "outcome (b_Status (r_build (snd p))) = ob_outcome ob"
    and "st_Output_To (b_Status (r_build (snd p))) = ob_digest ob"
    and "map_option ss_ForcePull (spec_SourceStrategy (b_Spec (r_build (snd p))))
           = ob_ForcePull ob"
    and "r_pushTag (snd p) = ob_pushTag ob"
    and "r_buildTag (snd p) = ob_buildTag ob"
    and "r_ctx (snd p) = ob_ctx ob"
    and "length (filter isTagOrPush (r_trace (snd p))) = ob_pushCalls ob"
  using assms by (auto simp: observe_def)

lemma run_exampleBuild:
  "observe (Build exampleEnv exampleBuild) =
     \<lparr> ob_exit = ReturnNil,
       ob_outcome = (BuildPhaseRunning, [], []),
       ob_digest = Some ''sha256:abc'',
       ob_ForcePull = Some False,
       ob_pushTag = ''registry.local/demo/app:latest'',
       ob_buildTag = ''temp.builder.openshift.io/demo/app-1:7f3a'',
       ob_ctx =
         [\<lparr>sr_Stage = ''Build'', sr_Step = ''DockerBuild'', sr_Start = 8, sr_End = 13\<rparr>,
          \<lparr>sr_Stage = ''PushImage'', sr_Step = ''PushImage'', sr_Start = 15, sr_End = 17\<rparr>],
       ob_pushCalls = 2\<rparr>"
  by code_simp

lemma run_buildWithoutOutput:
  "observe (Build exampleEnv buildWithoutOutput) =
     \<lparr> ob_exit = ReturnNil,
       ob_outcome = (BuildPhaseRunning, [], []),
       ob_digest = None,
       ob_ForcePull = Some False,
       ob_pushTag = ''app-1'',
       ob_buildTag = ''temp.builder.openshift.io/demo/app-1:7f3a'',
       ob_ctx =
         [\<lparr>sr_Stage = ''Build'', sr_Step = ''DockerBuild'', sr_Start = 8, sr_End = 13\<rparr>],
       ob_pushCalls = 0\<rparr>"
  by code_simp

lemma run_incrementalBuild:
  "observe (Build exampleEnv incrementalBuild) =
     \<lparr> ob_exit = ReturnNil,
       ob_outcome = (BuildPhaseRunning, [], []),
       ob_digest = Some ''sha256:abc'',
       ob_ForcePull = Some True,
       ob_pushTag = ''registry.local/demo/app:latest'',
       ob_buildTag = ''temp.builder.openshift.io/demo/app-1:7f3a'',
       ob_ctx =
         [\<lparr>sr_Stage = ''PullImages'', sr_Step = ''PullBaseImage'', sr_Start = 2, sr_End = 4\<rparr>,
          \<lparr>sr_Stage = ''PullImages'', sr_Step = ''PullInputImage'', sr_Start = 5, sr_End = 7\<rparr>,
          \<lparr>sr_Stage = ''Build'', sr_Step = ''DockerBuild'', sr_Start = 13, sr_End = 18\<rparr>,
          \<lparr>sr_Stage = ''PushImage'', sr_Step = ''PushImage'', sr_Start = 20, sr_End = 22\<rparr>],
       ob_pushCalls = 2\<rparr>"
  by code_simp

lemma run_incrementalBuild_pulled:
  "observe (Build pullSucceedsEnv incrementalBuild) =
     \<lparr> ob_exit = ReturnNil,
       ob_outcome = (BuildPhaseRunning, [], []),
       ob_digest = Some ''sha256:abc'',
       ob_ForcePull = Some False,
       ob_pushTag = ''registry.local/demo/app:latest'',
       ob_buildTag = ''temp.builder.openshift.io/demo/app-1:7f3a'',
       ob_ctx =
         [\<lparr>sr_Stage = ''PullImages'', sr_Step = ''PullBaseImage'', sr_Start = 2, sr_End = 4\<rparr>,
          \<lparr>sr_Stage = ''PullImages'', sr_Step = ''PullInputImage'', sr_Start = 5, sr_End = 7\<rparr>,
          \<lparr>sr_Stage = ''Build'', sr_Step = ''DockerBuild'', sr_Start = 13, sr_End = 18\<rparr>,
          \<lparr>sr_Stage = ''PushImage'', sr_Step = ''PushImage'', sr_Start = 20, sr_End = 22\<rparr>],
       ob_pushCalls = 2\<rparr>"
  by code_simp

lemma run_invalidConfig:
  "observe (Build invalidConfigEnv exampleBuild) =
     \<lparr> ob_exit = ReturnErr AtValidateConfig (GoError ''builder image is invalid, ''),
       ob_outcome = (BuildPhaseRunning, [], []),
       ob_digest = None,
       ob_ForcePull = Some False,
       ob_pushTag = ''registry.local/demo/app:latest'',
       ob_buildTag = ''temp.builder.openshift.io/demo/app-1:7f3a'',
       ob_ctx = [],
       ob_pushCalls = 0\<rparr>"
  by code_simp


lemma run_failedPush:
  "observe (Build failedPushEnv exampleBuild) =
     \<lparr> ob_exit = ReturnErr AtPushImage (GoError ''unauthorized''),
       ob_outcome = (BuildPhaseFailed, ''PushImageToRegistryFailed'',
          ''Failed to push the image to the registry.''),
       ob_digest = None,
       ob_ForcePull = Some False,
       ob_pushTag = ''registry.local/demo/app:latest'',
       ob_buildTag = ''temp.builder.openshift.io/demo/app-1:7f3a'',
       ob_ctx =
         [\<lparr>sr_Stage = ''Build'', sr_Step = ''DockerBuild'', sr_Start = 8, sr_End = 13\<rparr>,
          \<lparr>sr_Stage = ''PushImage'', sr_Step = ''PushImage'', sr_Start = 15, sr_End = 17\<rparr>],
       ob_pushCalls = 2\<rparr>"
  by code_simp

lemma run_registrationDown:
  "observe (Build registrationDownEnv confidentialBuild) =
     \<lparr> ob_exit = Panics,
       ob_outcome = (BuildPhaseRunning, [], []),
       ob_digest = None,
       ob_ForcePull = Some False,
       ob_pushTag = ''registry.local/demo/app:latest'',
       ob_buildTag = ''temp.builder.openshift.io/demo/app-cw-1:7f3a'',
       ob_ctx =
         [\<lparr>sr_Stage = ''Build'', sr_Step = ''DockerBuild'', sr_Start = 8, sr_End = 13\<rparr>,
          \<lparr>sr_Stage = ''PushImage'', sr_Step = ''PushImage'', sr_Start = 20, sr_End = 22\<rparr>],
       ob_pushCalls = 2\<rparr>"
  by code_simp

lemma run_registrationRejects:
  "observe (Build registrationRejectsEnv confidentialBuild) =
     \<lparr> ob_exit = ReturnNil,
       ob_outcome = (BuildPhaseRunning, [], []),
       ob_digest = Some ''sha256:abc'',
       ob_ForcePull = Some False,
       ob_pushTag = ''registry.local/demo/app:latest'',
       ob_buildTag = ''temp.builder.openshift.io/demo/app-cw-1:7f3a'',
       ob_ctx =
         [\<lparr>sr_Stage = ''Build'', sr_Step = ''DockerBuild'', sr_Start = 8, sr_End = 13\<rparr>,
          \<lparr>sr_Stage = ''PushImage'', sr_Step = ''PushImage'', sr_Start = 20, sr_End = 22\<rparr>],
       ob_pushCalls = 2\<rparr>"
  by code_simp

lemma run_buildWithoutStrategy:
  "observe (Build exampleEnv buildWithoutStrategy) =
     \<lparr> ob_exit = ReturnErr AtSourceStrategy
         (GoError ''the source to image builder must be used with the source strategy''),
       ob_outcome = (BuildPhaseRunning, [], []),
       ob_digest = None,
       ob_ForcePull = None,
       ob_pushTag = [],
       ob_buildTag = [],
       ob_ctx = [],
       ob_pushCalls = 0\<rparr>"
  by code_simp

subsection \<open>Reasoning about the stages\<close>

lemma stageTriple_andThen:
  "stageTriple P f Q E \<Longrightarrow> stageTriple Q g R E \<Longrightarrow> stageTriple P (andThen f g) R E"
  unfolding stageTriple_def andThen_def
  by (auto split: prod.splits option.splits)

lemma stageTriple_run:
  assumes "stageTriple P f Q E" and "P r"
  shows "case f r of (None, r') \<Rightarrow> Q r' | (Some x, r') \<Rightarrow> E x r'"
  using assms by (auto simp: stageTriple_def split: prod.splits option.splits)

lemma stages_invariant:
  assumes "stageTriple I checkSourceStrategy I E"
    and "stageTriple I derivePushTag I E"
    and "stageTriple I (prepareConfig env) I E"
    and "stageTriple I (pullBaseImage env) I E"
    and "stageTriple I (incrementalPull env) I E"
    and "stageTriple I (introspectImage env) I E"
    and "stageTriple I (setAllowedUIDs env) I E"
    and "stageTriple I (validateConfig env) I E"
    and "stageTriple I (createBuilder env) I E"
    and "stageTriple I (assemble env) I E"
    and "stageTriple I (prepareOptions env) I E"
    and "stageTriple I (engineBuild env) I E"
    and "stageTriple I (secureRepackage env) I E"
    and "stageTriple I (pushStage env) I E"
  shows "stageTriple I (stages env) I E"
  unfolding stages_def
  by (intro stageTriple_andThen [where Q = I] assms)

lemmas run_ops = emit_def setStatus_def setConfig_def RecordNewStep_def
  HandleBuildStatusUpdate_def failWith_def leave_def continue_def sourceStrategy_def

text \<open>The steps of the assembly are recorded in the timing context only.\<close>

lemma recordS2ISteps_frame:
  "r_build (foldl (\<lambda>r'' stp. RecordNewStep (f stp) (g stp) (h stp) (k stp) r'') r steps)
     = r_build r
   \<and> r_trace (foldl (\<lambda>r'' stp. RecordNewStep (f stp) (g stp) (h stp) (k stp) r'') r steps)
       = r_trace r
   \<and> r_push (foldl (\<lambda>r'' stp. RecordNewStep (f stp) (g stp) (h stp) (k stp) r'') r steps)
       = r_push r
   \<and> r_pushTag (foldl (\<lambda>r'' stp. RecordNewStep (f stp) (g stp) (h stp) (k stp) r'') r steps)
       = r_pushTag r
   \<and> r_buildTag (foldl (\<lambda>r'' stp. RecordNewStep (f stp) (g stp) (h stp) (k stp) r'') r steps)
       = r_buildTag r
   \<and> r_config (foldl (\<lambda>r'' stp. RecordNewStep (f stp) (g stp) (h stp) (k stp) r'') r steps)
       = r_config r"
  by (induction steps arbitrary: r) (simp_all add: RecordNewStep_def)

lemma recordS2IStages_frame [simp]:
  "r_build (recordS2IStages env stgs r) = r_build r"
  "r_trace (recordS2IStages env stgs r) = r_trace r"
  "r_push (recordS2IStages env stgs r) = r_push r"
  "r_pushTag (recordS2IStages env stgs r) = r_pushTag r"
  "r_buildTag (recordS2IStages env stgs r) = r_buildTag r"
  "r_config (recordS2IStages env stgs r) = r_config r"
  by (induction stgs arbitrary: r; simp add: recordS2IStages_def recordS2ISteps_frame)+

lemma pullNeeded_frame [simp]:
  "r_config (snd (pullNeeded env ss tag r)) = r_config r"
  "r_build (snd (pullNeeded env ss tag r)) = r_build r"
  "filter isStatusUpdate (r_trace (snd (pullNeeded env ss tag r)))
     = filter isStatusUpdate (r_trace r)"
  by (simp_all add: pullNeeded_def emit_def)

lemma timedPull_frame [simp]:
  "r_config (snd (timedPull env name paths stepName r)) = r_config r"
  "r_build (snd (timedPull env name paths stepName r)) = r_build r"
  "filter isStatusUpdate (r_trace (snd (timedPull env name paths stepName r)))
     = filter isStatusUpdate (r_trace r)"
  by (simp_all add: timedPull_def Let_def emit_def RecordNewStep_def)

lemma deferred_frame [simp]:
  "r_pushTag (deferredStatus env (deferredClose r)) = r_pushTag r"
  "r_buildTag (deferredStatus env (deferredClose r)) = r_buildTag r"
  "r_config (deferredStatus env (deferredClose r)) = r_config r"
  "r_ctx (deferredStatus env (deferredClose r)) = r_ctx r"
  "filter isTagOrPush (r_trace (deferredStatus env (deferredClose r)))
     = filter isTagOrPush (r_trace r)"
  by (simp_all add: deferredStatus_def deferredClose_def HandleBuildStatusUpdate_def
        setStatus_def emit_def)

text \<open>Eight of the stages do not write to the build object.\<close>

lemma keepsBuild_triple:
  "keepsBuild f \<Longrightarrow>
   stageTriple (\<lambda>r. J (r_build r)) f (\<lambda>r. J (r_build r)) (\<lambda>x r. J (r_build r))"
  by (auto simp: keepsBuild_def stageTriple_def)

lemma keepsBuild_checkSourceStrategy: "keepsBuild checkSourceStrategy"
  by (auto simp: keepsBuild_def checkSourceStrategy_def run_ops split: option.splits)

lemma keepsBuild_prepareConfig: "keepsBuild (prepareConfig env)"
  by (auto simp: keepsBuild_def prepareConfig_def run_ops Let_def
           split: option.splits sum.splits error.splits res.splits)

lemma keepsBuild_pullBaseImage: "keepsBuild (pullBaseImage env)"
  by (auto simp: keepsBuild_def pullBaseImage_def pullNeeded_def timedPull_def run_ops Let_def
           split: option.splits prod.splits if_splits)

lemma keepsBuild_introspectImage: "keepsBuild (introspectImage env)"
  by (auto simp: keepsBuild_def introspectImage_def run_ops Let_def
           split: res.splits if_splits)

lemma keepsBuild_setAllowedUIDs: "keepsBuild (setAllowedUIDs env)"
  by (auto simp: keepsBuild_def setAllowedUIDs_def run_ops Let_def split: sum.splits if_splits)

lemma keepsBuild_validateConfig: "keepsBuild (validateConfig env)"
  by (auto simp: keepsBuild_def validateConfig_def run_ops Let_def split: if_splits)

lemma keepsBuild_prepareOptions: "keepsBuild (prepareOptions env)"
  by (auto simp: keepsBuild_def prepareOptions_def run_ops Let_def split: option.splits)

lemma keepsBuild_secureRepackage: "keepsBuild (secureRepackage env)"
  by (auto simp: keepsBuild_def secureRepackage_def run_ops Let_def
           split: option.splits sum.splits if_splits)

subsection \<open>The deferred handler\<close>

lemma keepsStages_derivePushTag:
  "stageTriple (\<lambda>r. keepsStages b (r_build r)) derivePushTag
     (\<lambda>r. keepsStages b (r_build r)) (\<lambda>x r. keepsStages b (r_build r))"
  by (auto simp: stageTriple_def keepsStages_def derivePushTag_def run_ops Let_def)

lemma keepsStages_incrementalPull:
  "stageTriple (\<lambda>r. keepsStages b (r_build r)) (incrementalPull env)
     (\<lambda>r. keepsStages b (r_build r)) (\<lambda>x r. keepsStages b (r_build r))"
  by (auto simp: stageTriple_def keepsStages_def incrementalPull_def pullNeeded_def
        timedPull_def run_ops Let_def split: option.splits prod.splits if_splits)

lemma keepsStages_createBuilder:
  "stageTriple (\<lambda>r. keepsStages b (r_build r)) (createBuilder env)
     (\<lambda>r. keepsStages b (r_build r)) (\<lambda>x r. keepsStages b (r_build r))"
  by (auto simp: stageTriple_def keepsStages_def createBuilder_def run_ops Let_def
           split: option.splits prod.splits)

lemma keepsStages_assemble:
  "stageTriple (\<lambda>r. keepsStages b (r_build r)) (assemble env)
     (\<lambda>r. keepsStages b (r_build r)) (\<lambda>x r. keepsStages b (r_build r))"
  by (auto simp: stageTriple_def keepsStages_def assemble_def run_ops Let_def
           split: option.splits prod.splits)

lemma keepsStages_engineBuild:
  "stageTriple (\<lambda>r. keepsStages b (r_build r)) (engineBuild env)
     (\<lambda>r. keepsStages b (r_build r)) (\<lambda>x r. keepsStages b (r_build r))"
  by (auto simp: stageTriple_def keepsStages_def engineBuild_def processRecipe_def run_ops
        Let_def split: option.splits prod.splits sum.splits if_splits)

lemma keepsStages_pushStage:
  "stageTriple (\<lambda>r. keepsStages b (r_build r)) (pushStage env)
     (\<lambda>r. keepsStages b (r_build r)) (\<lambda>x r. keepsStages b (r_build r))"
  by (auto simp: stageTriple_def keepsStages_def pushStage_def registerImage_def
        recordDigest_def andThen_def run_ops Let_def
        split: option.splits prod.splits if_splits)

lemma stages_keep_Stages:
  "stageTriple (\<lambda>r. keepsStages b (r_build r)) (stages env)
     (\<lambda>r. keepsStages b (r_build r)) (\<lambda>x r. keepsStages b (r_build r))"
  by (intro stages_invariant keepsBuild_triple keepsBuild_checkSourceStrategy
        keepsBuild_prepareConfig keepsBuild_pullBaseImage keepsBuild_introspectImage
        keepsBuild_setAllowedUIDs keepsBuild_validateConfig keepsBuild_prepareOptions
        keepsBuild_secureRepackage keepsStages_derivePushTag keepsStages_incrementalPull
        keepsStages_createBuilder keepsStages_assemble keepsStages_engineBuild
        keepsStages_pushStage)

text \<open>
  Claim C10. However \<^verbatim>\<open>Build\<close> is left (by \<^verbatim>\<open>return nil\<close>, by any
  \<^verbatim>\<open>return err\<close>, the first one included, or by a panic), the stages of the final
  status are the stages the request came with, extended by
  \<^verbatim>\<open>AppendStageAndStepInfo\<close> with the steps of the timing context as the stages of
  \<^verbatim>\<open>Build\<close> left it; and the calls of the run end with one status update that
  carries this final status, after the calls of the stages and of the deferred close.
\<close>

theorem deferred_handler_on_every_path:
  "st_Stages (b_Status (r_build (snd (Build env b))))
     = AppendStageAndStepInfo env (st_Stages (b_Status b))
         (GetStages env (r_ctx (snd (Build env b))))
   \<and> r_ctx (snd (Build env b)) = r_ctx (snd (stages env (startRun b)))
   \<and> r_trace (snd (Build env b))
       = r_trace (deferredClose (snd (stages env (startRun b))))
         @ [EvStatusUpdate (b_Status (r_build (snd (Build env b))))]"
proof -
  obtain x r where body: "stages env (startRun b) = (x, r)"
    by (cases "stages env (startRun b)")
  have "keepsStages b (r_build (startRun b))"
    by (simp add: keepsStages_def startRun_def)
  from stageTriple_run [OF stages_keep_Stages, of b "startRun b" env, OF this] body
  have "keepsStages b (r_build r)"
    by (cases x) simp_all
  then have s: "st_Stages (b_Status (r_build r)) = st_Stages (b_Status b)"
    by (simp add: keepsStages_def)
  show ?thesis
    using s
    by (simp add: Build_def body deferredStatus_def deferredClose_def
          HandleBuildStatusUpdate_def setStatus_def emit_def)
qed

theorem deferred_handler_on_every_path_witness:
  "fst (Build exampleEnv buildWithoutStrategy)
     = ReturnErr AtSourceStrategy
         (GoError ''the source to image builder must be used with the source strategy'')
   \<and> st_Stages (b_Status (r_build (snd (Build exampleEnv buildWithoutStrategy))))
       = [\<lparr>sr_Stage = ''FetchInputs'', sr_Step = ''FetchGitSource'', sr_Start = 0, sr_End = 1\<rparr>]
   \<and> r_trace (snd (Build exampleEnv buildWithoutStrategy))
       = [EvStatusUpdate (b_Status (r_build (snd (Build exampleEnv buildWithoutStrategy))))]
   \<and> fst (Build exampleEnv exampleBuild) = ReturnNil
   \<and> st_Stages (b_Status (r_build (snd (Build exampleEnv exampleBuild))))
       = [\<lparr>sr_Stage = ''Build'', sr_Step = ''DockerBuild'', sr_Start = 8, sr_End = 13\<rparr>,
          \<lparr>sr_Stage = ''PushImage'', sr_Step = ''PushImage'', sr_Start = 15, sr_End = 17\<rparr>]
   \<and> last (r_trace (snd (Build exampleEnv exampleBuild)))
       = EvStatusUpdate (b_Status (r_build (snd (Build exampleEnv exampleBuild))))"
proof -
  note early = deferred_handler_on_every_path [of exampleEnv buildWithoutStrategy]
  note full = deferred_handler_on_every_path [of exampleEnv exampleBuild]
  have a: "fst (Build exampleEnv buildWithoutStrategy)
     = ReturnErr AtSourceStrategy
         (GoError ''the source to image builder must be used with the source strategy'')"
    using observed(1) [OF run_buildWithoutStrategy] by simp
  have b: "stages exampleEnv (startRun buildWithoutStrategy)
     = (Some (ReturnErr AtSourceStrategy
         (GoError ''the source to image builder must be used with the source strategy'')),
        startRun buildWithoutStrategy)"
    by (simp add: stages_def andThen_def checkSourceStrategy_def sourceStrategy_def leave_def
          startRun_def buildWithoutStrategy_def)
  have c: "deferredClose (startRun buildWithoutStrategy) = startRun buildWithoutStrategy"
    "r_trace (startRun buildWithoutStrategy) = []"
    by (simp_all add: deferredClose_def startRun_def)
  have g: "GetStages exampleEnv s = s" "AppendStageAndStepInfo exampleEnv s s' = s @ s'"
    for s s'
    by (simp_all add: exampleEnv_def)
  have i: "st_Stages (b_Status buildWithoutStrategy)
       = [\<lparr>sr_Stage = ''FetchInputs'', sr_Step = ''FetchGitSource'', sr_Start = 0, sr_End = 1\<rparr>]"
    "st_Stages (b_Status exampleBuild) = []"
    by (simp_all add: buildWithoutStrategy_def exampleBuild_def exampleStatus_def)
  have s0: "st_Stages (b_Status (r_build (snd (Build exampleEnv buildWithoutStrategy))))
       = [\<lparr>sr_Stage = ''FetchInputs'', sr_Step = ''FetchGitSource'', sr_Start = 0, sr_End = 1\<rparr>]"
    using early observed(7) [OF run_buildWithoutStrategy] by (simp add: g i)
  have t: "r_trace (snd (Build exampleEnv buildWithoutStrategy))
       = [EvStatusUpdate (b_Status (r_build (snd (Build exampleEnv buildWithoutStrategy))))]"
    using early by (simp add: b c)
  have d: "fst (Build exampleEnv exampleBuild) = ReturnNil"
    using observed(1) [OF run_exampleBuild] by simp
  have s: "st_Stages (b_Status (r_build (snd (Build exampleEnv exampleBuild))))
       = [\<lparr>sr_Stage = ''Build'', sr_Step = ''DockerBuild'', sr_Start = 8, sr_End = 13\<rparr>,
          \<lparr>sr_Stage = ''PushImage'', sr_Step = ''PushImage'', sr_Start = 15, sr_End = 17\<rparr>]"
    using full observed(7) [OF run_exampleBuild] by (simp add: g i)
  have l: "last (r_trace (snd (Build exampleEnv exampleBuild)))
       = EvStatusUpdate (b_Status (r_build (snd (Build exampleEnv exampleBuild))))"
    using full by simp
  show ?thesis
    by (intro conjI) (rule a, rule s0, rule t, rule d, rule s, rule l)
qed

subsection \<open>The request during a run\<close>

lemma clearForcePull_twice [simp]: "clearForcePull (clearForcePull sp) = clearForcePull sp"
  by (simp add: clearForcePull_def option.map_comp o_def)

lemma requestKept_derivePushTag:
  "stageTriple (\<lambda>r. requestKept b (r_build r)) derivePushTag
     (\<lambda>r. requestKept b (r_build r)) (\<lambda>x r. requestKept b (r_build r))"
  by (auto simp: stageTriple_def requestKept_def derivePushTag_def run_ops Let_def)

lemma requestKept_incrementalPull:
  "stageTriple (\<lambda>r. requestKept b (r_build r)) (incrementalPull env)
     (\<lambda>r. requestKept b (r_build r)) (\<lambda>x r. requestKept b (r_build r))"
  by (auto simp: stageTriple_def requestKept_def incrementalPull_def pullNeeded_def
        timedPull_def run_ops Let_def split: option.splits prod.splits if_splits)

lemma requestKept_createBuilder:
  "stageTriple (\<lambda>r. requestKept b (r_build r)) (createBuilder env)
     (\<lambda>r. requestKept b (r_build r)) (\<lambda>x r. requestKept b (r_build r))"
  by (auto simp: stageTriple_def requestKept_def createBuilder_def run_ops Let_def
           split: option.splits prod.splits)

lemma requestKept_assemble:
  "stageTriple (\<lambda>r. requestKept b (r_build r)) (assemble env)
     (\<lambda>r. requestKept b (r_build r)) (\<lambda>x r. requestKept b (r_build r))"
  by (auto simp: stageTriple_def requestKept_def assemble_def run_ops Let_def
           split: option.splits prod.splits)

lemma requestKept_engineBuild:
  "stageTriple (\<lambda>r. requestKept b (r_build r)) (engineBuild env)
     (\<lambda>r. requestKept b (r_build r)) (\<lambda>x r. requestKept b (r_build r))"
  by (auto simp: stageTriple_def requestKept_def engineBuild_def processRecipe_def run_ops
        Let_def split: option.splits prod.splits sum.splits if_splits)

lemma requestKept_pushStage:
  "stageTriple (\<lambda>r. requestKept b (r_build r)) (pushStage env)
     (\<lambda>r. requestKept b (r_build r)) (\<lambda>x r. requestKept b (r_build r))"
  by (auto simp: stageTriple_def requestKept_def pushStage_def registerImage_def
        recordDigest_def andThen_def run_ops Let_def
        split: option.splits prod.splits if_splits)

lemma stages_keep_request:
  "stageTriple (\<lambda>r. requestKept b (r_build r)) (stages env)
     (\<lambda>r. requestKept b (r_build r)) (\<lambda>x r. requestKept b (r_build r))"
  by (intro stages_invariant keepsBuild_triple keepsBuild_checkSourceStrategy
        keepsBuild_prepareConfig keepsBuild_pullBaseImage keepsBuild_introspectImage
        keepsBuild_setAllowedUIDs keepsBuild_validateConfig keepsBuild_prepareOptions
        keepsBuild_secureRepackage requestKept_derivePushTag requestKept_incrementalPull
        requestKept_createBuilder requestKept_assemble requestKept_engineBuild
        requestKept_pushStage)

text \<open>What the incremental stage does to the request.\<close>

lemma incrementalPull_spec:
  "b_Spec (r_build (snd (incrementalPull env r))) =
     (if Incremental (r_config r)
         \<and> (\<exists>ss. sourceStrategy r = Some ss
               \<and> fst (pullNeeded env ss (IncrementalFromTag (r_config r)) r)
               \<and> fst (timedPull env (IncrementalFromTag (r_config r))
                         (GetDockerAuthSearchPaths env (PushAuthType env))
                         (StepPullInputImage env)
                         (snd (pullNeeded env ss (IncrementalFromTag (r_config r)) r))) = None)
      then clearForcePull (b_Spec (r_build r))
      else b_Spec (r_build r))"
  by (auto simp: incrementalPull_def split_def Let_def leave_def continue_def setConfig_def
           split: option.splits)

text \<open>
  Claim C4, as stated, fails: an incremental request with \<open>ForcePull\<close> set, whose
  previous output image is pulled, leaves \<^verbatim>\<open>Build\<close> with \<open>ForcePull\<close> cleared.
\<close>

theorem request_modified_counterexample:
  "map_option ss_ForcePull (spec_SourceStrategy (b_Spec incrementalBuild)) = Some True
   \<and> map_option ss_ForcePull
        (spec_SourceStrategy (b_Spec (r_build (snd (Build pullSucceedsEnv incrementalBuild)))))
       = Some False
   \<and> b_Spec (r_build (snd (Build pullSucceedsEnv incrementalBuild))) \<noteq> b_Spec incrementalBuild"
proof -
  have a: "map_option ss_ForcePull (spec_SourceStrategy (b_Spec incrementalBuild)) = Some True"
    by (simp add: incrementalBuild_def)
  have b: "map_option ss_ForcePull
        (spec_SourceStrategy (b_Spec (r_build (snd (Build pullSucceedsEnv incrementalBuild)))))
       = Some False"
    using observed(4) [OF run_incrementalBuild_pulled] by simp
  from a b show ?thesis
    by auto
qed

text \<open>
  Claim C4, amended. A run changes nothing of the request but the \<open>ForcePull\<close> flag of
  its source strategy: when \<^verbatim>\<open>Build\<close> is left, name and namespace are unchanged and
  the spec is the spec of the request, or that spec with \<open>ForcePull\<close> set to false.
  The flag is written by the incremental stage only (line 262): that stage sets it to
  false when the configuration is incremental and the pull of the previous output image
  was made and succeeded, and leaves the spec as it was otherwise.
\<close>

theorem request_changes_only_ForcePull:
  "(b_Spec (r_build (snd (Build env b))) = b_Spec b
      \<or> b_Spec (r_build (snd (Build env b))) = clearForcePull (b_Spec b))
   \<and> b_Name (r_build (snd (Build env b))) = b_Name b
   \<and> b_Namespace (r_build (snd (Build env b))) = b_Namespace b
   \<and> (Incremental (r_config r) \<and> sourceStrategy r = Some ss
        \<and> fst (pullNeeded env ss (IncrementalFromTag (r_config r)) r)
        \<and> fst (timedPull env (IncrementalFromTag (r_config r))
                  (GetDockerAuthSearchPaths env (PushAuthType env)) (StepPullInputImage env)
                  (snd (pullNeeded env ss (IncrementalFromTag (r_config r)) r))) = None
      \<longrightarrow> b_Spec (r_build (snd (incrementalPull env r))) = clearForcePull (b_Spec (r_build r)))
   \<and> (b_Spec (r_build (snd (incrementalPull env r))) \<noteq> b_Spec (r_build r)
      \<longrightarrow> Incremental (r_config r)
          \<and> (\<exists>ss. sourceStrategy r = Some ss
                \<and> fst (pullNeeded env ss (IncrementalFromTag (r_config r)) r)
                \<and> fst (timedPull env (IncrementalFromTag (r_config r))
                          (GetDockerAuthSearchPaths env (PushAuthType env))
                          (StepPullInputImage env)
                          (snd (pullNeeded env ss (IncrementalFromTag (r_config r)) r)))
                    = None))"
proof -
  obtain x r' where body: "stages env (startRun b) = (x, r')"
    by (cases "stages env (startRun b)")
  have "requestKept b (r_build (startRun b))"
    by (simp add: requestKept_def startRun_def)
  from stageTriple_run [OF stages_keep_request, of b "startRun b" env, OF this] body
  have "requestKept b (r_build r')"
    by (cases x) simp_all
  then have whole: "requestKept b (r_build (snd (Build env b)))"
    by (simp add: Build_def body requestKept_def deferredStatus_def deferredClose_def
          HandleBuildStatusUpdate_def setStatus_def emit_def)
  have sets: "Incremental (r_config r) \<and> sourceStrategy r = Some ss
        \<and> fst (pullNeeded env ss (IncrementalFromTag (r_config r)) r)
        \<and> fst (timedPull env (IncrementalFromTag (r_config r))
                  (GetDockerAuthSearchPaths env (PushAuthType env)) (StepPullInputImage env)
                  (snd (pullNeeded env ss (IncrementalFromTag (r_config r)) r))) = None
      \<longrightarrow> b_Spec (r_build (snd (incrementalPull env r))) = clearForcePull (b_Spec (r_build r))"
    by (simp add: incrementalPull_spec)
  have only: "b_Spec (r_build (snd (incrementalPull env r))) \<noteq> b_Spec (r_build r)
      \<longrightarrow> Incremental (r_config r)
          \<and> (\<exists>ss. sourceStrategy r = Some ss
                \<and> fst (pullNeeded env ss (IncrementalFromTag (r_config r)) r)
                \<and> fst (timedPull env (IncrementalFromTag (r_config r))
                          (GetDockerAuthSearchPaths env (PushAuthType env))
                          (StepPullInputImage env)
                          (snd (pullNeeded env ss (IncrementalFromTag (r_config r)) r)))
                    = None)"
    by (simp add: incrementalPull_spec split: if_splits)
  from whole sets only show ?thesis
    unfolding requestKept_def by blast
qed

theorem request_changes_only_ForcePull_witness:
  "b_Spec (r_build (snd (Build pullSucceedsEnv incrementalBuild)))
     = clearForcePull (b_Spec incrementalBuild)
   \<and> b_Name (r_build (snd (Build pullSucceedsEnv incrementalBuild))) = ''app-1''
   \<and> Incremental (r_config plannedRun)
   \<and> fst (pullNeeded pullSucceedsEnv (exampleStrategy\<lparr>ss_Incremental := Some True,
                                                      ss_ForcePull := True\<rparr>)
             (IncrementalFromTag (r_config plannedRun)) plannedRun)
   \<and> b_Spec (r_build (snd (incrementalPull pullSucceedsEnv plannedRun)))
       = clearForcePull (b_Spec incrementalBuild)
   \<and> b_Spec (r_build (snd (incrementalPull exampleEnv plannedRun))) = b_Spec incrementalBuild"
proof -
  let ?ss = "exampleStrategy\<lparr>ss_Incremental := Some True, ss_ForcePull := True\<rparr>"
  note pulled = request_changes_only_ForcePull [of pullSucceedsEnv incrementalBuild plannedRun ?ss]
  note failed = request_changes_only_ForcePull [of exampleEnv incrementalBuild plannedRun ?ss]
  have p: "Incremental (r_config plannedRun)" "sourceStrategy plannedRun = Some ?ss"
    "IncrementalFromTag (r_config plannedRun) = ''registry.local/demo/app:latest''"
    "r_build plannedRun = incrementalBuild"
    by (simp_all add: plannedRun_def startRun_def zeroConfig_def sourceStrategy_def
          incrementalBuild_def exampleSpec_def)
  have n: "fst (pullNeeded env ?ss ''registry.local/demo/app:latest'' plannedRun)" for env
    by (simp add: pullNeeded_def)
  have o: "pullOptions exampleEnv ''registry.local/demo/app:latest''
             = \<lparr>po_Repository = ''registry.local/demo/app:latest'', po_Tag = []\<rparr>"
    by code_simp
  have ok: "fst (timedPull pullSucceedsEnv ''registry.local/demo/app:latest''
                   (GetDockerAuthSearchPaths pullSucceedsEnv (PushAuthType pullSucceedsEnv))
                   (StepPullInputImage pullSucceedsEnv)
                   (snd (pullNeeded pullSucceedsEnv ?ss ''registry.local/demo/app:latest''
                           plannedRun))) = None"
    by (simp add: timedPull_def Let_def pullSucceedsEnv_def)
  have ko: "fst (timedPull exampleEnv ''registry.local/demo/app:latest''
                   (GetDockerAuthSearchPaths exampleEnv (PushAuthType exampleEnv))
                   (StepPullInputImage exampleEnv)
                   (snd (pullNeeded exampleEnv ss ''registry.local/demo/app:latest''
                           plannedRun))) \<noteq> None" for ss
    by (simp add: timedPull_def Let_def o) (simp add: exampleEnv_def)
  have f: "spec_SourceStrategy (clearForcePull (b_Spec incrementalBuild))
             \<noteq> spec_SourceStrategy (b_Spec incrementalBuild)"
    by (simp add: clearForcePull_def incrementalBuild_def exampleSpec_def exampleStrategy_def)
  have before: "map_option ss_ForcePull (spec_SourceStrategy (b_Spec incrementalBuild))
                  = Some True"
    by (simp add: incrementalBuild_def)
  have changed: "b_Spec (r_build (snd (Build pullSucceedsEnv incrementalBuild)))
                   \<noteq> b_Spec incrementalBuild"
    using before observed(4) [OF run_incrementalBuild_pulled] by auto
  have w1: "b_Spec (r_build (snd (Build pullSucceedsEnv incrementalBuild)))
     = clearForcePull (b_Spec incrementalBuild)"
    using pulled changed by blast
  have name: "b_Name incrementalBuild = ''app-1''"
    by (simp add: incrementalBuild_def exampleBuild_def)
  have w2: "b_Name (r_build (snd (Build pullSucceedsEnv incrementalBuild))) = ''app-1''"
    using pulled name by simp
  have w3: "b_Spec (r_build (snd (incrementalPull pullSucceedsEnv plannedRun)))
       = clearForcePull (b_Spec incrementalBuild)"
    using pulled p n ok by simp
  have w4: "b_Spec (r_build (snd (incrementalPull exampleEnv plannedRun)))
              = b_Spec incrementalBuild"
    using failed p ko by auto
  show ?thesis
    using p(1) n [of pullSucceedsEnv] w1 w2 w3 w4 by (simp add: p)
qed

subsection \<open>Errors and the status\<close>



















subsection \<open>A stage that leaves, leaves \<^verbatim>\<open>Build\<close>\<close>








subsection \<open>The failures of the stages\<close>

















subsection \<open>The push tag and the push\<close>

lemmas push_defs = stageTriple_def started_def pushPlanned_def pushDone_def pushLeft_def
  pushTagOf_def pushCalls_def

lemma push_checkSourceStrategy:
  "stageTriple (started b) checkSourceStrategy (started b) (pushLeft b)"
  by (auto simp: push_defs checkSourceStrategy_def run_ops startRun_def split: option.splits)

lemma push_derivePushTag:
  "stageTriple (started b) derivePushTag (pushPlanned b) (pushLeft b)"
  by (auto simp: push_defs derivePushTag_def run_ops startRun_def noOutputTarget_def Let_def
           split: option.splits)

lemma push_prepareConfig:
  "stageTriple (pushPlanned b) (prepareConfig env) (pushPlanned b) (pushLeft b)"
  by (auto simp: push_defs prepareConfig_def run_ops Let_def
           split: option.splits sum.splits error.splits res.splits)

lemma push_pullBaseImage:
  "stageTriple (pushPlanned b) (pullBaseImage env) (pushPlanned b) (pushLeft b)"
  by (auto simp: push_defs pullBaseImage_def pullNeeded_def timedPull_def run_ops Let_def
           split: option.splits prod.splits if_splits)

lemma push_incrementalPull:
  "stageTriple (pushPlanned b) (incrementalPull env) (pushPlanned b) (pushLeft b)"
  by (auto simp: push_defs incrementalPull_def pullNeeded_def timedPull_def run_ops Let_def
           split: option.splits prod.splits if_splits)

lemma push_introspectImage:
  "stageTriple (pushPlanned b) (introspectImage env) (pushPlanned b) (pushLeft b)"
  by (auto simp: push_defs introspectImage_def run_ops Let_def split: res.splits if_splits)

lemma push_setAllowedUIDs:
  "stageTriple (pushPlanned b) (setAllowedUIDs env) (pushPlanned b) (pushLeft b)"
  by (auto simp: push_defs setAllowedUIDs_def run_ops Let_def split: sum.splits if_splits)

lemma push_validateConfig:
  "stageTriple (pushPlanned b) (validateConfig env) (pushPlanned b) (pushLeft b)"
  by (auto simp: push_defs validateConfig_def run_ops Let_def split: if_splits)

lemma push_createBuilder:
  "stageTriple (pushPlanned b) (createBuilder env) (pushPlanned b) (pushLeft b)"
  by (auto simp: push_defs createBuilder_def run_ops Let_def
           split: option.splits prod.splits)

lemma push_assemble:
  "stageTriple (pushPlanned b) (assemble env) (pushPlanned b) (pushLeft b)"
  by (auto simp: push_defs assemble_def run_ops Let_def split: option.splits prod.splits)

lemma push_prepareOptions:
  "stageTriple (pushPlanned b) (prepareOptions env) (pushPlanned b) (pushLeft b)"
  by (auto simp: push_defs prepareOptions_def run_ops Let_def split: option.splits)

lemma push_engineBuild:
  "stageTriple (pushPlanned b) (engineBuild env) (pushPlanned b) (pushLeft b)"
  by (auto simp: push_defs engineBuild_def processRecipe_def run_ops Let_def
           split: option.splits prod.splits sum.splits if_splits)

lemma push_secureRepackage:
  "stageTriple (pushPlanned b) (secureRepackage env) (pushPlanned b) (pushLeft b)"
  by (auto simp: push_defs secureRepackage_def run_ops Let_def
           split: option.splits sum.splits if_splits)

lemma push_pushStage:
  "stageTriple (pushPlanned b) (pushStage env) (pushDone env b) (pushLeft b)"
  by (auto simp: push_defs pushStage_def registerImage_def recordDigest_def andThen_def
        run_ops Let_def split: option.splits prod.splits if_splits)

lemma push_stages:
  "stageTriple (started b) (stages env) (pushDone env b) (pushLeft b)"
  unfolding stages_def
  by (rule stageTriple_andThen [OF push_checkSourceStrategy]
      stageTriple_andThen [OF push_derivePushTag]
      stageTriple_andThen [OF push_prepareConfig]
      stageTriple_andThen [OF push_pullBaseImage]
      stageTriple_andThen [OF push_incrementalPull]
      stageTriple_andThen [OF push_introspectImage]
      stageTriple_andThen [OF push_setAllowedUIDs]
      stageTriple_andThen [OF push_validateConfig]
      stageTriple_andThen [OF push_createBuilder]
      stageTriple_andThen [OF push_assemble]
      stageTriple_andThen [OF push_prepareOptions]
      stageTriple_andThen [OF push_engineBuild]
      stageTriple_andThen [OF push_secureRepackage]
      push_pushStage)+

text \<open>
  Claim C5, as stated, fails twice. The push tag of a request with an output target is
  not the name of the target (\<open>app:latest\<close>) but the reference that the status carries
  (\<open>registry.local/demo/app:latest\<close>); and a request with an output target whose
  configuration is rejected by the validator is neither tagged nor pushed.
\<close>

theorem push_tag_counterexample:
  "out_To (spec_Output (b_Spec exampleBuild))
     = Some \<lparr>or_Kind = ''ImageStreamTag'', or_Name = ''app:latest''\<rparr>
   \<and> r_pushTag (snd (Build exampleEnv exampleBuild)) = ''registry.local/demo/app:latest''
   \<and> fst (Build invalidConfigEnv exampleBuild)
       = ReturnErr AtValidateConfig (GoError ''builder image is invalid, '')
   \<and> filter isTagOrPush (r_trace (snd (Build invalidConfigEnv exampleBuild))) = []"
proof -
  have a: "out_To (spec_Output (b_Spec exampleBuild))
     = Some \<lparr>or_Kind = ''ImageStreamTag'', or_Name = ''app:latest''\<rparr>"
    by (simp add: exampleBuild_def exampleSpec_def)
  have b: "r_pushTag (snd (Build exampleEnv exampleBuild)) = ''registry.local/demo/app:latest''"
    using observed(5) [OF run_exampleBuild] by simp
  have c: "fst (Build invalidConfigEnv exampleBuild)
       = ReturnErr AtValidateConfig (GoError ''builder image is invalid, '')"
    using observed(1) [OF run_invalidConfig] by simp
  have d: "filter isTagOrPush (r_trace (snd (Build invalidConfigEnv exampleBuild))) = []"
    using observed(8) [OF run_invalidConfig] by simp
  show ?thesis
    by (intro conjI) (rule a, rule b, rule c, rule d)
qed

text \<open>
  Claim C5, amended. When the request has no output target (none, or one with an empty
  name), no tag and no push call is made, whatever the exit, and the push tag is the
  build's name. When it has one, the push tag is the output image
  reference of the build's status, and a run that returns nil made exactly two such
  calls, in this order: the tag of the temporary build tag as the push tag, then the
  push of the push tag with the push credentials. (Both push tags are those of a
  request with a source strategy: without one, no tag is derived.)
\<close>

theorem push_tag_and_push_calls:
  "(noOutputTarget b \<longrightarrow>
      filter isTagOrPush (r_trace (snd (Build env b))) = []
      \<and> (spec_SourceStrategy (b_Spec b) \<noteq> None \<longrightarrow> r_pushTag (snd (Build env b)) = b_Name b))
   \<and> (\<not> noOutputTarget b \<and> spec_SourceStrategy (b_Spec b) \<noteq> None \<longrightarrow>
      r_pushTag (snd (Build env b)) = st_OutputDockerImageReference (b_Status b)
      \<and> (fst (Build env b) = ReturnNil \<longrightarrow>
            filter isTagOrPush (r_trace (snd (Build env b)))
              = [EvTagImage (r_buildTag (snd (Build env b))) (r_pushTag (snd (Build env b))),
                 EvPushImage (pushOptions env (r_pushTag (snd (Build env b))))
                   (fst (GetDockerAuth env (r_pushTag (snd (Build env b)))
                           (PushAuthType env)))]))"
proof -
  obtain x r where body: "stages env (startRun b) = (x, r)"
    by (cases "stages env (startRun b)")
  have final: "r_pushTag (snd (Build env b)) = r_pushTag r"
    "r_buildTag (snd (Build env b)) = r_buildTag r"
    "filter isTagOrPush (r_trace (snd (Build env b))) = filter isTagOrPush (r_trace r)"
    by (simp_all add: Build_def body)
  have "started b (startRun b)"
    by (simp add: started_def)
  from stageTriple_run [OF push_stages this, of env] body
  have post: "case x of None \<Rightarrow> pushDone env b r | Some y \<Rightarrow> pushLeft b y r"
    by simp
  show ?thesis
  proof (cases x)
    case None
    then have "pushDone env b r"
      using post by simp
    then show ?thesis
      by (simp add: final pushDone_def pushTagOf_def pushCalls_def)
  next
    case (Some y)
    then have "pushLeft b y r" and "fst (Build env b) = y"
      using post by (simp_all add: Build_def body)
    then show ?thesis
      by (auto simp: final pushLeft_def pushTagOf_def)
  qed
qed

theorem push_tag_and_push_calls_witness:
  "noOutputTarget buildWithoutOutput
   \<and> filter isTagOrPush (r_trace (snd (Build exampleEnv buildWithoutOutput))) = []
   \<and> r_pushTag (snd (Build exampleEnv buildWithoutOutput)) = ''app-1''
   \<and> \<not> noOutputTarget exampleBuild
   \<and> fst (Build exampleEnv exampleBuild) = ReturnNil
   \<and> r_pushTag (snd (Build exampleEnv exampleBuild)) = ''registry.local/demo/app:latest''
   \<and> filter isTagOrPush (r_trace (snd (Build exampleEnv exampleBuild)))
       = [EvTagImage ''temp.builder.openshift.io/demo/app-1:7f3a''
            ''registry.local/demo/app:latest'',
          EvPushImage \<lparr>pu_Name = ''registry.local/demo/app:latest'', pu_Tag = []\<rparr>
            \<lparr>auth_Username = [], auth_Password = [], auth_ServerAddress = []\<rparr>]"
proof -
  note without = push_tag_and_push_calls [of buildWithoutOutput exampleEnv]
  note pushed = push_tag_and_push_calls [of exampleBuild exampleEnv]
  have n: "noOutputTarget buildWithoutOutput" "\<not> noOutputTarget exampleBuild"
    by code_simp+
  have s: "spec_SourceStrategy (b_Spec buildWithoutOutput) \<noteq> None"
    "spec_SourceStrategy (b_Spec exampleBuild) \<noteq> None"
    by (simp_all add: buildWithoutOutput_def exampleBuild_def exampleSpec_def)
  have v: "b_Name buildWithoutOutput = ''app-1''"
    "st_OutputDockerImageReference (b_Status exampleBuild) = ''registry.local/demo/app:latest''"
    by (simp_all add: buildWithoutOutput_def exampleBuild_def exampleStatus_def)
  have ok: "fst (Build exampleEnv exampleBuild) = ReturnNil"
    using observed(1) [OF run_exampleBuild] by simp
  have t: "r_buildTag (snd (Build exampleEnv exampleBuild))
             = ''temp.builder.openshift.io/demo/app-1:7f3a''"
    using observed(6) [OF run_exampleBuild] by simp
  have o: "pushOptions exampleEnv ''registry.local/demo/app:latest''
             = \<lparr>pu_Name = ''registry.local/demo/app:latest'', pu_Tag = []\<rparr>"
    "fst (GetDockerAuth exampleEnv ''registry.local/demo/app:latest'' (PushAuthType exampleEnv))
       = \<lparr>auth_Username = [], auth_Password = [], auth_ServerAddress = []\<rparr>"
    by (simp_all add: pushOptions_def exampleEnv_def)
  have w1: "filter isTagOrPush (r_trace (snd (Build exampleEnv buildWithoutOutput))) = []"
    "r_pushTag (snd (Build exampleEnv buildWithoutOutput)) = ''app-1''"
    using without n s v by simp_all
  have w2: "r_pushTag (snd (Build exampleEnv exampleBuild)) = ''registry.local/demo/app:latest''"
    using pushed n s v by simp
  have w3: "filter isTagOrPush (r_trace (snd (Build exampleEnv exampleBuild)))
       = [EvTagImage ''temp.builder.openshift.io/demo/app-1:7f3a''
            ''registry.local/demo/app:latest'',
          EvPushImage \<lparr>pu_Name = ''registry.local/demo/app:latest'', pu_Tag = []\<rparr>
            \<lparr>auth_Username = [], auth_Password = [], auth_ServerAddress = []\<rparr>]"
    using pushed n s ok by (simp add: w2 t o)
  show ?thesis
    by (intro conjI) (rule n(1), rule w1(1), rule w1(2), rule n(2), rule ok, rule w2, rule w3)
qed

subsection \<open>The fallback of an incremental build\<close>

lemma noHandover_simps [simp]:
  "noHandover []"
  "noHandover (ev # tr) = (handedConfig ev = None \<and> noHandover tr)"
  "noHandover (tr @ tr') = (noHandover tr \<and> noHandover tr')"
  by (auto simp: noHandover_def)

lemma fullBuildsOnly_simps [simp]:
  "fullBuildsOnly []"
  "fullBuildsOnly (ev # tr) =
     ((case handedConfig ev of None \<Rightarrow> True | Some c \<Rightarrow> fullBuild c) \<and> fullBuildsOnly tr)"
  "fullBuildsOnly (tr @ tr') = (fullBuildsOnly tr \<and> fullBuildsOnly tr')"
  by (auto simp: fullBuildsOnly_def)

lemma fullBuildsOnly_none [simp]: "noHandover tr \<Longrightarrow> fullBuildsOnly tr"
  by (induction tr) (auto simp: fullBuildsOnly_def noHandover_def)

lemmas fallback_defs = stageTriple_def started_def tagDerived_def incrementalPlanned_def
  downgraded_def leftAsFullBuild_def fullBuild_def

lemma fallback_checkSourceStrategy:
  "spec_SourceStrategy (b_Spec b) = Some ss \<Longrightarrow>
   stageTriple (started b) checkSourceStrategy (started b) leftAsFullBuild"
  by (auto simp: fallback_defs checkSourceStrategy_def run_ops startRun_def
           split: option.splits)

lemma fallback_derivePushTag:
  "spec_SourceStrategy (b_Spec b) = Some ss \<Longrightarrow>
   stageTriple (started b) derivePushTag (tagDerived b ss) leftAsFullBuild"
  by (auto simp: fallback_defs derivePushTag_def run_ops startRun_def pushTagOf_def Let_def)

lemma fallback_prepareConfig:
  "ss_Incremental ss = Some True \<Longrightarrow>
   stageTriple (tagDerived b ss) (prepareConfig env) (incrementalPlanned b ss) leftAsFullBuild"
  by (auto simp: fallback_defs prepareConfig_def newConfig_def run_ops Let_def
           split: option.splits sum.splits error.splits res.splits)

lemma fallback_pullBaseImage:
  "stageTriple (incrementalPlanned b ss) (pullBaseImage env) (incrementalPlanned b ss)
     leftAsFullBuild"
  by (auto simp: fallback_defs pullBaseImage_def pullNeeded_def timedPull_def run_ops Let_def
           split: option.splits prod.splits if_splits)

lemma pullFailsD:
  "retryPull env h (pullOptions env tag) (GetDockerAuthSearchPaths env (PushAuthType env)) = None
   \<Longrightarrow> pullFails env tag \<Longrightarrow> False"
  unfolding pullFails_def by blast

lemma fallback_incrementalPull:
  "pullFails env (pushTagOf b) \<Longrightarrow> pullAttempted env ss (pushTagOf b) \<Longrightarrow>
   stageTriple (incrementalPlanned b ss) (incrementalPull env) downgraded leftAsFullBuild"
  by (auto simp: fallback_defs incrementalPull_def pullNeeded_def timedPull_def run_ops Let_def
           pullAttempted_def dest: pullFailsD
           split: option.splits prod.splits if_splits)

lemma fallback_introspectImage:
  "stageTriple downgraded (introspectImage env) downgraded leftAsFullBuild"
  by (auto simp: fallback_defs introspectImage_def run_ops Let_def split: res.splits if_splits)

lemma fallback_setAllowedUIDs:
  "stageTriple downgraded (setAllowedUIDs env) downgraded leftAsFullBuild"
  by (auto simp: fallback_defs setAllowedUIDs_def run_ops Let_def split: sum.splits if_splits)

lemma fallback_validateConfig:
  "stageTriple downgraded (validateConfig env) downgraded leftAsFullBuild"
  by (auto simp: fallback_defs validateConfig_def run_ops Let_def split: if_splits)

lemma fallback_createBuilder:
  "stageTriple downgraded (createBuilder env) downgraded leftAsFullBuild"
  by (auto simp: fallback_defs createBuilder_def run_ops Let_def
           split: option.splits prod.splits)

lemma fallback_assemble:
  "stageTriple downgraded (assemble env) downgraded leftAsFullBuild"
  by (auto simp: fallback_defs assemble_def run_ops Let_def split: option.splits prod.splits)

lemma fallback_prepareOptions:
  "stageTriple downgraded (prepareOptions env) downgraded leftAsFullBuild"
  by (auto simp: fallback_defs prepareOptions_def run_ops Let_def split: option.splits)

lemma fallback_engineBuild:
  "stageTriple downgraded (engineBuild env) downgraded leftAsFullBuild"
  by (auto simp: fallback_defs engineBuild_def processRecipe_def run_ops Let_def
           split: option.splits prod.splits sum.splits if_splits)

lemma fallback_secureRepackage:
  "stageTriple downgraded (secureRepackage env) downgraded leftAsFullBuild"
  by (auto simp: fallback_defs secureRepackage_def run_ops Let_def
           split: option.splits sum.splits if_splits)

lemma fallback_pushStage:
  "stageTriple downgraded (pushStage env) downgraded leftAsFullBuild"
  by (auto simp: fallback_defs pushStage_def registerImage_def recordDigest_def andThen_def
        run_ops Let_def split: option.splits prod.splits if_splits)

lemma fallback_stages:
  assumes "spec_SourceStrategy (b_Spec b) = Some ss" and "ss_Incremental ss = Some True"
    and "pullFails env (pushTagOf b)" and "pullAttempted env ss (pushTagOf b)"
  shows "stageTriple (started b) (stages env) downgraded leftAsFullBuild"
  unfolding stages_def
  by (rule stageTriple_andThen [OF fallback_checkSourceStrategy [OF assms(1)]]
      stageTriple_andThen [OF fallback_derivePushTag [OF assms(1)]]
      stageTriple_andThen [OF fallback_prepareConfig [OF assms(2)]]
      stageTriple_andThen [OF fallback_pullBaseImage]
      stageTriple_andThen [OF fallback_incrementalPull [OF assms(3) assms(4)]]
      stageTriple_andThen [OF fallback_introspectImage]
      stageTriple_andThen [OF fallback_setAllowedUIDs]
      stageTriple_andThen [OF fallback_validateConfig]
      stageTriple_andThen [OF fallback_createBuilder]
      stageTriple_andThen [OF fallback_assemble]
      stageTriple_andThen [OF fallback_prepareOptions]
      stageTriple_andThen [OF fallback_engineBuild]
      stageTriple_andThen [OF fallback_secureRepackage]
      fallback_pushStage)+

lemma incrementalPull_failure:
  assumes "Incremental (r_config r)" and "sourceStrategy r = Some ss"
    and "fst (pullNeeded env ss (IncrementalFromTag (r_config r)) r)"
    and "fst (timedPull env (IncrementalFromTag (r_config r))
                (GetDockerAuthSearchPaths env (PushAuthType env)) (StepPullInputImage env)
                (snd (pullNeeded env ss (IncrementalFromTag (r_config r)) r))) \<noteq> None"
  shows "fst (incrementalPull env r) = None"
    and "r_config (snd (incrementalPull env r))
           = (r_config r)\<lparr>Incremental := False, IncrementalFromTag := []\<rparr>"
    and "r_build (snd (incrementalPull env r)) = r_build r"
    and "filter isStatusUpdate (r_trace (snd (incrementalPull env r)))
           = filter isStatusUpdate (r_trace r)"
proof -
  let ?r1 = "snd (pullNeeded env ss (IncrementalFromTag (r_config r)) r)"
  let ?pull = "timedPull env (IncrementalFromTag (r_config r))
                 (GetDockerAuthSearchPaths env (PushAuthType env)) (StepPullInputImage env) ?r1"
  from assms(4) obtain e where e: "fst ?pull = Some e"
    by blast
  have "incrementalPull env r
          = continue (setConfig (\<lambda>c. c\<lparr>Incremental := False, IncrementalFromTag := []\<rparr>)
                        (snd ?pull))"
    using assms(1-3) e by (simp add: incrementalPull_def split_def)
  then show "fst (incrementalPull env r) = None"
    and "r_config (snd (incrementalPull env r))
           = (r_config r)\<lparr>Incremental := False, IncrementalFromTag := []\<rparr>"
    and "r_build (snd (incrementalPull env r)) = r_build r"
    and "filter isStatusUpdate (r_trace (snd (incrementalPull env r)))
           = filter isStatusUpdate (r_trace r)"
    by (simp_all add: continue_def setConfig_def)
qed

text \<open>
  Claim C2. In the incremental stage (lines 244 to 265): when the configuration is
  incremental, the pull of the previous output (the from-tag) is made and the retried
  pull fails, the stage falls through without an error, the configuration it leaves is
  the one it found with \<open>Incremental\<close> false and \<open>IncrementalFromTag\<close> empty, the build
  object (and with it phase, reason and message) is untouched and no status update is
  sent. For the whole of \<^verbatim>\<open>Build\<close>: when the request asks for an incremental build, the
  pull of its push tag is made whenever the stage is reached and fails whenever it is
  made, then every configuration handed to the validator, to the strategy factory and to
  the assembly is that of a full build, and so is the final configuration of a run that
  returns nil.
\<close>

theorem incremental_pull_failure_falls_back:
  "(Incremental (r_config r) \<and> sourceStrategy r = Some ss
      \<and> fst (pullNeeded env ss (IncrementalFromTag (r_config r)) r)
      \<and> fst (timedPull env (IncrementalFromTag (r_config r))
                (GetDockerAuthSearchPaths env (PushAuthType env)) (StepPullInputImage env)
                (snd (pullNeeded env ss (IncrementalFromTag (r_config r)) r))) \<noteq> None
    \<longrightarrow> fst (incrementalPull env r) = None
        \<and> r_config (snd (incrementalPull env r))
            = (r_config r)\<lparr>Incremental := False, IncrementalFromTag := []\<rparr>
        \<and> r_build (snd (incrementalPull env r)) = r_build r
        \<and> filter isStatusUpdate (r_trace (snd (incrementalPull env r)))
            = filter isStatusUpdate (r_trace r))
   \<and> (spec_SourceStrategy (b_Spec b) = Some ss' \<and> ss_Incremental ss' = Some True
      \<and> pullAttempted env ss' (pushTagOf b) \<and> pullFails env (pushTagOf b)
    \<longrightarrow> fullBuildsOnly (r_trace (snd (Build env b)))
        \<and> (fst (Build env b) = ReturnNil \<longrightarrow> fullBuild (r_config (snd (Build env b)))))"
proof -
  have run: "spec_SourceStrategy (b_Spec b) = Some ss' \<and> ss_Incremental ss' = Some True
      \<and> pullAttempted env ss' (pushTagOf b) \<and> pullFails env (pushTagOf b)
    \<longrightarrow> fullBuildsOnly (r_trace (snd (Build env b)))
        \<and> (fst (Build env b) = ReturnNil \<longrightarrow> fullBuild (r_config (snd (Build env b))))"
  proof
    assume h: "spec_SourceStrategy (b_Spec b) = Some ss' \<and> ss_Incremental ss' = Some True
      \<and> pullAttempted env ss' (pushTagOf b) \<and> pullFails env (pushTagOf b)"
    obtain x r' where body: "stages env (startRun b) = (x, r')"
      by (cases "stages env (startRun b)")
    have triple: "stageTriple (started b) (stages env) downgraded leftAsFullBuild"
      using h by (intro fallback_stages [of b ss']) simp_all
    have "started b (startRun b)"
      by (simp add: started_def)
    from stageTriple_run [OF triple this] body
    have post: "case x of None \<Rightarrow> downgraded r' | Some y \<Rightarrow> leftAsFullBuild y r'"
      by simp
    show "fullBuildsOnly (r_trace (snd (Build env b)))
        \<and> (fst (Build env b) = ReturnNil \<longrightarrow> fullBuild (r_config (snd (Build env b))))"
      using post
      by (cases x)
         (auto simp: Build_def body downgraded_def leftAsFullBuild_def deferredStatus_def
            deferredClose_def HandleBuildStatusUpdate_def setStatus_def emit_def)
  qed
  show ?thesis
    using incrementalPull_failure [of r ss env] run by blast
qed

theorem incremental_pull_failure_falls_back_witness:
  "Incremental (r_config plannedRun)
   \<and> fst (incrementalPull exampleEnv plannedRun) = None
   \<and> \<not> Incremental (r_config (snd (incrementalPull exampleEnv plannedRun)))
   \<and> IncrementalFromTag (r_config (snd (incrementalPull exampleEnv plannedRun))) = []
   \<and> b_Status (r_build (snd (incrementalPull exampleEnv plannedRun)))
       = b_Status incrementalBuild
   \<and> fst (Build exampleEnv incrementalBuild) = ReturnNil
   \<and> fullBuildsOnly (r_trace (snd (Build exampleEnv incrementalBuild)))
   \<and> fullBuild (r_config (snd (Build exampleEnv incrementalBuild)))
   \<and> st_Output_To (b_Status (r_build (snd (Build exampleEnv incrementalBuild))))
       = Some ''sha256:abc''"
proof -
  let ?ss = "exampleStrategy\<lparr>ss_Incremental := Some True, ss_ForcePull := True\<rparr>"
  note fallback =
    incremental_pull_failure_falls_back [of plannedRun ?ss exampleEnv incrementalBuild ?ss]
  have p: "Incremental (r_config plannedRun)" "sourceStrategy plannedRun = Some ?ss"
    "IncrementalFromTag (r_config plannedRun) = ''registry.local/demo/app:latest''"
    "r_build plannedRun = incrementalBuild"
    by (simp_all add: plannedRun_def startRun_def zeroConfig_def sourceStrategy_def
          incrementalBuild_def exampleSpec_def)
  have n: "fst (pullNeeded exampleEnv ?ss ''registry.local/demo/app:latest'' plannedRun)"
    by (simp add: pullNeeded_def)
  have po: "pullOptions exampleEnv ''registry.local/demo/app:latest''
              = \<lparr>po_Repository = ''registry.local/demo/app:latest'', po_Tag = []\<rparr>"
    by code_simp
  have rp: "retryPull exampleEnv h \<lparr>po_Repository = ''registry.local/demo/app:latest'',
              po_Tag = []\<rparr> paths \<noteq> None" for h paths
    by (simp add: exampleEnv_def)
  have f: "fst (timedPull exampleEnv ''registry.local/demo/app:latest''
                (GetDockerAuthSearchPaths exampleEnv (PushAuthType exampleEnv))
                (StepPullInputImage exampleEnv)
                (snd (pullNeeded exampleEnv ?ss ''registry.local/demo/app:latest'' plannedRun)))
           \<noteq> None"
    unfolding timedPull_def Let_def po using rp by simp
  have s: "spec_SourceStrategy (b_Spec incrementalBuild) = Some ?ss"
    "ss_Incremental ?ss = Some True"
    by (simp_all add: incrementalBuild_def exampleSpec_def)
  have t: "pushTagOf incrementalBuild = ''registry.local/demo/app:latest''"
    by code_simp
  have a: "pullAttempted exampleEnv ?ss (pushTagOf incrementalBuild)"
    by (simp add: pullAttempted_def)
  have l: "pullFails exampleEnv (pushTagOf incrementalBuild)"
    unfolding t pullFails_def po using rp by simp
  have ok: "fst (Build exampleEnv incrementalBuild) = ReturnNil"
    using observed(1) [OF run_incrementalBuild] by simp
  have d: "st_Output_To (b_Status (r_build (snd (Build exampleEnv incrementalBuild))))
       = Some ''sha256:abc''"
    using observed(3) [OF run_incrementalBuild] by simp
  have w1: "fst (incrementalPull exampleEnv plannedRun) = None"
    "\<not> Incremental (r_config (snd (incrementalPull exampleEnv plannedRun)))"
    "IncrementalFromTag (r_config (snd (incrementalPull exampleEnv plannedRun))) = []"
    "b_Status (r_build (snd (incrementalPull exampleEnv plannedRun))) = b_Status incrementalBuild"
    using fallback p n f by simp_all
  have w2: "fullBuildsOnly (r_trace (snd (Build exampleEnv incrementalBuild)))"
    "fullBuild (r_config (snd (Build exampleEnv incrementalBuild)))"
    using fallback s a l ok by simp_all
  show ?thesis
    by (intro conjI)
       (rule p(1), rule w1(1), rule w1(2), rule w1(3), rule w1(4), rule ok, rule w2(1),
        rule w2(2), rule d)
qed

subsection \<open>The registration of a confidential image\<close>

text \<open>
  Claim C3 holds for an answer that is not 2xx and fails for a transport failure. With an
  attestation service that answers 500, the confidential build returns nil with the
  digest recorded. With a service that cannot be reached, \<^verbatim>\<open>client.Do\<close> returns a nil
  response with its error; line 505 logs the error and line 508 goes on to evaluate
  \<^verbatim>\<open>resp.Body\<close>: \<^verbatim>\<open>Build\<close> panics after the two calls of the push, and the digest is
  not recorded.
\<close>

theorem registration_transport_failure_panics:
  "fst (Build registrationRejectsEnv confidentialBuild) = ReturnNil
   \<and> st_Output_To (b_Status (r_build (snd (Build registrationRejectsEnv confidentialBuild))))
       = Some ''sha256:abc''
   \<and> fst (Build registrationDownEnv confidentialBuild) = Panics
   \<and> st_Output_To (b_Status (r_build (snd (Build registrationDownEnv confidentialBuild))))
       = None
   \<and> length (filter isTagOrPush (r_trace (snd (Build registrationDownEnv confidentialBuild))))
       = 2"
proof -
  have a: "fst (Build registrationRejectsEnv confidentialBuild) = ReturnNil"
    using observed(1) [OF run_registrationRejects] by simp
  have b: "st_Output_To
             (b_Status (r_build (snd (Build registrationRejectsEnv confidentialBuild))))
       = Some ''sha256:abc''"
    using observed(3) [OF run_registrationRejects] by simp
  have c: "fst (Build registrationDownEnv confidentialBuild) = Panics"
    using observed(1) [OF run_registrationDown] by simp
  have d: "st_Output_To (b_Status (r_build (snd (Build registrationDownEnv confidentialBuild))))
       = None"
    using observed(3) [OF run_registrationDown] by simp
  have e: "length (filter isTagOrPush
             (r_trace (snd (Build registrationDownEnv confidentialBuild)))) = 2"
    using observed(8) [OF run_registrationDown] by simp
  show ?thesis
    by (intro conjI) (rule a, rule b, rule c, rule d, rule e)
qed

subsection \<open>The body of the attestation registration\<close>

lemma posts_simps [simp]:
  "posts [] = []"
  "posts (ev # tr) = (case postOf ev of None \<Rightarrow> posts tr | Some p \<Rightarrow> p # posts tr)"
  "posts (tr @ tr') = posts tr @ posts tr'"
proof -
  show "posts [] = []"
    by (simp add: posts_def map_filter_simps)
  show "posts (ev # tr) = (case postOf ev of None \<Rightarrow> posts tr | Some p \<Rightarrow> p # posts tr)"
    by (cases "postOf ev") (simp_all add: posts_def map_filter_simps)
  show "posts (tr @ tr') = posts tr @ posts tr'"
    by (simp add: posts_def map_filter_def)
qed

lemma run_confidentialBuild:
  "(let rf = snd (Build exampleEnv confidentialBuild)
    in (r_pushTag rf, r_cw_password rf, r_cw_workdir rf, r_cw_env rf,
        length (posts (r_trace rf))))
   = (''registry.local/demo/app:latest'', ''0b0e7a7c-secret'', ''/opt/app'', ''/opt/app'', 1)"
  by code_simp

lemmas unposted_defs = stageTriple_def

lemma unposted_checkSourceStrategy:
  "stageTriple (\<lambda>r. posts (r_trace r) = []) checkSourceStrategy
     (\<lambda>r. posts (r_trace r) = []) (\<lambda>x r. posts (r_trace r) = [])"
  by (auto simp: unposted_defs checkSourceStrategy_def run_ops split: option.splits)

lemma unposted_derivePushTag:
  "stageTriple (\<lambda>r. posts (r_trace r) = []) derivePushTag
     (\<lambda>r. posts (r_trace r) = []) (\<lambda>x r. posts (r_trace r) = [])"
  by (auto simp: unposted_defs derivePushTag_def run_ops Let_def)

lemma unposted_prepareConfig:
  "stageTriple (\<lambda>r. posts (r_trace r) = []) (prepareConfig env)
     (\<lambda>r. posts (r_trace r) = []) (\<lambda>x r. posts (r_trace r) = [])"
  by (auto simp: unposted_defs prepareConfig_def run_ops Let_def
           split: option.splits sum.splits error.splits res.splits)

lemma unposted_pullBaseImage:
  "stageTriple (\<lambda>r. posts (r_trace r) = []) (pullBaseImage env)
     (\<lambda>r. posts (r_trace r) = []) (\<lambda>x r. posts (r_trace r) = [])"
  by (auto simp: unposted_defs pullBaseImage_def pullNeeded_def timedPull_def run_ops Let_def
           split: option.splits prod.splits if_splits)

lemma unposted_incrementalPull:
  "stageTriple (\<lambda>r. posts (r_trace r) = []) (incrementalPull env)
     (\<lambda>r. posts (r_trace r) = []) (\<lambda>x r. posts (r_trace r) = [])"
  by (auto simp: unposted_defs incrementalPull_def pullNeeded_def timedPull_def run_ops Let_def
           split: option.splits prod.splits if_splits)

lemma unposted_introspectImage:
  "stageTriple (\<lambda>r. posts (r_trace r) = []) (introspectImage env)
     (\<lambda>r. posts (r_trace r) = []) (\<lambda>x r. posts (r_trace r) = [])"
  by (auto simp: unposted_defs introspectImage_def run_ops Let_def split: res.splits if_splits)

lemma unposted_setAllowedUIDs:
  "stageTriple (\<lambda>r. posts (r_trace r) = []) (setAllowedUIDs env)
     (\<lambda>r. posts (r_trace r) = []) (\<lambda>x r. posts (r_trace r) = [])"
  by (auto simp: unposted_defs setAllowedUIDs_def run_ops Let_def split: sum.splits if_splits)

lemma unposted_validateConfig:
  "stageTriple (\<lambda>r. posts (r_trace r) = []) (validateConfig env)
     (\<lambda>r. posts (r_trace r) = []) (\<lambda>x r. posts (r_trace r) = [])"
  by (auto simp: unposted_defs validateConfig_def run_ops Let_def split: if_splits)

lemma unposted_createBuilder:
  "stageTriple (\<lambda>r. posts (r_trace r) = []) (createBuilder env)
     (\<lambda>r. posts (r_trace r) = []) (\<lambda>x r. posts (r_trace r) = [])"
  by (auto simp: unposted_defs createBuilder_def run_ops Let_def
           split: option.splits prod.splits)

lemma unposted_assemble:
  "stageTriple (\<lambda>r. posts (r_trace r) = []) (assemble env)
     (\<lambda>r. posts (r_trace r) = []) (\<lambda>x r. posts (r_trace r) = [])"
  by (auto simp: unposted_defs assemble_def run_ops Let_def split: option.splits prod.splits)

lemma unposted_prepareOptions:
  "stageTriple (\<lambda>r. posts (r_trace r) = []) (prepareOptions env)
     (\<lambda>r. posts (r_trace r) = []) (\<lambda>x r. posts (r_trace r) = [])"
  by (auto simp: unposted_defs prepareOptions_def run_ops Let_def split: option.splits)

lemma unposted_engineBuild:
  "stageTriple (\<lambda>r. posts (r_trace r) = []) (engineBuild env)
     (\<lambda>r. posts (r_trace r) = []) (\<lambda>x r. posts (r_trace r) = [])"
  by (auto simp: unposted_defs engineBuild_def processRecipe_def run_ops Let_def
           split: option.splits prod.splits sum.splits if_splits)

lemma unposted_secureRepackage:
  "stageTriple (\<lambda>r. posts (r_trace r) = []) (secureRepackage env)
     (\<lambda>r. posts (r_trace r) = []) (\<lambda>x r. posts (r_trace r) = [])"
  by (auto simp: unposted_defs secureRepackage_def run_ops Let_def
           split: option.splits sum.splits if_splits)

lemma pushStage_registers:
  assumes "r_push r" and "tagImage env (r_trace r) (r_buildTag r) (r_pushTag r) = None"
    and "retryPush env (r_trace r @ [EvTagImage (r_buildTag r) (r_pushTag r), EvNow])
           (pushOptions env (r_pushTag r))
           (fst (GetDockerAuth env (r_pushTag r) (PushAuthType env))) = (d, None)"
    and "d \<noteq> []" and "r_cw_password r \<noteq> []"
  shows "posts (r_trace (snd (pushStage env r)))
           = posts (r_trace r) @ [(registrationURL, registrationBody env d r)]"
    and "pushReturned env (snd (pushStage env r))
           (r_trace r @ [EvTagImage (r_buildTag r) (r_pushTag r), EvNow]) d"
    and "registrationBody env d (snd (pushStage env r)) = registrationBody env d r"
  using assms
  by (auto simp: pushStage_def registerImage_def recordDigest_def andThen_def
        pushReturned_def registrationBody_def run_ops Let_def
        split: option.splits prod.splits)

lemma posted_pushStage:
  "stageTriple (\<lambda>r. posts (r_trace r) = []) (pushStage env)
     (digestPosted env) (\<lambda>x. digestPosted env)"
proof -
  have "digestPosted env (snd (pushStage env r))" if none: "posts (r_trace r) = []" for r
  proof (cases "r_push r \<and> tagImage env (r_trace r) (r_buildTag r) (r_pushTag r) = None
      \<and> snd (retryPush env (r_trace r @ [EvTagImage (r_buildTag r) (r_pushTag r), EvNow])
               (pushOptions env (r_pushTag r))
               (fst (GetDockerAuth env (r_pushTag r) (PushAuthType env)))) = None
      \<and> fst (retryPush env (r_trace r @ [EvTagImage (r_buildTag r) (r_pushTag r), EvNow])
               (pushOptions env (r_pushTag r))
               (fst (GetDockerAuth env (r_pushTag r) (PushAuthType env)))) \<noteq> []
      \<and> r_cw_password r \<noteq> []")
    case True
    let ?h = "r_trace r @ [EvTagImage (r_buildTag r) (r_pushTag r), EvNow]"
    let ?d = "fst (retryPush env ?h (pushOptions env (r_pushTag r))
                     (fst (GetDockerAuth env (r_pushTag r) (PushAuthType env))))"
    have ret: "retryPush env ?h (pushOptions env (r_pushTag r))
                 (fst (GetDockerAuth env (r_pushTag r) (PushAuthType env))) = (?d, None)"
      using True by (simp add: prod_eq_iff)
    from True have c: "r_push r" "tagImage env (r_trace r) (r_buildTag r) (r_pushTag r) = None"
      "?d \<noteq> []" "r_cw_password r \<noteq> []"
      by simp_all
    note reg = pushStage_registers [OF c(1) c(2) ret c(3) c(4)]
    show ?thesis
      unfolding digestPosted_def
      using reg none by (intro disjI2 exI [of _ ?h] exI [of _ ?d]) simp
  next
    case False
    then have "posts (r_trace (snd (pushStage env r))) = []"
      using none
      by (auto simp: pushStage_def registerImage_def recordDigest_def andThen_def
            run_ops Let_def split: option.splits prod.splits)
    then show ?thesis
      by (simp add: digestPosted_def)
  qed
  then show ?thesis
    by (auto simp: stageTriple_def) (metis snd_conv)+
qed

lemma stageTriple_exit:
  "stageTriple P f Q E \<Longrightarrow> (\<And>x r. E x r \<Longrightarrow> E' x r) \<Longrightarrow> stageTriple P f Q E'"
  unfolding stageTriple_def by blast

lemma posted_stages:
  "stageTriple (\<lambda>r. posts (r_trace r) = []) (stages env)
     (digestPosted env) (\<lambda>x. digestPosted env)"
proof -
  have unposted: "posts (r_trace r) = [] \<Longrightarrow> digestPosted env r" for r
    by (simp add: digestPosted_def)
  note then_stage = stageTriple_andThen [OF stageTriple_exit [OF _ unposted]]
  show ?thesis
    unfolding stages_def
    by (intro then_stage [OF unposted_checkSourceStrategy]
          then_stage [OF unposted_derivePushTag]
          then_stage [OF unposted_prepareConfig]
          then_stage [OF unposted_pullBaseImage]
          then_stage [OF unposted_incrementalPull]
          then_stage [OF unposted_introspectImage]
          then_stage [OF unposted_setAllowedUIDs]
          then_stage [OF unposted_validateConfig]
          then_stage [OF unposted_createBuilder]
          then_stage [OF unposted_assemble]
          then_stage [OF unposted_prepareOptions]
          then_stage [OF unposted_engineBuild]
          then_stage [OF unposted_secureRepackage]
          posted_pushStage)
qed

lemma digestPosted_later:
  assumes "digestPosted env r" and "r_trace r' = r_trace r @ evs" and "posts evs = []"
    and "r_pushTag r' = r_pushTag r" and "r_cw_password r' = r_cw_password r"
    and "r_cw_workdir r' = r_cw_workdir r" and "r_cw_env r' = r_cw_env r"
  shows "digestPosted env r'"
proof (cases "posts (r_trace r) = []")
  case True
  then show ?thesis
    using assms(2,3) by (simp add: digestPosted_def)
next
  case False
  with assms(1) obtain h d where ret: "pushReturned env r h d"
    and one: "posts (r_trace r) = [(registrationURL, registrationBody env d r)]"
    unfolding digestPosted_def by blast
  from ret obtain evs0 where
    "r_trace r = h @ EvPushImage (pushOptions env (r_pushTag r))
                       (fst (GetDockerAuth env (r_pushTag r) (PushAuthType env))) # evs0"
    unfolding pushReturned_def by blast
  then have "r_trace r' = h @ EvPushImage (pushOptions env (r_pushTag r'))
                       (fst (GetDockerAuth env (r_pushTag r') (PushAuthType env))) # (evs0 @ evs)"
    using assms(2,4) by simp
  then have "pushReturned env r' h d"
    using ret assms(4) unfolding pushReturned_def by auto
  moreover have "posts (r_trace r') = [(registrationURL, registrationBody env d r')]"
    using one assms(2-7) by (simp add: registrationBody_def)
  ultimately show ?thesis
    unfolding digestPosted_def by blast
qed

lemma Build_digestPosted: "digestPosted env (snd (Build env b))"
proof -
  obtain x r where body: "stages env (startRun b) = (x, r)"
    by (cases "stages env (startRun b)")
  have "posts (r_trace (startRun b)) = []"
    by (simp add: startRun_def)
  from stageTriple_run [OF posted_stages, of "startRun b" env, OF this] body
  have "digestPosted env r"
    by (cases x) simp_all
  moreover have "r_trace (deferredStatus env (deferredClose r)) = r_trace r @
      ((if r_closeBody r then [EvCloseBody] else [])
       @ [EvStatusUpdate (b_Status (r_build (deferredStatus env (deferredClose r))))])"
    by (simp add: deferredStatus_def deferredClose_def HandleBuildStatusUpdate_def
          setStatus_def emit_def)
  moreover have "posts ((if r_closeBody r then [EvCloseBody] else [])
       @ [EvStatusUpdate (b_Status (r_build (deferredStatus env (deferredClose r))))]) = []"
    by simp
  moreover have "r_pushTag (deferredStatus env (deferredClose r)) = r_pushTag r"
    "r_cw_password (deferredStatus env (deferredClose r)) = r_cw_password r"
    "r_cw_workdir (deferredStatus env (deferredClose r)) = r_cw_workdir r"
    "r_cw_env (deferredStatus env (deferredClose r)) = r_cw_env r"
    by (simp_all add: deferredStatus_def deferredClose_def HandleBuildStatusUpdate_def
          setStatus_def emit_def)
  ultimately have "digestPosted env (deferredStatus env (deferredClose r))"
    by (rule digestPosted_later)
  then show ?thesis
    by (simp add: Build_def body)
qed

text \<open>
  Claim C6, amended. The payload is the concatenation of line 498: its \<open>sha\<close> field is
  the digest returned by the push and its \<open>name\<close> field is the push tag with every
  occurrence of ":latest" removed. A push tag in which ":latest" does not occur is
  written unchanged, and a push tag in which it occurs only as the trailing suffix is
  written without the suffix. The payload is what the registration posts. In the push
  stage (lines 465 to 517), when the image is tagged, the retried push returns the digest
  \<open>d\<close> without an error, \<open>d\<close> is not empty and a secure repackaging set the password,
  exactly one request is posted, to the registration address, and its body is the payload
  for \<open>d\<close> and the push tag. In every run of \<^verbatim>\<open>Build\<close>, either nothing is posted, or
  exactly one request is posted, to the registration address, with the payload for the
  push tag and the digest that the push call of the run returned.
\<close>

theorem attestation_payload_name:
  "jsonStr env digest pushTag cmdLine =
     ''{\"sha\":\"'' @ digest @ ''\",\"name\":\"'' @ attestationName pushTag
     @ ''\",\"kernel_cmd_line\":\"'' @ base64_EncodeToString env cmdLine @ ''\"}''
   \<and> attestationName (a @ '':latest'' @ b) = attestationName a @ attestationName b
   \<and> (\<not> Contains pushTag '':latest'' \<longrightarrow>
        attestationName pushTag = pushTag \<and> attestationName (pushTag @ '':latest'') = pushTag)
   \<and> (r_cw_password r \<noteq> [] \<longrightarrow>
        r_trace (snd (registerImage env digest r)) =
          r_trace r @ [EvHttpPost registrationURL
                         (jsonStr env digest (r_pushTag r)
                            (kernelCmdLine (r_cw_password r) (r_cw_workdir r) (r_cw_env r)))])
   \<and> (r_push r \<and> tagImage env (r_trace r) (r_buildTag r) (r_pushTag r) = None
        \<and> retryPush env (r_trace r @ [EvTagImage (r_buildTag r) (r_pushTag r), EvNow])
              (pushOptions env (r_pushTag r))
              (fst (GetDockerAuth env (r_pushTag r) (PushAuthType env))) = (d, None)
        \<and> d \<noteq> [] \<and> r_cw_password r \<noteq> [] \<longrightarrow>
        posts (r_trace (snd (pushStage env r))) =
          posts (r_trace r)
          @ [(registrationURL,
              jsonStr env d (r_pushTag r)
                (kernelCmdLine (r_cw_password r) (r_cw_workdir r) (r_cw_env r)))])
   \<and> (posts (r_trace (snd (Build env bld))) = []
       \<or> (\<exists>h evs d'.
             r_trace (snd (Build env bld)) =
               h @ EvPushImage (pushOptions env (r_pushTag (snd (Build env bld))))
                     (fst (GetDockerAuth env (r_pushTag (snd (Build env bld)))
                             (PushAuthType env))) # evs
             \<and> retryPush env h (pushOptions env (r_pushTag (snd (Build env bld))))
                   (fst (GetDockerAuth env (r_pushTag (snd (Build env bld)))
                           (PushAuthType env))) = (d', None)
             \<and> posts (r_trace (snd (Build env bld))) =
                 [(registrationURL,
                   jsonStr env d' (r_pushTag (snd (Build env bld)))
                     (kernelCmdLine (r_cw_password (snd (Build env bld)))
                        (r_cw_workdir (snd (Build env bld)))
                        (r_cw_env (snd (Build env bld)))))]))"
proof -
  have post: "r_cw_password r \<noteq> [] \<longrightarrow>
        r_trace (snd (registerImage env digest r)) =
          r_trace r @ [EvHttpPost registrationURL
                         (jsonStr env digest (r_pushTag r)
                            (kernelCmdLine (r_cw_password r) (r_cw_workdir r) (r_cw_env r)))]"
    by (simp add: registerImage_def Let_def emit_def leave_def continue_def
             split: prod.split option.split)
  have json: "jsonStr env digest pushTag cmdLine =
     ''{\"sha\":\"'' @ digest @ ''\",\"name\":\"'' @ attestationName pushTag
     @ ''\",\"kernel_cmd_line\":\"'' @ base64_EncodeToString env cmdLine @ ''\"}''"
    by (simp add: jsonStr_def)
  have only: "\<not> Contains pushTag '':latest'' \<longrightarrow>
        attestationName pushTag = pushTag \<and> attestationName (pushTag @ '':latest'') = pushTag"
    using attestationName_absent attestationName_suffix by blast
  have pushed: "r_push r \<and> tagImage env (r_trace r) (r_buildTag r) (r_pushTag r) = None
        \<and> retryPush env (r_trace r @ [EvTagImage (r_buildTag r) (r_pushTag r), EvNow])
              (pushOptions env (r_pushTag r))
              (fst (GetDockerAuth env (r_pushTag r) (PushAuthType env))) = (d, None)
        \<and> d \<noteq> [] \<and> r_cw_password r \<noteq> [] \<longrightarrow>
        posts (r_trace (snd (pushStage env r))) =
          posts (r_trace r)
          @ [(registrationURL,
              jsonStr env d (r_pushTag r)
                (kernelCmdLine (r_cw_password r) (r_cw_workdir r) (r_cw_env r)))]"
    using pushStage_registers(1) [of r env d] by (simp add: registrationBody_def)
  have whole: "posts (r_trace (snd (Build env bld))) = []
       \<or> (\<exists>h evs d'.
             r_trace (snd (Build env bld)) =
               h @ EvPushImage (pushOptions env (r_pushTag (snd (Build env bld))))
                     (fst (GetDockerAuth env (r_pushTag (snd (Build env bld)))
                             (PushAuthType env))) # evs
             \<and> retryPush env h (pushOptions env (r_pushTag (snd (Build env bld))))
                   (fst (GetDockerAuth env (r_pushTag (snd (Build env bld)))
                           (PushAuthType env))) = (d', None)
             \<and> posts (r_trace (snd (Build env bld))) =
                 [(registrationURL,
                   jsonStr env d' (r_pushTag (snd (Build env bld)))
                     (kernelCmdLine (r_cw_password (snd (Build env bld)))
                        (r_cw_workdir (snd (Build env bld)))
                        (r_cw_env (snd (Build env bld)))))])"
    using Build_digestPosted [of env bld]
    unfolding digestPosted_def pushReturned_def registrationBody_def by blast
  show ?thesis
    by (intro conjI)
       (rule json, rule attestationName_removes_each, rule only, rule post, rule pushed,
        rule whole)
qed

theorem attestation_payload_name_witness:
  "attestationName (''app'' @ '':latest'' @ ''-cw'') = ''app-cw''
   \<and> \<not> Contains ''registry.local/demo/app'' '':latest''
   \<and> attestationName ''registry.local/demo/app'' = ''registry.local/demo/app''
   \<and> attestationName (''registry.local/demo/app'' @ '':latest'') = ''registry.local/demo/app''
   \<and> r_cw_password repackagedRun \<noteq> []
   \<and> r_trace (snd (registerImage exampleEnv ''sha256:abc'' repackagedRun)) =
       [EvHttpPost registrationURL
          (''{\"sha\":\"sha256:abc\",\"name\":\"registry.local/demo/app\",\"kernel_cmd_line\":\"''
           @ kernelCmdLine ''0b0e7a7c-secret'' ''/opt/app'' ''PATH=/bin'' @ ''\"}'')]
   \<and> retryPush exampleEnv [EvTagImage [] ''registry.local/demo/app:latest'', EvNow]
         (pushOptions exampleEnv ''registry.local/demo/app:latest'')
         (fst (GetDockerAuth exampleEnv ''registry.local/demo/app:latest''
                 (PushAuthType exampleEnv))) = (''sha256:abc'', None)
   \<and> posts (r_trace (snd (pushStage exampleEnv (repackagedRun\<lparr>r_push := True\<rparr>)))) =
       [(registrationURL,
         ''{\"sha\":\"sha256:abc\",\"name\":\"registry.local/demo/app\",\"kernel_cmd_line\":\"''
         @ kernelCmdLine ''0b0e7a7c-secret'' ''/opt/app'' ''PATH=/bin'' @ ''\"}'')]
   \<and> posts (r_trace (snd (Build exampleEnv confidentialBuild))) =
       [(registrationURL,
         ''{\"sha\":\"sha256:abc\",\"name\":\"registry.local/demo/app\",\"kernel_cmd_line\":\"''
         @ kernelCmdLine ''0b0e7a7c-secret'' ''/opt/app'' ''/opt/app'' @ ''\"}'')]"
proof -
  let ?r = "repackagedRun\<lparr>r_push := True\<rparr>"
  let ?rf = "snd (Build exampleEnv confidentialBuild)"
  note stage = attestation_payload_name [where env = exampleEnv and digest = "''sha256:abc''"
      and pushTag = "''registry.local/demo/app''" and cmdLine = "[]" and a = "''app''"
      and b = "''-cw''" and r = repackagedRun and d = "''sha256:abc''"
      and bld = confidentialBuild]
  note push = attestation_payload_name [where env = exampleEnv and digest = "''sha256:abc''"
      and pushTag = "''registry.local/demo/app''" and cmdLine = "[]" and a = "''app''"
      and b = "''-cw''" and r = ?r and d = "''sha256:abc''"
      and bld = confidentialBuild]
  have c: "\<not> Contains ''registry.local/demo/app'' '':latest''"
    by code_simp
  have n: "attestationName ''app'' = ''app''" "attestationName ''-cw'' = ''-cw''"
    by code_simp+
  have p: "r_cw_password repackagedRun = ''0b0e7a7c-secret''"
    "r_cw_workdir repackagedRun = ''/opt/app''" "r_cw_env repackagedRun = ''PATH=/bin''"
    "r_pushTag repackagedRun = ''registry.local/demo/app'' @ '':latest''"
    "r_trace repackagedRun = []" "r_buildTag repackagedRun = []"
    by (simp_all add: repackagedRun_def startRun_def)
  have e: "base64_EncodeToString exampleEnv = (\<lambda>v. v)"
    by (simp add: exampleEnv_def)
  have t: "tagImage exampleEnv h x y = None" for h x y
    by (simp add: exampleEnv_def)
  have ret: "retryPush exampleEnv h opts auth = (''sha256:abc'', None)" for h opts auth
    by (simp add: exampleEnv_def)
  have w1: "attestationName (''app'' @ '':latest'' @ ''-cw'') = ''app-cw''"
    using stage n by simp
  have w2: "attestationName ''registry.local/demo/app'' = ''registry.local/demo/app''"
    "attestationName (''registry.local/demo/app'' @ '':latest'') = ''registry.local/demo/app''"
    using stage c by simp_all
  have w3: "r_trace (snd (registerImage exampleEnv ''sha256:abc'' repackagedRun)) =
       [EvHttpPost registrationURL
          (''{\"sha\":\"sha256:abc\",\"name\":\"registry.local/demo/app\",\"kernel_cmd_line\":\"''
           @ kernelCmdLine ''0b0e7a7c-secret'' ''/opt/app'' ''PATH=/bin'' @ ''\"}'')]"
    using stage w2 by (simp add: p e jsonStr_def)
  have w4: "posts (r_trace (snd (pushStage exampleEnv ?r))) =
       [(registrationURL,
         ''{\"sha\":\"sha256:abc\",\"name\":\"registry.local/demo/app\",\"kernel_cmd_line\":\"''
         @ kernelCmdLine ''0b0e7a7c-secret'' ''/opt/app'' ''PATH=/bin'' @ ''\"}'')]"
    using push w2 by (simp add: p e t ret jsonStr_def)
  have posted: "posts (r_trace ?rf) \<noteq> []"
    using run_confidentialBuild by (auto simp: Let_def)
  with stage obtain h evs d' where
    d': "retryPush exampleEnv h (pushOptions exampleEnv (r_pushTag ?rf))
           (fst (GetDockerAuth exampleEnv (r_pushTag ?rf) (PushAuthType exampleEnv)))
         = (d', None)"
    and body: "posts (r_trace ?rf) =
                 [(registrationURL,
                   jsonStr exampleEnv d' (r_pushTag ?rf)
                     (kernelCmdLine (r_cw_password ?rf) (r_cw_workdir ?rf) (r_cw_env ?rf)))]"
    by blast
  from d' have "d' = ''sha256:abc''"
    by (simp add: ret)
  moreover have "r_pushTag ?rf = ''registry.local/demo/app'' @ '':latest''"
    "r_cw_password ?rf = ''0b0e7a7c-secret''" "r_cw_workdir ?rf = ''/opt/app''"
    "r_cw_env ?rf = ''/opt/app''"
    using run_confidentialBuild by (simp_all add: Let_def)
  ultimately have w5: "posts (r_trace ?rf) =
       [(registrationURL,
         ''{\"sha\":\"sha256:abc\",\"name\":\"registry.local/demo/app\",\"kernel_cmd_line\":\"''
         @ kernelCmdLine ''0b0e7a7c-secret'' ''/opt/app'' ''/opt/app'' @ ''\"}'')]"
    using body w2 by (simp add: e jsonStr_def)
  show ?thesis
    by (intro conjI)
       (rule w1, rule c, rule w2(1), rule w2(2), simp add: p, rule w3, rule ret, rule w4,
        rule w5)
qed

end
